theory Spec2Isabelle
  imports Main "HOL-Library.Char_ord" "HOL-Library.List_Lexorder" "HOL-Library.Sublist"
begin

section \<open>Schema comparison of two geodatabase exports (schema compare)\<close>

text \<open>
  The script reads two XML workspace documents, normalises seven categories of entities
  into Python dictionaries and lists, compares them category by category and writes the
  differences to a workbook. This theory embeds the normalisation of the domains, of
  the feature classes and tables, of the relationship classes and of the attribute
  rules, the comparison functions of all seven categories, the function that writes a
  sheet and the part of the script that gathers the results.

  Conventions of the embedding.
  \<^item> A Python string is a \<open>string\<close>; a character stands for a code point below 256.
  \<^item> The text of an XML element is a \<open>string option\<close>: lxml gives \<open>None\<close> for an
    element without text.
  \<^item> A Python dictionary is an association list in insertion order, built only through
    \<open>dict_set\<close>, which keeps the position of a key that is already there.
    Equality of dictionaries ignores the order, as Python's does.
  \<^item> An exception is a value \<open>Inl e\<close> of the sum type \<open>error + 'a\<close>.
  \<^item> A local variable that may be read before it is assigned is an \<open>option\<close>:
    \<open>None\<close> is the unbound variable, and reading it raises UnboundLocalError.
  \<^item> A document holds elements only (no comments or processing instructions).
\<close>

subsection \<open>Exceptions\<close>

datatype error =
  UnboundLocalError | KeyError | TypeError | AttributeError | IndexError | ValueError

definition bindE :: "error + 'a \<Rightarrow> ('a \<Rightarrow> error + 'b) \<Rightarrow> error + 'b" where
  "bindE m f = (case m of Inl e \<Rightarrow> Inl e | Inr x \<Rightarrow> f x)"

text \<open>A \<open>for\<close> loop whose body may raise: the state is threaded through the elements
  and the first exception ends the loop.\<close>

fun foldE :: "('a \<Rightarrow> 's \<Rightarrow> error + 's) \<Rightarrow> 'a list \<Rightarrow> 's \<Rightarrow> error + 's" where
  "foldE f [] s = Inr s"
| "foldE f (x # xs) s = bindE (f x s) (foldE f xs)"

text \<open>A list comprehension whose element expression may raise.\<close>

fun mapE :: "('a \<Rightarrow> error + 'b) \<Rightarrow> 'a list \<Rightarrow> error + 'b list" where
  "mapE f [] = Inr []"
| "mapE f (x # xs) = bindE (f x) (\<lambda>y. bindE (mapE f xs) (\<lambda>ys. Inr (y # ys)))"

subsection \<open>XML documents\<close>

type_synonym xtext = "string option"

datatype element =
  Element (tag: string) (attrib: "(string \<times> string) list") (text_of: xtext)
    (getchildren: "element list")

text \<open>\<open>e.iter()\<close>: the element itself and its descendants, in document order.\<close>

fun iter :: "element \<Rightarrow> element list" where
  "iter (Element t a x cs) = Element t a x cs # concat (map iter cs)"

text \<open>\<open>e.iter(t)\<close>: the same, restricted to the elements tagged \<open>t\<close>.\<close>

definition iter_tag :: "string \<Rightarrow> element \<Rightarrow> element list" where
  "iter_tag t e = filter (\<lambda>x. tag x = t) (iter e)"

text \<open>\<open>e.iter()\<close> with, for each element, the tag of its parent
  (\<open>x.getparent().tag\<close>). The first element is the one the iteration starts from;
  the script never asks for its parent, and it is listed with \<open>None\<close>.\<close>

fun iter_parent :: "string option \<Rightarrow> element \<Rightarrow> (string option \<times> element) list" where
  "iter_parent p (Element t a x cs) =
     (p, Element t a x cs) # concat (map (iter_parent (Some t)) cs)"

text \<open>\<open>elem.attrib.values()[0]\<close>\<close>

definition first_attrib :: "element \<Rightarrow> error + string" where
  "first_attrib e = (case attrib e of [] \<Rightarrow> Inl IndexError | (k, v) # _ \<Rightarrow> Inr v)"

subsection \<open>Python values\<close>

text \<open>The values stored in a normalised entity: the text of an element, a list of
  texts, a dictionary from text to text, or a list of dictionaries from tag to text.\<close>

datatype pyval =
  Scalar xtext
| StrList "xtext list"
| Dict "(xtext \<times> xtext) list"
| DictList "(string \<times> xtext) list list"

type_synonym entity = "(string \<times> pyval) list"

text \<open>\<open>d[k] = v\<close>\<close>

fun dict_set :: "('k \<times> 'v) list \<Rightarrow> 'k \<Rightarrow> 'v \<Rightarrow> ('k \<times> 'v) list" where
  "dict_set [] k v = [(k, v)]"
| "dict_set ((k', v') # d) k v = (if k' = k then (k, v) # d else (k', v') # dict_set d k v)"

text \<open>\<open>d[k]\<close>\<close>

definition dict_get :: "('k \<times> 'v) list \<Rightarrow> 'k \<Rightarrow> error + 'v" where
  "dict_get d k = (case map_of d k of None \<Rightarrow> Inl KeyError | Some v \<Rightarrow> Inr v)"

text \<open>\<open>del d[k]\<close>\<close>

definition dict_del :: "('k \<times> 'v) list \<Rightarrow> 'k \<Rightarrow> error + ('k \<times> 'v) list" where
  "dict_del d k =
     (if k \<in> set (map fst d) then Inr (filter (\<lambda>kv. fst kv \<noteq> k) d) else Inl KeyError)"

text \<open>\<open>d1 == d2\<close> for dictionaries: the same keys, with equal values.\<close>

definition dict_eq :: "('v \<Rightarrow> 'v \<Rightarrow> bool) \<Rightarrow> ('k \<times> 'v) list \<Rightarrow> ('k \<times> 'v) list \<Rightarrow> bool" where
  "dict_eq veq a b =
     list_all (\<lambda>k. case (map_of a k, map_of b k) of
                      (Some x, Some y) \<Rightarrow> veq x y
                    | _ \<Rightarrow> False)
       (map fst a @ map fst b)"

fun py_eq :: "pyval \<Rightarrow> pyval \<Rightarrow> bool" where
  "py_eq (Scalar a) (Scalar b) = (a = b)"
| "py_eq (StrList a) (StrList b) = (a = b)"
| "py_eq (Dict a) (Dict b) = dict_eq (=) a b"
| "py_eq (DictList a) (DictList b) = list_all2 (dict_eq (=)) a b"
| "py_eq (StrList a) (DictList b) = (a = [] \<and> b = [])"
| "py_eq (DictList a) (StrList b) = (a = [] \<and> b = [])"
| "py_eq _ _ = False"

definition entity_eq :: "entity \<Rightarrow> entity \<Rightarrow> bool" where
  "entity_eq = dict_eq py_eq"

text \<open>\<open>x in xs\<close> for a list of entities.\<close>

definition entity_in :: "entity \<Rightarrow> entity list \<Rightarrow> bool" where
  "entity_in x xs = list_ex (entity_eq x) xs"

text \<open>\<open>xs.sort(key=f)\<close> and \<open>sorted(xs, key=f)\<close> where the keys are texts. Python
  compares strings by code point and keeps the order of equal keys. Comparing
  \<open>None\<close> with anything raises TypeError, and with two or more elements every element
  is compared at least once.\<close>

definition str_key :: "xtext \<Rightarrow> string" where
  "str_key k = (case k of None \<Rightarrow> [] | Some s \<Rightarrow> s)"

definition py_sort :: "('a \<Rightarrow> xtext) \<Rightarrow> 'a list \<Rightarrow> error + 'a list" where
  "py_sort f xs =
     (if 2 \<le> length xs \<and> None \<in> set (map f xs) then Inl TypeError
      else Inr (sort_key (\<lambda>x. str_key (f x)) xs))"

text \<open>\<open>d[k]\<close> and \<open>operator.itemgetter(k)(d)\<close> where the script reads the name of an
  entity. In every entity it builds the name is the text of an element; for a value of
  another kind the model raises TypeError.\<close>

definition itemgetter :: "string \<Rightarrow> entity \<Rightarrow> error + xtext" where
  "itemgetter k d =
     bindE (dict_get d k) (\<lambda>v. case v of Scalar t \<Rightarrow> Inr t | _ \<Rightarrow> Inl TypeError)"

text \<open>\<open>xs.sort(key=operator.itemgetter(k))\<close>: the keys are computed first (KeyError
  when an entity has no \<open>k\<close>), then the list is sorted.\<close>

definition sort_by_item :: "string \<Rightarrow> entity list \<Rightarrow> error + entity list" where
  "sort_by_item k xs =
     bindE (mapE (itemgetter k) xs) (\<lambda>keys.
       bindE (py_sort fst (zip keys xs)) (\<lambda>ys. Inr (map snd ys)))"

text \<open>\<open>str(x)\<close> and \<open>'{}'.format(x)\<close> of a text.\<close>

definition str_text :: "xtext \<Rightarrow> string" where
  "str_text t = (case t of None \<Rightarrow> ''None'' | Some s \<Rightarrow> s)"

subsection \<open>Normalising the domains\<close>

text \<open>The local variables of \<open>get_domain_properties\<close> that outlive a loop body.\<close>

record domain_locals =
  domain_list :: "entity list option"
  cv_name :: "xtext option"
  max_value :: "xtext option"

text \<open>The body of \<open>for cv_prop in cv.iter()\<close>.\<close>

definition cv_prop_step ::
  "element \<Rightarrow> xtext option \<times> (xtext \<times> xtext) list \<Rightarrow> error + xtext option \<times> (xtext \<times> xtext) list"
where
  "cv_prop_step cv_prop s =
     (case s of (nm, cv_dict) \<Rightarrow>
        if tag cv_prop = ''Name'' then Inr (Some (text_of cv_prop), cv_dict)
        else if tag cv_prop = ''Code'' then
          (case nm of
             None \<Rightarrow> Inl UnboundLocalError
           | Some n \<Rightarrow> Inr (nm, dict_set cv_dict n (text_of cv_prop)))
        else Inr (nm, cv_dict))"

text \<open>\<open>dict(sorted(cv_dict.items()))\<close>: the keys of a dictionary are distinct, so
  the comparison of two items is decided by their keys.\<close>

definition sorted_items :: "(xtext \<times> xtext) list \<Rightarrow> error + (xtext \<times> xtext) list" where
  "sorted_items d = py_sort fst d"

text \<open>The body of \<open>for domain_prop in list(elem.iter())\<close>. The state is the
  dictionary of the domain, the coded values seen so far and the two variables
  \<open>name\<close> and \<open>max_value\<close>.\<close>

definition domain_prop_step ::
  "element \<Rightarrow> entity \<times> (xtext \<times> xtext) list \<times> xtext option \<times> xtext option
     \<Rightarrow> error + entity \<times> (xtext \<times> xtext) list \<times> xtext option \<times> xtext option"
where
  "domain_prop_step domain_prop s =
     (case s of (domain_dict, cv_dict, nm, mx) \<Rightarrow>
        if tag domain_prop \<in> set [''DomainName'', ''FieldType'', ''MergePolicy'', ''SplitPolicy'']
        then Inr (dict_set domain_dict (tag domain_prop) (Scalar (text_of domain_prop)), cv_dict, nm, mx)
        else if tag domain_prop = ''CodedValues'' then
          bindE (foldE cv_prop_step (concat (map iter (getchildren domain_prop))) (nm, cv_dict))
            (\<lambda>(nm', cv_dict').
               bindE (sorted_items cv_dict') (\<lambda>sorted_cv_dict.
                 Inr (dict_set domain_dict ''CodedValues'' (Dict sorted_cv_dict), cv_dict', nm', mx)))
        else if tag domain_prop = ''MaxValue'' then
          Inr (domain_dict, cv_dict, nm, Some (text_of domain_prop))
        else if tag domain_prop = ''MinValue'' then
          (case mx of
             None \<Rightarrow> Inl UnboundLocalError
           | Some max_v \<Rightarrow>
               Inr (dict_set domain_dict ''Range''
                      (Scalar (Some (str_text (text_of domain_prop) @ '' - '' @ str_text max_v))),
                    cv_dict, nm, mx))
        else Inr s)"

text \<open>The body of \<open>for elem in node.iter("Domain")\<close>.\<close>

definition domain_elem_step :: "element \<Rightarrow> domain_locals \<Rightarrow> error + domain_locals" where
  "domain_elem_step elem l =
     bindE (foldE domain_prop_step (iter elem) ([], [], cv_name l, max_value l))
       (\<lambda>(domain_dict, cv_dict, nm, mx).
          case domain_list l of
            None \<Rightarrow> Inl UnboundLocalError
          | Some dl \<Rightarrow>
              Inr (l\<lparr>domain_list := Some (dl @ [domain_dict]), cv_name := nm, max_value := mx\<rparr>))"

text \<open>The body of \<open>for node in tree.iter("Domains")\<close>.\<close>

definition domains_node_step :: "element \<Rightarrow> domain_locals \<Rightarrow> error + domain_locals" where
  "domains_node_step node l =
     foldE domain_elem_step (iter_tag ''Domain'' node) (l\<lparr>domain_list := Some []\<rparr>)"

definition get_domain_properties :: "element \<Rightarrow> error + entity list" where
  "get_domain_properties tree =
     bindE (foldE domains_node_step (iter_tag ''Domains'' tree)
              \<lparr>domain_list = None, cv_name = None, max_value = None\<rparr>)
       (\<lambda>l. case domain_list l of
               None \<Rightarrow> Inl UnboundLocalError
             | Some dl \<Rightarrow> sort_by_item ''DomainName'' dl)"

subsection \<open>Printing values\<close>

text \<open>\<open>repr\<close> of a string: single quotes, unless the string has a single quote and no
  double quote; a backslash, the chosen quote and the characters that are not printable
  are escaped.\<close>

definition printable :: "char \<Rightarrow> bool" where
  "printable c =
     (let n = (of_char c :: nat) in (32 \<le> n \<and> n < 127) \<or> (161 \<le> n \<and> n \<noteq> 173))"

definition hex_digit :: "nat \<Rightarrow> char" where
  "hex_digit n = (if n < 10 then char_of (48 + n) else char_of (87 + n))"

definition repr_char :: "char \<Rightarrow> char \<Rightarrow> string" where
  "repr_char q c =
     (if c = CHR 0x5C then [CHR 0x5C, CHR 0x5C]
      else if c = q then [CHR 0x5C, q]
      else if c = CHR 0x09 then [CHR 0x5C, CHR ''t'']
      else if c = CHR 0x0A then [CHR 0x5C, CHR ''n'']
      else if c = CHR 0x0D then [CHR 0x5C, CHR ''r'']
      else if printable c then [c]
      else [CHR 0x5C, CHR ''x'', hex_digit (of_char c div 16), hex_digit (of_char c mod 16)])"

definition repr_str :: "string \<Rightarrow> string" where
  "repr_str s =
     (let q = (if CHR 0x27 \<in> set s \<and> CHR 0x22 \<notin> set s then CHR 0x22 else CHR 0x27)
      in [q] @ concat (map (repr_char q) s) @ [q])"

definition repr_text :: "xtext \<Rightarrow> string" where
  "repr_text t = (case t of None \<Rightarrow> ''None'' | Some s \<Rightarrow> repr_str s)"

text \<open>\<open>', '.join(xs)\<close>\<close>

fun join_comma :: "string list \<Rightarrow> string" where
  "join_comma [] = []"
| "join_comma [x] = x"
| "join_comma (x # y # ys) = x @ '', '' @ join_comma (y # ys)"

definition repr_dict :: "('k \<Rightarrow> string) \<Rightarrow> ('k \<times> xtext) list \<Rightarrow> string" where
  "repr_dict rk d =
     ''{'' @ join_comma (map (\<lambda>(k, v). rk k @ '': '' @ repr_text v) d) @ ''}''"

definition repr_list :: "('a \<Rightarrow> string) \<Rightarrow> 'a list \<Rightarrow> string" where
  "repr_list r xs = ''['' @ join_comma (map r xs) @ '']''"

text \<open>\<open>str(v)\<close>\<close>

fun py_str :: "pyval \<Rightarrow> string" where
  "py_str (Scalar t) = str_text t"
| "py_str (StrList xs) = repr_list repr_text xs"
| "py_str (Dict d) = repr_dict repr_text d"
| "py_str (DictList ds) = repr_list (repr_dict repr_str) ds"

subsection \<open>The result of a comparison\<close>

text \<open>A difference is a triple (description, base value, test value). The dictionary
  of mismatches maps the name of an entity to the list of its differences; two
  branches of \<open>compare_datasets\<close> store a bare triple instead of a list.\<close>

type_synonym triple = "string \<times> pyval \<times> pyval"

datatype entry = EList "triple list" | ETuple triple

type_synonym 'k mismatches = "('k \<times> entry) list"

text \<open>\<open>d[k].append(t)\<close>: a tuple has no \<open>append\<close>.\<close>

definition entry_append :: "'k mismatches \<Rightarrow> 'k \<Rightarrow> triple \<Rightarrow> error + 'k mismatches" where
  "entry_append d k t =
     (case map_of d k of
        None \<Rightarrow> Inl KeyError
      | Some (EList ts) \<Rightarrow> Inr (dict_set d k (EList (ts @ [t])))
      | Some (ETuple _) \<Rightarrow> Inl AttributeError)"

text \<open>\<open>if k in d.keys(): d[k].append(t) else: d[k] = [t]\<close>\<close>

definition append_or_create :: "'k mismatches \<Rightarrow> 'k \<Rightarrow> triple \<Rightarrow> error + 'k mismatches" where
  "append_or_create d k t =
     (if k \<in> set (map fst d) then entry_append d k t else Inr (dict_set d k (EList [t])))"

text \<open>\<open>if k in d.keys(): d[k].append(t) else: d[k] = t\<close>\<close>

definition append_or_create_tuple :: "'k mismatches \<Rightarrow> 'k \<Rightarrow> triple \<Rightarrow> error + 'k mismatches" where
  "append_or_create_tuple d k t =
     (if k \<in> set (map fst d) then entry_append d k t else Inr (dict_set d k (ETuple t)))"

text \<open>The differences that the dictionary of mismatches holds for an entity.\<close>

definition triples_of :: "'k mismatches \<Rightarrow> 'k \<Rightarrow> triple list" where
  "triples_of d k =
     (case map_of d k of None \<Rightarrow> [] | Some (EList ts) \<Rightarrow> ts | Some (ETuple t) \<Rightarrow> [t])"

text \<open>What a piece of a comparison may do to the dictionary of mismatches: it keeps
  every difference, and the differences it adds are for the entity \<open>k\<close> and belong
  to \<open>T\<close>.\<close>

definition adds_only :: "'k \<Rightarrow> triple set \<Rightarrow> 'k mismatches \<Rightarrow> 'k mismatches \<Rightarrow> bool" where
  "adds_only k T d d' =
     (\<forall>k'. set (triples_of d k') \<subseteq> set (triples_of d' k')
         \<and> set (triples_of d' k') \<subseteq> set (triples_of d k') \<union> (if k' = k then T else {}))"

text \<open>\<open>xs.remove(x)\<close>: the first element equal to \<open>x\<close> goes; ValueError when there
  is none. The argument \<open>P\<close> is the test "equal to \<open>x\<close>".\<close>

fun list_remove :: "('a \<Rightarrow> bool) \<Rightarrow> 'a list \<Rightarrow> error + 'a list" where
  "list_remove P [] = Inl ValueError"
| "list_remove P (y # ys) =
     (if P y then Inr ys else bindE (list_remove P ys) (\<lambda>zs. Inr (y # zs)))"

text \<open>\<open>xs[0]\<close>\<close>

definition first :: "'a list \<Rightarrow> error + 'a" where
  "first xs = (case xs of [] \<Rightarrow> Inl IndexError | x # _ \<Rightarrow> Inr x)"

text \<open>The common opening of the comparisons of entity lists:
  \<^verbatim>\<open>
    diff_test = [i for i in list_test if i not in list_base]
    names_test = [i[key] for i in list_test]
    names_base = [i[key] for i in list_base]
    miss = [i for i in list_base if i[key] not in names_test]
    add = [i for i in list_test if i[key] not in names_base]
    for x in add:
        diff_test.remove(x)
  \<close>
  It gives the missing entities, the entities to compare and the additional ones.\<close>

definition split_by_name ::
  "string \<Rightarrow> entity list \<Rightarrow> entity list \<Rightarrow> error + entity list \<times> entity list \<times> entity list"
where
  "split_by_name key list_base list_test =
     (let diff_test = filter (\<lambda>i. \<not> entity_in i list_base) list_test in
      bindE (mapE (itemgetter key) list_test) (\<lambda>names_test.
      bindE (mapE (itemgetter key) list_base) (\<lambda>names_base.
        let miss = map snd (filter (\<lambda>(n, i). n \<notin> set names_test) (zip names_base list_base));
            add = map snd (filter (\<lambda>(n, i). n \<notin> set names_base) (zip names_test list_test))
        in bindE (foldE (\<lambda>x. list_remove (\<lambda>y. entity_eq y x)) add diff_test) (\<lambda>diff_test'.
             Inr (miss, diff_test', add)))))"

text \<open>\<open>[d for d in list_base if d[key] == name][0]\<close>\<close>

definition find_by_name :: "string \<Rightarrow> entity list \<Rightarrow> xtext \<Rightarrow> error + entity" where
  "find_by_name key list_base name =
     bindE (mapE (itemgetter key) list_base) (\<lambda>names.
       first (map snd (filter (\<lambda>(n, d). n = name) (zip names list_base))))"

subsection \<open>Comparing the domains\<close>

text \<open>\<open>swap_key_value\<close>; applied to the empty string it raises AttributeError.\<close>

definition swap_key_value :: "pyval \<Rightarrow> error + pyval" where
  "swap_key_value d =
     (case d of
        Dict kvs \<Rightarrow> Inr (Dict (foldl (\<lambda>d_swap (key, val). dict_set d_swap val key) [] kvs))
      | _ \<Rightarrow> Inl AttributeError)"

text \<open>\<open>d.items()\<close>\<close>

definition items :: "pyval \<Rightarrow> error + (xtext \<times> xtext) list" where
  "items v = (case v of Dict d \<Rightarrow> Inr d | _ \<Rightarrow> Inl AttributeError)"

text \<open>\<open>dict(set(a) - set(b)) if bool(dict(set(a) - set(b))) else ""\<close>. Python lists the
  elements of a set in an order of its own; here they keep the order they have in
  \<open>a\<close>. With at most one element in the difference the order plays no role.\<close>

definition items_diff :: "(xtext \<times> xtext) list \<Rightarrow> (xtext \<times> xtext) list \<Rightarrow> pyval" where
  "items_diff a b =
     (let d = foldl (\<lambda>acc (k, v). dict_set acc k v) [] (filter (\<lambda>kv. kv \<notin> set b) a)
      in if d \<noteq> [] then Dict d else Scalar (Some []))"

definition is_empty_str :: "pyval \<Rightarrow> bool" where
  "is_empty_str v = py_eq v (Scalar (Some []))"

text \<open>The branch of \<open>compare_domains\<close> for the key CodedValues, once the two values
  are known to differ. The variable \<open>adj\<close> is a local of the function.\<close>

definition coded_values_diff ::
  "pyval \<Rightarrow> pyval \<Rightarrow> string option \<Rightarrow> error + triple \<times> string option"
where
  "coded_values_diff base_val val adj =
     bindE (items base_val) (\<lambda>bi.
     bindE (items val) (\<lambda>ti.
       let base_diff = items_diff bi ti; test_diff = items_diff ti bi in
       bindE
         (if \<not> is_empty_str base_diff \<and> is_empty_str test_diff then
            bindE (swap_key_value base_diff) (\<lambda>b.
            bindE (swap_key_value test_diff) (\<lambda>t.
              Inr (b, t, Some ''additional and missing'')))
          else if \<not> is_empty_str base_diff then
            bindE (swap_key_value base_diff) (\<lambda>b. Inr (b, test_diff, Some ''missing''))
          else if \<not> is_empty_str test_diff then
            bindE (swap_key_value test_diff) (\<lambda>t. Inr (base_diff, t, Some ''additional''))
          else Inr (base_diff, test_diff, adj))
         (\<lambda>(b, t, adj').
            case adj' of
              None \<Rightarrow> Inl UnboundLocalError
            | Some a \<Rightarrow>
                Inr ((''Domain has '' @ a @ '' CodedValues'',
                      Scalar (Some (py_str b)), Scalar (Some (py_str t))), adj'))))"

text \<open>The body of \<open>for key, val in domain.items()\<close>.\<close>

definition domain_item_step ::
  "xtext \<Rightarrow> entity \<Rightarrow> string \<times> pyval \<Rightarrow> xtext mismatches \<times> string option
     \<Rightarrow> error + xtext mismatches \<times> string option"
where
  "domain_item_step domain_name domain_base kv s =
     (case (kv, s) of ((key, val), (domain_diff, adj)) \<Rightarrow>
        bindE (dict_get domain_base key) (\<lambda>base_val.
          if key \<noteq> ''CodedValues'' then
            (if \<not> py_eq val base_val then
               Inr (dict_set domain_diff domain_name
                      (EList [(''Domain has mismatch '' @ key @ '' property'', base_val, val)]),
                    adj)
             else Inr s)
          else
            (if \<not> py_eq val base_val then
               bindE (coded_values_diff base_val val adj) (\<lambda>(t, adj').
               bindE (append_or_create domain_diff domain_name t) (\<lambda>domain_diff'.
                 Inr (domain_diff', adj')))
             else Inr s)))"

text \<open>The body of \<open>for domain in domain_diff_test\<close>.\<close>

definition domain_step ::
  "entity list \<Rightarrow> entity \<Rightarrow> xtext mismatches \<times> string option
     \<Rightarrow> error + xtext mismatches \<times> string option"
where
  "domain_step domain_list_base domain s =
     bindE (itemgetter ''DomainName'' domain) (\<lambda>domain_name.
     bindE (find_by_name ''DomainName'' domain_list_base domain_name) (\<lambda>domain_base.
       foldE (domain_item_step domain_name domain_base) domain s))"

text \<open>\<open>compare_domains\<close> from the two normalised lists on.\<close>

definition compare_domain_lists ::
  "entity list \<Rightarrow> entity list \<Rightarrow> error + entity list \<times> xtext mismatches \<times> entity list"
where
  "compare_domain_lists domain_list_base domain_list_test =
     (if list_all2 entity_eq domain_list_base domain_list_test then Inr ([], [], [])
      else
        bindE (split_by_name ''DomainName'' domain_list_base domain_list_test)
          (\<lambda>(domain_miss, domain_diff_test, domain_add).
             bindE (foldE (domain_step domain_list_base) domain_diff_test ([], None))
               (\<lambda>(domain_diff, adj). Inr (domain_miss, domain_diff, domain_add))))"

definition compare_domains ::
  "element \<Rightarrow> element \<Rightarrow> error + entity list \<times> xtext mismatches \<times> entity list"
where
  "compare_domains tree_base tree_test =
     bindE (get_domain_properties tree_base) (\<lambda>domain_list_base.
     bindE (get_domain_properties tree_test) (\<lambda>domain_list_test.
       compare_domain_lists domain_list_base domain_list_test))"

subsection \<open>Reading a value as a list\<close>

text \<open>A value read as a list of texts, and as a list of dictionaries. The script
  stores lists under the keys it reads so; for any other value Python raises
  TypeError.\<close>

definition as_strs :: "pyval \<Rightarrow> error + xtext list" where
  "as_strs v =
     (case v of StrList xs \<Rightarrow> Inr xs
      | DictList ds \<Rightarrow> (if ds = [] then Inr [] else Inl TypeError)
      | _ \<Rightarrow> Inl TypeError)"

definition as_dicts :: "pyval \<Rightarrow> error + (string \<times> xtext) list list" where
  "as_dicts v =
     (case v of DictList ds \<Rightarrow> Inr ds
      | StrList xs \<Rightarrow> (if xs = [] then Inr [] else Inl TypeError)
      | _ \<Rightarrow> Inl TypeError)"

subsection \<open>Normalising the feature classes and the tables\<close>

text \<open>\<open>s.lower()\<close> on code points below 256.\<close>

definition lower_char :: "char \<Rightarrow> char" where
  "lower_char c =
     (let n = (of_char c :: nat)
      in if (65 \<le> n \<and> n \<le> 90) \<or> (192 \<le> n \<and> n \<le> 222 \<and> n \<noteq> 215)
         then char_of (n + 32) else c)"

definition lower :: "string \<Rightarrow> string" where
  "lower s = map lower_char s"

text \<open>The body of \<open>for fld_prop in flds_data\<close>. Every child of the field sets the
  key Domain to the empty string before it is looked at.\<close>

definition fld_prop_step ::
  "bool \<Rightarrow> element \<Rightarrow> (string \<times> xtext) list \<Rightarrow> error + (string \<times> xtext) list"
where
  "fld_prop_step ignore_fld_alias fld_prop flds_dict0 =
     (let flds_dict = dict_set flds_dict0 ''Domain'' (Some []) in
      if tag fld_prop \<in> set [''Type'', ''IsNullable'', ''Length'', ''Precision'', ''Scale'',
                              ''Required'', ''Editable'', ''DefaultValue'']
      then Inr (dict_set flds_dict (tag fld_prop) (text_of fld_prop))
      else if tag fld_prop = ''Name'' then
        (case text_of fld_prop of
           None \<Rightarrow> Inl AttributeError
         | Some s \<Rightarrow> Inr (dict_set flds_dict ''Name'' (Some (lower s))))
      else if tag fld_prop = ''AliasName'' \<and> \<not> ignore_fld_alias
      then Inr (dict_set flds_dict (tag fld_prop) (text_of fld_prop))
      else if tag fld_prop = ''Domain'' then
        Inr (foldl (\<lambda>d domain_prop.
                      if tag domain_prop = ''DomainName''
                      then dict_set d ''Domain'' (text_of domain_prop) else d)
               flds_dict (getchildren fld_prop))
      else Inr flds_dict)"

text \<open>The branch for an element tagged Field: the record of the field is built from
  its children, loses its Length when the field is not a string and the option
  \<open>IGNORE_LEN_NON_TEXT_FIELDS\<close> is set, and joins the list unless an equal record is
  there already.\<close>

definition field_record ::
  "bool \<Rightarrow> bool \<Rightarrow> element \<Rightarrow> error + (string \<times> xtext) list"
where
  "field_record ignore_len_non_text_fields ignore_fld_alias ds_prop =
     bindE (foldE (fld_prop_step ignore_fld_alias) (getchildren ds_prop) []) (\<lambda>flds_dict.
     bindE (dict_get flds_dict ''Type'') (\<lambda>ty.
       if ty \<noteq> Some ''esriFieldTypeString'' \<and> ignore_len_non_text_fields
       then dict_del flds_dict ''Length''
       else Inr flds_dict))"

text \<open>An element with one child tagged Name, whose text is \<open>s\<close>: a field named
  \<open>s\<close> in the document.\<close>

definition field_named :: "element \<Rightarrow> string \<Rightarrow> bool" where
  "field_named e s = (map text_of (filter (\<lambda>x. tag x = ''Name'') (getchildren e)) = [Some s])"

text \<open>The local variables of the loop over the descendants of one DataElement.\<close>

record dataset_locals =
  dataset_dict :: entity
  subtype_name_fld :: xtext
  subtype_default_code :: xtext
  flds_list :: "(string \<times> xtext) list list"
  subtype_list :: "(string \<times> xtext) list list"

text \<open>The body of \<open>for s in ds_prop.iter()\<close> under a Subtype element.\<close>

definition subtype_record :: "element \<Rightarrow> (string \<times> xtext) list" where
  "subtype_record ds_prop =
     foldl (\<lambda>subtype_dict s.
              if tag s \<in> set [''SubtypeName'', ''SubtypeCode'']
              then dict_set subtype_dict (tag s) (text_of s) else subtype_dict)
       [] (iter ds_prop)"

text \<open>The body of \<open>for ds_prop in list(elem.iter())\<close>; \<open>parent\<close> is the tag of
  \<open>ds_prop.getparent()\<close>.\<close>

definition ds_prop_step ::
  "bool \<Rightarrow> bool \<Rightarrow> bool \<Rightarrow> bool \<Rightarrow> bool \<Rightarrow> string option \<times> element \<Rightarrow> dataset_locals
     \<Rightarrow> error + dataset_locals"
where
  "ds_prop_step ignore_len_non_text_fields ignore_ds_alias ignore_fld_alias ignore_hasm ignore_hasz
       pe l =
     (case pe of (parent, ds_prop) \<Rightarrow>
        if tag ds_prop \<in> set [''Name'', ''Versioned'', ''CanVersion'', ''ConfigurationKeyword'',
                               ''ShapeType'']
           \<and> parent = Some ''DataElement''
        then Inr (l\<lparr>dataset_dict := dict_set (dataset_dict l) (tag ds_prop) (Scalar (text_of ds_prop))\<rparr>)
        else if tag ds_prop = ''AliasName'' \<and> \<not> ignore_ds_alias \<and> parent = Some ''DataElement''
        then Inr (l\<lparr>dataset_dict := dict_set (dataset_dict l) (tag ds_prop) (Scalar (text_of ds_prop))\<rparr>)
        else if tag ds_prop = ''HasM'' \<and> \<not> ignore_hasm \<and> parent = Some ''DataElement''
        then Inr (l\<lparr>dataset_dict := dict_set (dataset_dict l) (tag ds_prop) (Scalar (text_of ds_prop))\<rparr>)
        else if tag ds_prop = ''HasZ'' \<and> \<not> ignore_hasz \<and> parent = Some ''DataElement''
        then Inr (l\<lparr>dataset_dict := dict_set (dataset_dict l) (tag ds_prop) (Scalar (text_of ds_prop))\<rparr>)
        else if tag ds_prop = ''Subtype''
        then Inr (l\<lparr>subtype_list := subtype_list l @ [subtype_record ds_prop]\<rparr>)
        else if tag ds_prop = ''SubtypeFieldName''
        then Inr (l\<lparr>dataset_dict := dict_set (dataset_dict l) (tag ds_prop) (Scalar (text_of ds_prop)),
                     subtype_name_fld := text_of ds_prop\<rparr>)
        else if tag ds_prop = ''DefaultSubtypeCode''
        then Inr (l\<lparr>subtype_default_code := text_of ds_prop\<rparr>)
        else if tag ds_prop = ''Field'' then
          bindE (field_record ignore_len_non_text_fields ignore_fld_alias ds_prop) (\<lambda>flds_dict.
            let flds_list' = (if list_ex (dict_eq (=) flds_dict) (flds_list l) then flds_list l
                              else flds_list l @ [flds_dict])
            in Inr (l\<lparr>flds_list := flds_list',
                        dataset_dict := dict_set (dataset_dict l) ''Fields'' (DictList flds_list')\<rparr>))
        else Inr l)"

text \<open>The body of \<open>for elem in tree.iter("DataElement")\<close>: the list is sorted after
  every dataset that joins it.\<close>

definition dataset_elem_step ::
  "bool \<Rightarrow> string \<Rightarrow> bool \<Rightarrow> bool \<Rightarrow> bool \<Rightarrow> bool \<Rightarrow> element \<Rightarrow> entity list
     \<Rightarrow> error + entity list"
where
  "dataset_elem_step ignore_len_non_text_fields ds_type ignore_ds_alias ignore_fld_alias
       ignore_hasm ignore_hasz elem dataset_list =
     bindE (first_attrib elem) (\<lambda>a.
       if a = ds_type then
         bindE (foldE (ds_prop_step ignore_len_non_text_fields ignore_ds_alias ignore_fld_alias
                         ignore_hasm ignore_hasz)
                  (iter_parent None elem)
                  \<lparr>dataset_dict = [(''SubtypeFieldName'', Scalar (Some []))],
                   subtype_name_fld = Some [], subtype_default_code = Some [],
                   flds_list = [], subtype_list = []\<rparr>)
           (\<lambda>l. let d1 = dict_set (dataset_dict l) ''Subtypes'' (DictList (subtype_list l));
                    d2 = dict_set d1 ''SubtypeInfo''
                           (Dict [(subtype_name_fld l, subtype_default_code l)])
                in sort_by_item ''Name'' (dataset_list @ [d2]))
       else Inr dataset_list)"

text \<open>\<open>get_dataset_properties\<close>; the module constant
  \<open>IGNORE_LEN_NON_TEXT_FIELDS\<close> is the first argument.\<close>

definition get_dataset_properties ::
  "bool \<Rightarrow> element \<Rightarrow> string \<Rightarrow> bool \<Rightarrow> bool \<Rightarrow> bool \<Rightarrow> bool \<Rightarrow> error + entity list"
where
  "get_dataset_properties ignore_len_non_text_fields tree ds_type ignore_ds_alias
       ignore_fld_alias ignore_hasm ignore_hasz =
     foldE (dataset_elem_step ignore_len_non_text_fields ds_type ignore_ds_alias
              ignore_fld_alias ignore_hasm ignore_hasz)
       (iter_tag ''DataElement'' tree) []"

subsection \<open>Comparing the feature classes and the tables\<close>

text \<open>\<open>[d[key] for d in ds]\<close> for records of texts.\<close>

definition names_of :: "string \<Rightarrow> (string \<times> xtext) list list \<Rightarrow> error + xtext list" where
  "names_of key ds = mapE (\<lambda>d. dict_get d key) ds"

text \<open>\<open>[i for i in a if i[key] not in names]\<close>, the names of \<open>a\<close> being known.\<close>

definition not_named :: "xtext list \<Rightarrow> 'a list \<Rightarrow> xtext list \<Rightarrow> 'a list" where
  "not_named names_a a names = map snd (filter (\<lambda>(n, i). n \<notin> set names) (zip names_a a))"

text \<open>The branch for the key SubtypeInfo. The triple holds the two keys (the names
  of the subtype fields), and it is stored bare when it is the first difference of
  the dataset.\<close>

definition subtype_info_branch ::
  "string \<Rightarrow> xtext \<Rightarrow> entity \<Rightarrow> pyval \<Rightarrow> xtext mismatches \<Rightarrow> error + xtext mismatches"
where
  "subtype_info_branch name ds_name ds_base val ds_diff =
     bindE (dict_get ds_base ''SubtypeInfo'') (\<lambda>subtype_info_base.
     bindE (bindE (items subtype_info_base) first) (\<lambda>(key_base, val_base).
     bindE (bindE (items val) first) (\<lambda>(key_test, val_test).
       if key_base = key_test then
         (if val_base \<noteq> val_test then
            append_or_create_tuple ds_diff ds_name
              (name @ '' has mismatch DefaultSubtypeCode property'', Scalar key_base, Scalar key_test)
          else Inr ds_diff)
       else Inr ds_diff)))"

text \<open>The branch for the key Subtypes. The additional subtypes are removed from
  \<open>val\<close>, which is the list held by the test dataset; the branch returns the list
  as it leaves it.\<close>

definition subtypes_branch ::
  "xtext \<Rightarrow> entity \<Rightarrow> pyval \<Rightarrow> xtext mismatches \<Rightarrow> error + pyval \<times> xtext mismatches"
where
  "subtypes_branch ds_name ds_base val0 ds_diff =
     bindE (dict_get ds_base ''Subtypes'') (\<lambda>base_val.
     bindE (as_dicts base_val) (\<lambda>st_base_list.
     bindE (as_dicts val0) (\<lambda>val.
     bindE (names_of ''SubtypeName'' val) (\<lambda>st_names_test.
     bindE (names_of ''SubtypeName'' st_base_list) (\<lambda>st_names_base.
       let st_miss = not_named st_names_base st_base_list st_names_test;
           st_add = not_named st_names_test val st_names_base
       in
       bindE (foldE (\<lambda>st (v, d).
                       bindE (list_remove (\<lambda>y. dict_eq (=) y st) v) (\<lambda>v'.
                       bindE (dict_get st ''SubtypeName'') (\<lambda>n.
                       bindE (append_or_create_tuple d ds_name
                                (''Additional subtype'', Scalar (Some []), Scalar n))
                         (\<lambda>d'. Inr (v', d')))))
                st_add (val, ds_diff))
         (\<lambda>(val', d).
            bindE (foldE (\<lambda>st d.
                            bindE (dict_get st ''SubtypeName'') (\<lambda>n.
                              append_or_create d ds_name
                                (''Missing subtype'', Scalar n, Scalar (Some []))))
                     st_miss d)
              (\<lambda>d'. Inr (DictList val', d'))))))))"

text \<open>The comparison of one field of the test dataset with the base fields of the
  same name: every key the two records share and whose values differ gives a triple.\<close>

definition field_pair_step ::
  "xtext \<Rightarrow> xtext \<Rightarrow> (string \<times> xtext) list \<Rightarrow> string \<times> xtext \<Rightarrow> xtext mismatches
     \<Rightarrow> error + xtext mismatches"
where
  "field_pair_step ds_name fld_name fld_prop base_kv ds_diff =
     (case base_kv of (base_key, base_val) \<Rightarrow>
        foldE (\<lambda>(test_key, test_val) d.
                 if base_key = test_key \<and> base_val \<noteq> test_val then
                   append_or_create d ds_name
                     (str_text fld_name @ '' field has different values for '' @ base_key,
                      Scalar (Some (str_text base_val)), Scalar (Some (str_text test_val)))
                 else Inr d)
          fld_prop ds_diff)"

definition field_step ::
  "xtext \<Rightarrow> (string \<times> xtext) list list \<Rightarrow> (string \<times> xtext) list \<Rightarrow> xtext mismatches
     \<Rightarrow> error + xtext mismatches"
where
  "field_step ds_name flds_base_list fld_prop ds_diff =
     bindE (dict_get fld_prop ''Name'') (\<lambda>fld_name.
       foldE (\<lambda>flds_base d.
                bindE (dict_get flds_base ''Name'') (\<lambda>base_name.
                  if base_name = fld_name
                  then foldE (field_pair_step ds_name fld_name fld_prop) flds_base d
                  else Inr d))
         flds_base_list ds_diff)"

text \<open>The branch for the key Fields. The additional fields are removed from
  \<open>val\<close>, the list held by the test dataset, before the fields that remain are
  compared; the branch returns the list as it leaves it.\<close>

definition fields_branch ::
  "xtext \<Rightarrow> entity \<Rightarrow> pyval \<Rightarrow> xtext mismatches \<Rightarrow> error + pyval \<times> xtext mismatches"
where
  "fields_branch ds_name ds_base val0 ds_diff =
     bindE (dict_get ds_base ''Fields'') (\<lambda>base_val.
     bindE (as_dicts base_val) (\<lambda>flds_base_list.
     bindE (as_dicts val0) (\<lambda>val.
     bindE (names_of ''Name'' val) (\<lambda>flds_names_test.
     bindE (names_of ''Name'' flds_base_list) (\<lambda>flds_names_base.
       let flds_miss = not_named flds_names_base flds_base_list flds_names_test;
           flds_add = not_named flds_names_test val flds_names_base
       in
       bindE (foldE (\<lambda>fld (v, d).
                       bindE (list_remove (\<lambda>y. dict_eq (=) y fld) v) (\<lambda>v'.
                       bindE (dict_get fld ''Name'') (\<lambda>n.
                       bindE (append_or_create d ds_name
                                (''Additional field'', Scalar (Some []), Scalar n))
                         (\<lambda>d'. Inr (v', d')))))
                flds_add (val, ds_diff))
         (\<lambda>(val', d).
            bindE (foldE (\<lambda>fld d.
                            bindE (dict_get fld ''Name'') (\<lambda>n.
                              append_or_create d ds_name
                                (''Missing field'', Scalar n, Scalar (Some []))))
                     flds_miss d)
              (\<lambda>d'.
                 bindE (foldE (field_step ds_name flds_base_list) val' d')
                   (\<lambda>d''. Inr (DictList val', d'')))))))))"

text \<open>The body of \<open>for key, val in ds.items()\<close>. The state is the test dataset, whose
  lists of fields and of subtypes the branches may shorten, and the dictionary of
  mismatches.\<close>

definition ds_item_step ::
  "string \<Rightarrow> xtext \<Rightarrow> entity \<Rightarrow> string \<Rightarrow> entity \<times> xtext mismatches
     \<Rightarrow> error + entity \<times> xtext mismatches"
where
  "ds_item_step name ds_name ds_base key s =
     (case s of (ds, ds_diff) \<Rightarrow>
        bindE (dict_get ds key) (\<lambda>val.
          if key = ''SubtypeInfo'' then
            bindE (subtype_info_branch name ds_name ds_base val ds_diff) (\<lambda>d. Inr (ds, d))
          else if key = ''Subtypes'' then
            bindE (subtypes_branch ds_name ds_base val ds_diff) (\<lambda>(val', d).
              Inr (dict_set ds key val', d))
          else if key = ''Fields'' then
            bindE (fields_branch ds_name ds_base val ds_diff) (\<lambda>(val', d).
              Inr (dict_set ds key val', d))
          else
            bindE (dict_get ds_base key) (\<lambda>base_val.
              if \<not> py_eq val base_val then
                bindE (append_or_create ds_diff ds_name
                         (name @ '' has mismatch '' @ key @ '' property'', base_val, val))
                  (\<lambda>d. Inr (ds, d))
              else Inr s)))"

text \<open>The body of \<open>for ds in ds_diff_test\<close>. The dataset is an object of the list
  \<open>ds_list_test\<close>; \<open>j\<close> is its position there, and the dataset as the body leaves
  it is written back at that position.\<close>

definition dataset_step ::
  "string \<Rightarrow> entity list \<Rightarrow> nat \<times> entity \<Rightarrow> entity list \<times> xtext mismatches
     \<Rightarrow> error + entity list \<times> xtext mismatches"
where
  "dataset_step name ds_list_base jd s =
     (case (jd, s) of ((j, ds), (ds_list_test, ds_diff)) \<Rightarrow>
        bindE (itemgetter ''Name'' ds) (\<lambda>ds_name.
        bindE (find_by_name ''Name'' ds_list_base ds_name) (\<lambda>ds_base.
        bindE (foldE (ds_item_step name ds_name ds_base) (map fst ds) (ds, ds_diff))
          (\<lambda>(ds', ds_diff'). Inr (ds_list_test[j := ds'], ds_diff')))))"

text \<open>The two normalised lists as \<open>compare_datasets\<close> holds them.\<close>

record collections =
  ds_list_base :: "entity list"
  ds_list_test :: "entity list"

text \<open>\<open>compare_datasets\<close> from the two normalised lists on. Beside the result it
  gives the two lists as they are when the function returns.\<close>

definition compare_dataset_lists ::
  "string \<Rightarrow> collections
     \<Rightarrow> error + (entity list \<times> xtext mismatches \<times> entity list) \<times> collections"
where
  "compare_dataset_lists name c =
     (if list_all2 entity_eq (ds_list_base c) (ds_list_test c) then Inr (([], [], []), c)
      else
        let indexed = zip [0..<length (ds_list_test c)] (ds_list_test c);
            ds_diff_test = filter (\<lambda>(j, i). \<not> entity_in i (ds_list_base c)) indexed
        in
        bindE (mapE (itemgetter ''Name'') (ds_list_test c)) (\<lambda>ds_names_test.
        bindE (mapE (itemgetter ''Name'') (ds_list_base c)) (\<lambda>ds_names_base.
          let ds_miss = not_named ds_names_base (ds_list_base c) ds_names_test;
              ds_add = not_named ds_names_test (ds_list_test c) ds_names_base
          in
          bindE (foldE (\<lambda>ds. list_remove (\<lambda>(j, y). entity_eq y ds)) ds_add ds_diff_test)
            (\<lambda>ds_diff_test'.
               bindE (foldE (dataset_step name (ds_list_base c)) ds_diff_test'
                        (ds_list_test c, []))
                 (\<lambda>(ds_list_test', ds_diff).
                    Inr ((ds_miss, ds_diff, ds_add), c\<lparr>ds_list_test := ds_list_test'\<rparr>))))))"

text \<open>The record \<open>g\<close> is in a list of fields, and in the list of fields of a
  dataset.\<close>

definition in_fields :: "(string \<times> xtext) list \<Rightarrow> pyval \<Rightarrow> bool" where
  "in_fields g v = (case as_dicts v of Inr fs \<Rightarrow> g \<in> set fs | Inl _ \<Rightarrow> False)"

definition has_field :: "entity \<Rightarrow> (string \<times> xtext) list \<Rightarrow> bool" where
  "has_field e g = (case map_of e ''Fields'' of Some v \<Rightarrow> in_fields g v | None \<Rightarrow> False)"

text \<open>What the comparison may do to a dataset of the test list: the keys and the
  values stay, except that the lists under Fields and Subtypes may lose elements.\<close>

definition shrunk_value :: "pyval \<Rightarrow> pyval \<Rightarrow> bool" where
  "shrunk_value v v' =
     (v' = v \<or> (case (as_dicts v, v') of (Inr xs, DictList ys) \<Rightarrow> subseq ys xs | _ \<Rightarrow> False))"

definition shrunk :: "entity \<Rightarrow> entity \<Rightarrow> bool" where
  "shrunk d d' =
     list_all2 (\<lambda>(k, v) (k', v').
                  k' = k \<and> (if k = ''Fields'' \<or> k = ''Subtypes'' then shrunk_value v v' else v' = v))
       d d'"

definition compare_datasets ::
  "bool \<Rightarrow> element \<Rightarrow> element \<Rightarrow> string \<Rightarrow> string \<Rightarrow> bool \<Rightarrow> bool \<Rightarrow> bool \<Rightarrow> bool
     \<Rightarrow> error + entity list \<times> xtext mismatches \<times> entity list"
where
  "compare_datasets ignore_len_non_text_fields tree_base tree_test ds_type name
       ignore_ds_alias ignore_fld_alias ignore_hasm ignore_hasz =
     bindE (get_dataset_properties ignore_len_non_text_fields tree_base ds_type
              ignore_ds_alias ignore_fld_alias ignore_hasm ignore_hasz) (\<lambda>base.
     bindE (get_dataset_properties ignore_len_non_text_fields tree_test ds_type
              ignore_ds_alias ignore_fld_alias ignore_hasm ignore_hasz) (\<lambda>test.
     bindE (compare_dataset_lists name \<lparr>ds_list_base = base, ds_list_test = test\<rparr>)
       (\<lambda>(result, c). Inr result)))"

subsection \<open>Comparing the relationship classes\<close>

text \<open>The body of \<open>for key, val in rc.items()\<close>: a difference replaces whatever the
  dictionary held for this relationship class.\<close>

definition rc_item_step ::
  "string \<Rightarrow> xtext \<Rightarrow> entity \<Rightarrow> string \<times> pyval \<Rightarrow> xtext mismatches \<Rightarrow> error + xtext mismatches"
where
  "rc_item_step name rc_name rc_base kv rc_diff =
     (case kv of (key, val) \<Rightarrow>
        bindE (dict_get rc_base key) (\<lambda>base_val.
          if \<not> py_eq val base_val then
            Inr (dict_set rc_diff rc_name
                   (EList [(name @ '' has mismatch '' @ key @ '' property'', base_val, val)]))
          else Inr rc_diff))"

definition rc_step ::
  "string \<Rightarrow> entity list \<Rightarrow> entity \<Rightarrow> xtext mismatches \<Rightarrow> error + xtext mismatches"
where
  "rc_step name rc_list_base rc rc_diff =
     bindE (itemgetter ''Name'' rc) (\<lambda>rc_name.
     bindE (find_by_name ''Name'' rc_list_base rc_name) (\<lambda>rc_base.
       foldE (rc_item_step name rc_name rc_base) rc rc_diff))"

text \<open>\<open>compare_relationship_classes\<close> from the two normalised lists on.\<close>

definition compare_relationship_class_lists ::
  "string \<Rightarrow> entity list \<Rightarrow> entity list
     \<Rightarrow> error + entity list \<times> xtext mismatches \<times> entity list"
where
  "compare_relationship_class_lists name rc_list_base rc_list_test =
     (if list_all2 entity_eq rc_list_base rc_list_test then Inr ([], [], [])
      else
        bindE (split_by_name ''Name'' rc_list_base rc_list_test)
          (\<lambda>(rc_miss, rc_diff_test, rc_add).
             bindE (foldE (rc_step name rc_list_base) rc_diff_test [])
               (\<lambda>rc_diff. Inr (rc_miss, rc_diff, rc_add))))"

subsection \<open>Normalising the relationship classes\<close>

definition rc_tags :: "string list" where
  "rc_tags = [''Name'', ''Versioned'', ''CanVersion'', ''ConfigurationKeyword'', ''HasOID'',
              ''OIDFieldName'', ''Fields'', ''Cardinality'', ''IsComposite'',
              ''OriginClassNames'', ''DestinationClassNames'', ''KeyType'', ''ClassKey'',
              ''IsReflexive'', ''OriginClassKeys'', ''RelationshipRules'',
              ''IsAttachmentRelationship'']"

text \<open>The body of \<open>for elem in tree.iter("DataElement")\<close>.\<close>

definition rc_elem_step :: "string \<Rightarrow> element \<Rightarrow> entity list \<Rightarrow> error + entity list" where
  "rc_elem_step ds_type elem rc_list =
     bindE (first_attrib elem) (\<lambda>a.
       if a = ds_type then
         (let rc_dict = foldl (\<lambda>d rc_prop.
                                 if tag rc_prop \<in> set rc_tags
                                 then dict_set d (tag rc_prop) (Scalar (text_of rc_prop)) else d)
                          [] (getchildren elem)
          in sort_by_item ''Name'' (rc_list @ [rc_dict]))
       else Inr rc_list)"

definition get_rc_properties :: "element \<Rightarrow> string \<Rightarrow> error + entity list" where
  "get_rc_properties tree ds_type = foldE (rc_elem_step ds_type) (iter_tag ''DataElement'' tree) []"

definition compare_relationship_classes ::
  "element \<Rightarrow> element \<Rightarrow> string \<Rightarrow> string \<Rightarrow> error + entity list \<times> xtext mismatches \<times> entity list"
where
  "compare_relationship_classes tree_base tree_test ds_type name =
     bindE (get_rc_properties tree_base ds_type) (\<lambda>rc_list_base.
     bindE (get_rc_properties tree_test ds_type) (\<lambda>rc_list_test.
       compare_relationship_class_lists name rc_list_base rc_list_test))"

subsection \<open>Comparing the feature datasets\<close>

text \<open>The body of \<open>for key, val in fds.items()\<close>: the list of children is not
  compared.\<close>

definition fds_item_step ::
  "string \<Rightarrow> xtext \<Rightarrow> entity \<Rightarrow> string \<times> pyval \<Rightarrow> xtext mismatches \<Rightarrow> error + xtext mismatches"
where
  "fds_item_step name fds_name fds_base kv fds_diff =
     (case kv of (key, val) \<Rightarrow>
        if key \<noteq> ''Children'' then
          bindE (dict_get fds_base key) (\<lambda>base_val.
            if \<not> py_eq val base_val then
              append_or_create fds_diff fds_name
                (name @ '' has mismatch '' @ key @ '' property'', base_val, val)
            else Inr fds_diff)
        else Inr fds_diff)"

definition fds_step ::
  "string \<Rightarrow> entity list \<Rightarrow> entity \<Rightarrow> xtext mismatches \<Rightarrow> error + xtext mismatches"
where
  "fds_step name fds_list_base fds fds_diff =
     bindE (itemgetter ''Name'' fds) (\<lambda>fds_name.
     bindE (find_by_name ''Name'' fds_list_base fds_name) (\<lambda>fds_base.
       foldE (fds_item_step name fds_name fds_base) fds fds_diff))"

text \<open>\<open>compare_fds\<close> from the two normalised lists on.\<close>

definition compare_fds_lists ::
  "string \<Rightarrow> entity list \<Rightarrow> entity list
     \<Rightarrow> error + entity list \<times> xtext mismatches \<times> entity list"
where
  "compare_fds_lists name fds_list_base fds_list_test =
     (if list_all2 entity_eq fds_list_base fds_list_test then Inr ([], [], [])
      else
        bindE (split_by_name ''Name'' fds_list_base fds_list_test)
          (\<lambda>(fds_miss, fds_diff_test, fds_add).
             bindE (foldE (fds_step name fds_list_base) fds_diff_test [])
               (\<lambda>fds_diff. Inr (fds_miss, fds_diff, fds_add))))"

subsection \<open>Comparing the topologies\<close>

text \<open>\<open>list(set(a) - set(b))\<close>: the elements keep the order of their first
  occurrence in \<open>a\<close>, where Python has an order of its own.\<close>

definition set_diff :: "'a list \<Rightarrow> 'a list \<Rightarrow> 'a list" where
  "set_diff a b = filter (\<lambda>x. x \<notin> set b) (rev (remdups (rev a)))"

text \<open>\<open>[rule for rule in a if rule not in b]\<close>\<close>

definition rules_not_in ::
  "(string \<times> xtext) list list \<Rightarrow> (string \<times> xtext) list list \<Rightarrow> (string \<times> xtext) list list"
where
  "rules_not_in a b = filter (\<lambda>rule. \<not> list_ex (dict_eq (=) rule) b) a"

text \<open>\<open>str(rule).replace("'", "")\<close>\<close>

definition rule_str :: "(string \<times> xtext) list \<Rightarrow> string" where
  "rule_str rule = filter (\<lambda>c. c \<noteq> CHR 0x27) (repr_dict repr_str rule)"

text \<open>The body of \<open>for key, val in topo.items()\<close>.\<close>

definition topo_item_step ::
  "string \<Rightarrow> xtext \<Rightarrow> entity \<Rightarrow> string \<times> pyval \<Rightarrow> xtext mismatches \<Rightarrow> error + xtext mismatches"
where
  "topo_item_step name topo_name topo_base kv topo_diff =
     (case kv of (key, val) \<Rightarrow>
        bindE (dict_get topo_base key) (\<lambda>base_val.
          if key \<notin> set [''FeatureClassNames'', ''TopologyRules''] then
            (if \<not> py_eq val base_val then
               append_or_create topo_diff topo_name
                 (name @ '' has mismatch '' @ key @ '' property'', base_val, val)
             else Inr topo_diff)
          else if key = ''FeatureClassNames'' then
            (if \<not> py_eq val base_val then
               bindE (as_strs base_val) (\<lambda>base_fcs.
               bindE (as_strs val) (\<lambda>test_fcs.
                 let miss_fcs = set_diff base_fcs test_fcs;
                     add_fcs = set_diff test_fcs base_fcs
                 in bindE
                      (foldE (\<lambda>fc d. append_or_create d topo_name
                                (''Missing feature class in topology'', Scalar fc, Scalar None))
                         miss_fcs topo_diff)
                      (foldE (\<lambda>fc d. append_or_create d topo_name
                                (''Additional feature class in topology'', Scalar None, Scalar fc))
                         add_fcs)))
             else Inr topo_diff)
          else
            (if \<not> py_eq val base_val then
               bindE (as_dicts base_val) (\<lambda>base_rules.
               bindE (as_dicts val) (\<lambda>test_rules.
                 let miss_rules = rules_not_in base_rules test_rules;
                     add_rules = rules_not_in test_rules base_rules
                 in bindE
                      (foldE (\<lambda>rule d. append_or_create d topo_name
                                (''Missing topology rule'', Scalar (Some (rule_str rule)), Scalar None))
                         miss_rules topo_diff)
                      (foldE (\<lambda>rule d. append_or_create d topo_name
                                (''Additional topology rule'', Scalar None, Scalar (Some (rule_str rule))))
                         add_rules)))
             else Inr topo_diff)))"

definition topo_step ::
  "string \<Rightarrow> entity list \<Rightarrow> entity \<Rightarrow> xtext mismatches \<Rightarrow> error + xtext mismatches"
where
  "topo_step name topo_list_base topo topo_diff =
     bindE (itemgetter ''Name'' topo) (\<lambda>topo_name.
     bindE (find_by_name ''Name'' topo_list_base topo_name) (\<lambda>topo_base.
       foldE (topo_item_step name topo_name topo_base) topo topo_diff))"

text \<open>\<open>compare_topo\<close> from the two normalised lists on.\<close>

definition compare_topo_lists ::
  "string \<Rightarrow> entity list \<Rightarrow> entity list
     \<Rightarrow> error + entity list \<times> xtext mismatches \<times> entity list"
where
  "compare_topo_lists name topo_list_base topo_list_test =
     (if list_all2 entity_eq topo_list_base topo_list_test then Inr ([], [], [])
      else
        bindE (split_by_name ''Name'' topo_list_base topo_list_test)
          (\<lambda>(topo_miss, topo_diff_test, topo_add).
             bindE (foldE (topo_step name topo_list_base) topo_diff_test [])
               (\<lambda>topo_diff. Inr (topo_miss, topo_diff, topo_add))))"

subsection \<open>Comparing the attribute rules\<close>

text \<open>The normalised attribute rules are one dictionary: the key
  \<open>"<dataset name>: <rule name>"\<close> is mapped to the dictionary of the rule's
  properties.\<close>

type_synonym attr_rules = "(string \<times> (string \<times> xtext) list) list"

text \<open>\<open>s.split(":")\<close> and \<open>s.strip()\<close>\<close>

fun split_on :: "char \<Rightarrow> string \<Rightarrow> string list" where
  "split_on c [] = [[]]"
| "split_on c (x # xs) =
     (if x = c then [] # split_on c xs
      else (case split_on c xs of [] \<Rightarrow> [[x]] | w # ws \<Rightarrow> (x # w) # ws))"

definition is_space :: "char \<Rightarrow> bool" where
  "is_space c =
     (let n = (of_char c :: nat)
      in (9 \<le> n \<and> n \<le> 13) \<or> (28 \<le> n \<and> n \<le> 32) \<or> n = 133 \<or> n = 160)"

definition strip :: "string \<Rightarrow> string" where
  "strip s = rev (dropWhile is_space (rev (dropWhile is_space s)))"

text \<open>\<open>"".join(i.split(":")[1:]).strip()\<close>\<close>

definition rule_label :: "string \<Rightarrow> string" where
  "rule_label i = strip (concat (tl (split_on CHR '':'' i)))"

text \<open>The body of \<open>for key, val in prop_base.items()\<close>. The variable
  \<open>domain_name\<close> is a local of the function, assigned when the first difference of
  a rule is stored.\<close>

definition attr_prop_step ::
  "string \<Rightarrow> (string \<times> xtext) list \<Rightarrow> string \<times> xtext \<Rightarrow> string mismatches \<times> string option
     \<Rightarrow> error + string mismatches \<times> string option"
where
  "attr_prop_step i prop_test kv s =
     (case (kv, s) of ((key, val), (attr_diff, domain_name)) \<Rightarrow>
        bindE (dict_get prop_test key) (\<lambda>test_val.
          if val \<noteq> test_val then
            (if i \<notin> set (map fst attr_diff) then
               Inr (dict_set attr_diff i
                      (EList [(rule_label i @ '' has mismatch '' @ key @ '' property'',
                               Scalar val, Scalar test_val)]),
                    Some (rule_label i))
             else
               (case domain_name of
                  None \<Rightarrow> Inl UnboundLocalError
                | Some dn \<Rightarrow>
                    bindE (entry_append attr_diff i
                             (dn @ '' has mismatch '' @ key @ '' property'',
                              Scalar val, Scalar test_val))
                      (\<lambda>attr_diff'. Inr (attr_diff', domain_name))))
          else Inr s))"

text \<open>The body of \<open>for i in attr_diff_items\<close>.\<close>

definition attr_rule_step ::
  "attr_rules \<Rightarrow> attr_rules \<Rightarrow> string \<Rightarrow> string mismatches \<times> string option
     \<Rightarrow> error + string mismatches \<times> string option"
where
  "attr_rule_step attr_rules_list_base attr_rules_list_test i s =
     bindE (dict_get attr_rules_list_base i) (\<lambda>prop_base.
     bindE (dict_get attr_rules_list_test i) (\<lambda>prop_test.
       if \<not> dict_eq (=) prop_base prop_test then foldE (attr_prop_step i prop_test) prop_base s
       else Inr s))"

text \<open>\<open>compare_attr_rules\<close> from the two normalised dictionaries on. The variables
  \<open>attr_miss\<close> and \<open>attr_add\<close> are assigned only when the two lists of keys
  differ; the \<open>return\<close> reads them in every case.\<close>

definition compare_attr_rule_dicts ::
  "attr_rules \<Rightarrow> attr_rules \<Rightarrow> error + string list \<times> string mismatches \<times> string list"
where
  "compare_attr_rule_dicts attr_rules_list_base attr_rules_list_test =
     (if dict_eq (dict_eq (=)) attr_rules_list_base attr_rules_list_test then Inr ([], [], [])
      else
        let base_keys = sort (map fst attr_rules_list_base);
            test_keys = sort (map fst attr_rules_list_test);
            miss_add = (if base_keys \<noteq> test_keys
                        then Some (set_diff base_keys test_keys, set_diff test_keys base_keys)
                        else None);
            attr_diff_items = filter (\<lambda>i. i \<in> set test_keys) base_keys
        in bindE (foldE (attr_rule_step attr_rules_list_base attr_rules_list_test)
                    attr_diff_items ([], None))
             (\<lambda>(attr_diff, domain_name).
                case miss_add of
                  None \<Rightarrow> Inl UnboundLocalError
                | Some (attr_miss, attr_add) \<Rightarrow> Inr (attr_miss, attr_diff, attr_add)))"

subsection \<open>Normalising the attribute rules\<close>

definition attr_rule_tags :: "string list" where
  "attr_rule_tags = [''Type'', ''FieldName'', ''SubtypeCode'', ''Description'', ''UserEditable'',
                     ''IsEnabled'', ''ReferencesExternalService'',
                     ''ExcludeFromClientEvaluation'', ''ScriptExpression'', ''TriggeringEvents'']"

text \<open>The local variables of \<open>get_attr_rules_properties\<close>.\<close>

record attr_locals =
  attr_rules_dict :: attr_rules
  ds_name :: "xtext option"
  rule_key :: "string option"
  sorted_dict :: "(string \<times> xtext) list option"

text \<open>The body of \<open>for i in list(a.getchildren())\<close>; the state is the variable
  \<open>key\<close> and the dictionary of the rule.\<close>

definition attr_child_step ::
  "xtext \<Rightarrow> element \<Rightarrow> string option \<times> (string \<times> xtext) list
     \<Rightarrow> string option \<times> (string \<times> xtext) list"
where
  "attr_child_step dsn i s =
     (case s of (key, r_dict) \<Rightarrow>
        if tag i = ''Name'' then (Some (str_text dsn @ '': '' @ str_text (text_of i)), r_dict)
        else if tag i \<in> set attr_rule_tags then (key, dict_set r_dict (tag i) (text_of i))
        else s)"

text \<open>The body of \<open>for a in list(prop.getchildren())\<close>: the assignment to
  \<open>attr_rules_dict[key]\<close> is made for every child, an AttributeRule or not.\<close>

definition attr_rule_elem_step :: "element \<Rightarrow> attr_locals \<Rightarrow> error + attr_locals" where
  "attr_rule_elem_step a l =
     bindE
       (if tag a = ''AttributeRule'' then
          (case ds_name l of
             None \<Rightarrow> Inl UnboundLocalError
           | Some dsn \<Rightarrow>
               (case foldl (\<lambda>s i. attr_child_step dsn i s) (rule_key l, [(''DatasetName'', dsn)])
                       (getchildren a) of
                  (key, r_dict) \<Rightarrow>
                    Inr (l\<lparr>rule_key := key, sorted_dict := Some (sort_key fst r_dict)\<rparr>)))
        else Inr l)
       (\<lambda>l'. case (rule_key l', sorted_dict l') of
                (Some key, Some d) \<Rightarrow>
                  Inr (l'\<lparr>attr_rules_dict := dict_set (attr_rules_dict l') key d\<rparr>)
              | _ \<Rightarrow> Inl UnboundLocalError)"

text \<open>The body of \<open>for prop in list(elem.getchildren())\<close>.\<close>

definition attr_prop_elem_step :: "element \<Rightarrow> attr_locals \<Rightarrow> error + attr_locals" where
  "attr_prop_elem_step prop l0 =
     (let l = (if tag prop = ''Name'' then l0\<lparr>ds_name := Some (text_of prop)\<rparr> else l0)
      in if tag prop = ''AttributeRules'' then foldE attr_rule_elem_step (getchildren prop) l
         else Inr l)"

text \<open>The body of \<open>for elem in tree.iter("DataElement")\<close>.\<close>

definition attr_elem_step :: "string list \<Rightarrow> element \<Rightarrow> attr_locals \<Rightarrow> error + attr_locals" where
  "attr_elem_step ds_type elem l =
     bindE (first_attrib elem) (\<lambda>a.
       if a \<in> set ds_type then foldE attr_prop_elem_step (getchildren elem) l else Inr l)"

definition get_attr_rules_properties :: "element \<Rightarrow> string list \<Rightarrow> error + attr_rules" where
  "get_attr_rules_properties tree ds_type =
     bindE (foldE (attr_elem_step ds_type) (iter_tag ''DataElement'' tree)
              \<lparr>attr_rules_dict = [], ds_name = None, rule_key = None, sorted_dict = None\<rparr>)
       (\<lambda>l. let keys_sorted = sort (map fst (attr_rules_dict l))
            in mapE (\<lambda>key. bindE (dict_get (attr_rules_dict l) key) (\<lambda>d. Inr (key, d)))
                 keys_sorted)"

definition compare_attr_rules ::
  "element \<Rightarrow> element \<Rightarrow> string list \<Rightarrow> string
     \<Rightarrow> error + string list \<times> string mismatches \<times> string list"
where
  "compare_attr_rules tree_base tree_test ds_type name =
     bindE (get_attr_rules_properties tree_base ds_type) (\<lambda>attr_rules_list_base.
     bindE (get_attr_rules_properties tree_test ds_type) (\<lambda>attr_rules_list_test.
       compare_attr_rule_dicts attr_rules_list_base attr_rules_list_test))"

subsection \<open>Writing the results\<close>

text \<open>A sheet of the workbook: its title, the cells in the order they are assigned
  (row, column, value) and the ranges of merged cells. The workbook belongs to the
  openpyxl library; the model records what the script asks of it.\<close>

record worksheet =
  title :: string
  cells :: "((nat \<times> nat) \<times> pyval) list"
  merged_cells :: "(nat \<times> nat \<times> nat \<times> nat) list"

text \<open>An element of a list of missing or additional things: a normalised entity, or
  the key of an attribute rule.\<close>

datatype item = Ent entity | Key string

text \<open>\<open>item[dict_key] if dict_key else item\<close>, the value written into a cell. A
  string cannot be indexed by a key (TypeError), and openpyxl refuses a dictionary as
  the value of a cell (ValueError).\<close>

definition item_value :: "string \<Rightarrow> item \<Rightarrow> error + pyval" where
  "item_value dict_key x =
     (if dict_key \<noteq> [] then
        (case x of Ent e \<Rightarrow> dict_get e dict_key | Key k \<Rightarrow> Inl TypeError)
      else
        (case x of Ent e \<Rightarrow> Inl ValueError | Key k \<Rightarrow> Inr (Scalar (Some k))))"

text \<open>\<open>for item in val\<close>: what iterating over a value yields. A string yields its
  characters; \<open>None\<close> cannot be iterated over.\<close>

definition iterate :: "pyval \<Rightarrow> error + pyval list" where
  "iterate v =
     (case v of
        Scalar None \<Rightarrow> Inl TypeError
      | Scalar (Some s) \<Rightarrow> Inr (map (\<lambda>c. Scalar (Some [c])) s)
      | StrList xs \<Rightarrow> Inr (map Scalar xs)
      | Dict d \<Rightarrow> Inr (map (\<lambda>(k, v). Scalar k) d)
      | DictList ds \<Rightarrow> Inr (map (\<lambda>d. Dict (map (\<lambda>(k, v). (Some k, v)) d)) ds))"

text \<open>\<open>for val in val_list\<close>, each \<open>val\<close> given as the list of the items it yields.
  For a list of triples these are the three components of each triple; for a bare
  triple they are the characters of each of its three components.\<close>

definition entry_rows :: "entry \<Rightarrow> error + pyval list list" where
  "entry_rows e =
     (case e of
        EList ts \<Rightarrow> Inr (map (\<lambda>(d, b, t). [Scalar (Some d), b, t]) ts)
      | ETuple (d, b, t) \<Rightarrow> mapE iterate [Scalar (Some d), b, t])"

text \<open>The cells of one row from column 2 on.\<close>

definition row_cells :: "nat \<Rightarrow> pyval list \<Rightarrow> ((nat \<times> nat) \<times> pyval) list" where
  "row_cells row vals = map (\<lambda>(col, x). ((row, col), x)) (zip [2..<2 + length vals] vals)"

text \<open>The loops of \<open>write_results_to_xls\<close>; the state is the sheet and the number of
  the next row.\<close>

definition missing_step ::
  "string \<Rightarrow> string \<Rightarrow> string \<Rightarrow> nat \<Rightarrow> item \<Rightarrow> worksheet \<times> nat \<Rightarrow> error + worksheet \<times> nat"
where
  "missing_step word item_type dict_key col x s =
     (case s of (ws, row) \<Rightarrow>
        bindE (item_value dict_key x) (\<lambda>v.
          Inr (ws\<lparr>cells := cells ws @
                    [((row, 1), v),
                     ((row, 2), Scalar (Some (word @ '' '' @ item_type))),
                     ((row, col), v)]\<rparr>,
               row + 1)))"

definition mismatch_step ::
  "('k \<Rightarrow> pyval) \<Rightarrow> 'k \<times> entry \<Rightarrow> worksheet \<times> nat \<Rightarrow> error + worksheet \<times> nat"
where
  "mismatch_step key_value kv s =
     (case (kv, s) of ((key, val_list), (ws, start_row)) \<Rightarrow>
        bindE (entry_rows val_list) (\<lambda>rows.
          let row = start_row + length rows;
              new_cells = ((start_row, 1), key_value key) #
                          concat (map (\<lambda>(r, vals). row_cells r vals)
                                    (zip [start_row..<row] rows))
          in Inr (ws\<lparr>cells := cells ws @ new_cells,
                      merged_cells := merged_cells ws @
                        (if start_row + 1 < row then [(start_row, 1, row - 1, 1)] else [])\<rparr>,
                  row)))"

definition write_results_to_xls ::
  "('k \<Rightarrow> pyval) \<Rightarrow> string \<Rightarrow> string \<Rightarrow> string \<Rightarrow> item list \<Rightarrow> 'k mismatches \<Rightarrow> item list
     \<Rightarrow> error + worksheet"
where
  "write_results_to_xls key_value sheet_name item_type dict_key miss_list diff_dict adds_list =
     (let ws = \<lparr>title = sheet_name,
                cells = [((1, 1), Scalar (Some (item_type @ '' Name''))),
                         ((1, 2), Scalar (Some ''Difference'')),
                         ((1, 3), Scalar (Some ''Base'')),
                         ((1, 4), Scalar (Some ''Test''))],
                merged_cells = []\<rparr>
      in bindE (foldE (missing_step ''Missing'' item_type dict_key 3) miss_list (ws, 2)) (\<lambda>s1.
         bindE (foldE (mismatch_step key_value) diff_dict s1) (\<lambda>s2.
         bindE (foldE (missing_step ''Additional'' item_type dict_key 4) adds_list s2) (\<lambda>(ws', row).
           Inr ws'))))"

subsection \<open>The script\<close>

text \<open>What a call of one of the comparison functions gives: an exception, or the
  lists of missing and additional things and the dictionary of mismatches.\<close>

type_synonym 'k outcome = "error + item list \<times> 'k mismatches \<times> item list"

text \<open>\<open>miss or diff or add\<close>\<close>

definition any_difference :: "item list \<times> 'k mismatches \<times> item list \<Rightarrow> bool" where
  "any_difference r = (case r of (miss, diff, add) \<Rightarrow> miss \<noteq> [] \<or> diff \<noteq> [] \<or> add \<noteq> [])"

text \<open>One category of the script: the comparison is called and, when it found
  something, \<open>save_wb\<close> is set and a sheet is written. The state is \<open>save_wb\<close> and
  the sheets of the workbook.\<close>

definition category_step ::
  "('k \<Rightarrow> pyval) \<Rightarrow> string \<Rightarrow> string \<Rightarrow> string \<Rightarrow> 'k outcome \<Rightarrow> bool \<times> worksheet list
     \<Rightarrow> error + bool \<times> worksheet list"
where
  "category_step key_value sheet_name item_type dict_key call s =
     (case s of (save_wb, wb) \<Rightarrow>
        bindE call (\<lambda>(miss, diff, add).
          if any_difference (miss, diff, add) then
            bindE (write_results_to_xls key_value sheet_name item_type dict_key miss diff add)
              (\<lambda>ws. Inr (True, wb @ [ws]))
          else Inr s))"

text \<open>The script from \<open>wb = openpyxl.Workbook()\<close> on. Its parameters are the two
  options that skip a category and the seven calls of the comparison functions, each
  given by its outcome; a call is reached only when everything before it returned.
  The result is the workbook that is saved, or \<open>None\<close> when none is saved.\<close>

definition main_script ::
  "bool \<Rightarrow> bool \<Rightarrow> xtext outcome \<Rightarrow> xtext outcome \<Rightarrow> xtext outcome \<Rightarrow> xtext outcome
     \<Rightarrow> xtext outcome \<Rightarrow> xtext outcome \<Rightarrow> string outcome \<Rightarrow> error + worksheet list option"
where
  "main_script ignore_domains ignore_topology
       call_fds call_fc call_tbl call_rc call_domains call_topo call_attr =
     bindE (category_step Scalar ''Feature Datasets'' ''Feature Dataset'' ''Name'' call_fds
              (False, [])) (\<lambda>s1.
     bindE (category_step Scalar ''Feature Classes'' ''Feature Class'' ''Name'' call_fc s1) (\<lambda>s2.
     bindE (category_step Scalar ''Tables'' ''Table'' ''Name'' call_tbl s2) (\<lambda>s3.
     bindE (category_step Scalar ''Relationship Classes'' ''Relationship Class'' ''Name''
              call_rc s3) (\<lambda>s4.
     bindE (if \<not> ignore_domains
            then category_step Scalar ''Domains'' ''Domain'' ''DomainName'' call_domains s4
            else Inr s4) (\<lambda>s5.
     bindE (if \<not> ignore_topology
            then category_step Scalar ''Topologies'' ''Topology'' ''Name'' call_topo s5
            else Inr s5) (\<lambda>s6.
     bindE (category_step (\<lambda>k. Scalar (Some k)) ''Attribute Rules'' ''Attribute Rule'' []
              call_attr s6) (\<lambda>(save_wb, wb).
       Inr (if save_wb then Some wb else None))))))))"

text \<open>The outcome of a comparison of entity lists, and of the attribute rules, as
  the script receives it.\<close>

definition entity_outcome ::
  "error + entity list \<times> xtext mismatches \<times> entity list \<Rightarrow> xtext outcome"
where
  "entity_outcome r = bindE r (\<lambda>(miss, diff, add). Inr (map Ent miss, diff, map Ent add))"

definition key_outcome ::
  "error + string list \<times> string mismatches \<times> string list \<Rightarrow> string outcome"
where
  "key_outcome r = bindE r (\<lambda>(miss, diff, add). Inr (map Key miss, diff, map Key add))"

text \<open>The calls of the script that the embedding covers down to the documents (the
  normalisation of feature datasets and of topologies is not embedded). The call for
  the tables passes \<open>ignore_domains\<close> where \<open>compare_datasets\<close> expects
  \<open>ignore_hasm\<close> and leaves \<open>ignore_hasz\<close> at its default.\<close>

definition call_feature_classes ::
  "bool \<Rightarrow> element \<Rightarrow> element \<Rightarrow> bool \<Rightarrow> bool \<Rightarrow> bool \<Rightarrow> bool \<Rightarrow> xtext outcome"
where
  "call_feature_classes ignore_len_non_text_fields tree_base tree_test
       ignore_ds_alias ignore_fld_alias ignore_hasm ignore_hasz =
     entity_outcome (compare_datasets ignore_len_non_text_fields tree_base tree_test
        ''esri:DEFeatureClass'' ''Feature Class'' ignore_ds_alias ignore_fld_alias
        ignore_hasm ignore_hasz)"

definition call_tables ::
  "bool \<Rightarrow> element \<Rightarrow> element \<Rightarrow> bool \<Rightarrow> bool \<Rightarrow> bool \<Rightarrow> xtext outcome"
where
  "call_tables ignore_len_non_text_fields tree_base tree_test
       ignore_ds_alias ignore_fld_alias ignore_domains =
     entity_outcome (compare_datasets ignore_len_non_text_fields tree_base tree_test
        ''esri:DETable'' ''Table'' ignore_ds_alias ignore_fld_alias ignore_domains True)"

definition call_domains :: "element \<Rightarrow> element \<Rightarrow> xtext outcome" where
  "call_domains tree_base tree_test = entity_outcome (compare_domains tree_base tree_test)"

definition call_relationship_classes :: "element \<Rightarrow> element \<Rightarrow> xtext outcome" where
  "call_relationship_classes tree_base tree_test =
     entity_outcome (compare_relationship_classes tree_base tree_test
        ''esri:DERelationshipClass'' ''Relationship Class'')"

definition call_attr_rules :: "element \<Rightarrow> element \<Rightarrow> string outcome" where
  "call_attr_rules tree_base tree_test =
     key_outcome (compare_attr_rules tree_base tree_test
        [''esri:DEFeatureClass'', ''esri:DETable''] ''Attribute Rules'')"

text \<open>A call that returned with something to report.\<close>

definition differs :: "'k outcome \<Rightarrow> bool" where
  "differs call = (case call of Inl e \<Rightarrow> False | Inr r \<Rightarrow> any_difference r)"

subsection \<open>Documents of the scenarios\<close>

text \<open>An element with a text and no children, and a string between single quotes.\<close>

definition leaf :: "string \<Rightarrow> xtext \<Rightarrow> element" where
  "leaf t x = Element t [] x []"

definition quoted :: "string \<Rightarrow> string" where
  "quoted s = [CHR 0x27] @ s @ [CHR 0x27]"

text \<open>A workspace with the one coded-value domain Status.\<close>

definition coded_value :: "string \<times> string \<Rightarrow> element" where
  "coded_value nc =
     Element ''CodedValue'' [] None [leaf ''Name'' (Some (fst nc)), leaf ''Code'' (Some (snd nc))]"

definition status_doc :: "xtext \<Rightarrow> xtext \<Rightarrow> xtext \<Rightarrow> (string \<times> string) list \<Rightarrow> element" where
  "status_doc ft mp sp cvs =
     Element ''Workspace'' [] None
       [Element ''Domains'' [] None
          [Element ''Domain'' [] None
             [leaf ''DomainName'' (Some ''Status''), leaf ''FieldType'' ft,
              leaf ''MergePolicy'' mp, leaf ''SplitPolicy'' sp,
              Element ''CodedValues'' [] None (map coded_value cvs)]]]"

text \<open>A workspace without domains and with the given feature classes and tables; a
  feature class with a list of fields; a field with its name, type and length and,
  last, the domain it carries if any.\<close>

definition field :: "string \<Rightarrow> string \<Rightarrow> xtext \<Rightarrow> string option \<Rightarrow> element" where
  "field nm ty len domain =
     Element ''Field'' [(''xsi:type'', ''esri:Field'')] None
       ([leaf ''Name'' (Some nm), leaf ''Type'' (Some ty), leaf ''Length'' len]
        @ (case domain of
             None \<Rightarrow> []
           | Some d \<Rightarrow> [Element ''Domain'' [(''xsi:type'', ''esri:CodedValueDomain'')] None
                          [leaf ''DomainName'' (Some d)]]))"

definition feature_class :: "string \<Rightarrow> element list \<Rightarrow> element" where
  "feature_class nm flds =
     Element ''DataElement'' [(''xsi:type'', ''esri:DEFeatureClass'')] None
       [leaf ''Name'' (Some nm),
        Element ''Fields'' [(''xsi:type'', ''esri:Fields'')] None
          [Element ''FieldArray'' [(''xsi:type'', ''esri:ArrayOfField'')] None flds]]"

definition workspace :: "element list \<Rightarrow> element" where
  "workspace data_elements =
     Element ''Workspace'' [] None
       [Element ''WorkspaceDefinition'' [] None
          [Element ''Domains'' [(''xsi:type'', ''esri:ArrayOfDomain'')] None [],
           Element ''DatasetDefinitions'' [(''xsi:type'', ''esri:ArrayOfDataElement'')] None
             data_elements]]"

definition table :: "string \<Rightarrow> element list \<Rightarrow> element" where
  "table nm flds =
     Element ''DataElement'' [(''xsi:type'', ''esri:DETable'')] None
       [leaf ''Name'' (Some nm),
        Element ''Fields'' [(''xsi:type'', ''esri:Fields'')] None
          [Element ''FieldArray'' [(''xsi:type'', ''esri:ArrayOfField'')] None flds]]"

text \<open>A comparison that found nothing.\<close>

definition no_differences :: "'k outcome" where
  "no_differences = Inr ([], [], [])"

text \<open>A relationship class as a normalised entity and as an element of a document.\<close>

definition relationship_class :: "string \<Rightarrow> string \<Rightarrow> entity" where
  "relationship_class cardinality composite =
     [(''Name'', Scalar (Some ''RoadsToSigns'')),
      (''Cardinality'', Scalar (Some cardinality)),
      (''IsComposite'', Scalar (Some composite))]"

definition relationship_class_element :: "string \<Rightarrow> string \<Rightarrow> element" where
  "relationship_class_element cardinality composite =
     Element ''DataElement'' [(''xsi:type'', ''esri:DERelationshipClass'')] None
       [leaf ''Name'' (Some ''RoadsToSigns''), leaf ''Cardinality'' (Some cardinality),
        leaf ''IsComposite'' (Some composite)]"

text \<open>The feature class Roads with the one attribute rule SpeedCheck.\<close>

definition roads_with_rule :: "string \<Rightarrow> element" where
  "roads_with_rule script =
     Element ''DataElement'' [(''xsi:type'', ''esri:DEFeatureClass'')] None
       [leaf ''Name'' (Some ''Roads''),
        Element ''AttributeRules'' [(''xsi:type'', ''esri:ArrayOfAttributeRule'')] None
          [Element ''AttributeRule'' [(''xsi:type'', ''esri:AttributeRule'')] None
             [leaf ''Name'' (Some ''SpeedCheck''), leaf ''Type'' (Some ''esriARTConstraint''),
              leaf ''ScriptExpression'' (Some script)]]]"

definition lane_rule_element :: element where
  "lane_rule_element =
     Element ''DataElement'' [(''xsi:type'', ''esri:DETable'')] None
       [leaf ''Name'' (Some ''Lanes''),
        Element ''AttributeRules'' [(''xsi:type'', ''esri:ArrayOfAttributeRule'')] None
          [Element ''AttributeRule'' [(''xsi:type'', ''esri:AttributeRule'')] None
             [leaf ''Name'' (Some ''LaneCheck'')]]]"

text \<open>The normalised forms of these: the record of a field, given the value it has
  under Domain, its lowercased name, its type and its Length if it keeps one; and the
  dictionary of a feature class, given its name and the records of its fields.\<close>

definition normal_field :: "string \<Rightarrow> string \<Rightarrow> string \<Rightarrow> xtext option \<Rightarrow> (string \<times> xtext) list" where
  "normal_field domain nm ty len =
     [(''Domain'', Some domain), (''Name'', Some nm), (''Type'', Some ty)]
     @ (case len of None \<Rightarrow> [] | Some l \<Rightarrow> [(''Length'', l)])"

definition normal_feature_class :: "string \<Rightarrow> (string \<times> xtext) list list \<Rightarrow> entity" where
  "normal_feature_class nm flds =
     [(''SubtypeFieldName'', Scalar (Some [])), (''Name'', Scalar (Some nm)),
      (''Fields'', DictList flds),
      (''Subtypes'', DictList []), (''SubtypeInfo'', Dict [(Some [], Some [])])]"

text \<open>The Length a field keeps: none when the field is not a string and the option
  to ignore such lengths is set.\<close>

definition kept_length :: "bool \<Rightarrow> string \<Rightarrow> xtext \<Rightarrow> xtext option" where
  "kept_length ignore_len_non_text_fields ty len =
     (if ty \<noteq> ''esriFieldTypeString'' \<and> ignore_len_non_text_fields then None else Some len)"

text \<open>The feature class Roads and the table Inspections of the scenarios.\<close>

definition roads :: element where
  "roads = feature_class ''Roads''
             [field ''SPEED'' ''esriFieldTypeInteger'' (Some ''4'') (Some ''SpeedLimits'')]"

definition inspections :: element where
  "inspections = table ''Inspections'' [field ''OBJECTID'' ''esriFieldTypeOID'' (Some ''4'') None]"

text \<open>The feature class Parcels of two documents: the fields OWNER, AREA and ZONE in
  the base document, the fields AREA, owner and ZONING in the test document; and the
  dictionaries of the two feature classes once normalised with the option to ignore
  the length of fields that are not strings.\<close>

definition owner_base :: element where
  "owner_base = field ''OWNER'' ''esriFieldTypeString'' (Some ''50'') (Some ''Owners'')"

definition owner_test :: element where
  "owner_test = field ''owner'' ''esriFieldTypeString'' (Some ''60'') None"

definition parcels_base_doc :: element where
  "parcels_base_doc =
     workspace [feature_class ''Parcels''
       [owner_base,
        field ''AREA'' ''esriFieldTypeDouble'' (Some ''8'') None,
        field ''ZONE'' ''esriFieldTypeString'' (Some ''10'') None]]"

definition parcels_test_doc :: element where
  "parcels_test_doc =
     workspace [feature_class ''Parcels''
       [field ''AREA'' ''esriFieldTypeDouble'' (Some ''8'') None,
        owner_test,
        field ''ZONING'' ''esriFieldTypeString'' (Some ''10'') None]]"

definition parcels_base :: entity where
  "parcels_base =
     normal_feature_class ''Parcels''
       [normal_field ''Owners'' ''owner'' ''esriFieldTypeString'' (Some (Some ''50'')),
        normal_field [] ''area'' ''esriFieldTypeDouble'' None,
        normal_field [] ''zone'' ''esriFieldTypeString'' (Some (Some ''10''))]"

definition parcels_test :: entity where
  "parcels_test =
     normal_feature_class ''Parcels''
       [normal_field [] ''area'' ''esriFieldTypeDouble'' None,
        normal_field [] ''owner'' ''esriFieldTypeString'' (Some (Some ''60'')),
        normal_field [] ''zoning'' ''esriFieldTypeString'' (Some (Some ''10''))]"

text \<open>The feature class Parcels of the test list once the two lists have been compared,
  and the differences found for Parcels.\<close>

definition parcels_test_compared :: entity where
  "parcels_test_compared =
     normal_feature_class ''Parcels''
       [normal_field [] ''area'' ''esriFieldTypeDouble'' None,
        normal_field [] ''owner'' ''esriFieldTypeString'' (Some (Some ''60''))]"

definition parcels_differences :: "xtext mismatches" where
  "parcels_differences =
     [(Some ''Parcels'',
       EList [(''Additional field'', Scalar (Some []), Scalar (Some ''zoning'')),
              (''Missing field'', Scalar (Some ''zone''), Scalar (Some [])),
              (''owner field has different values for Domain'',
               Scalar (Some ''Owners''), Scalar (Some [])),
              (''owner field has different values for Length'',
               Scalar (Some ''50''), Scalar (Some ''60''))])]"

section \<open>Properties\<close>

subsection \<open>Exceptions and loops\<close>

lemma bindE_simps: "bindE (Inr x) f = f x" "bindE (Inl e) f = Inl e"
  by (simp_all add: bindE_def)

lemma bindE_eq_Inr: "bindE m f = Inr y \<longleftrightarrow> (\<exists>x. m = Inr x \<and> f x = Inr y)"
  by (cases m) (simp_all add: bindE_def)

text \<open>A property that holds before a loop and that every step of the loop keeps,
  holds when the loop ends without an exception.\<close>

lemma foldE_invariant:
  assumes "foldE f xs s = Inr s'" and "I s"
    and "\<And>x t t'. x \<in> set xs \<Longrightarrow> I t \<Longrightarrow> f x t = Inr t' \<Longrightarrow> I t'"
  shows "I s'"
  using assms
proof (induction xs arbitrary: s)
  case Nil
  then show ?case by simp
next
  case (Cons x xs)
  from Cons.prems(1) obtain t where t: "f x s = Inr t" and rest: "foldE f xs t = Inr s'"
    by (auto simp: bindE_eq_Inr)
  have "I t" using Cons.prems(3)[OF _ Cons.prems(2) t] by simp
  show ?case
    by (rule Cons.IH[OF rest \<open>I t\<close>]) (use Cons.prems(3) in auto)
qed

lemma dict_get_Inr: "dict_get d k = Inr v \<longleftrightarrow> map_of d k = Some v"
  by (simp add: dict_get_def split: option.splits)

subsection \<open>Domains\<close>

lemma iter_tag_Nil: "t \<notin> tag ` set (iter e) \<Longrightarrow> iter_tag t e = []"
  by (auto simp: iter_tag_def filter_empty_conv)

text \<open>C10. In a document without an element tagged Domains the loop of
  \<open>get_domain_properties\<close> never assigns \<open>domain_list\<close>, and the sort that follows
  raises UnboundLocalError instead of returning an empty list. So \<open>compare_domains\<close>
  raises whenever one of its two documents has no Domains element.\<close>

theorem get_domain_properties_without_Domains:
  assumes "''Domains'' \<notin> tag ` set (iter tree)"
  shows "get_domain_properties tree = Inl UnboundLocalError
       \<and> compare_domains tree other = Inl UnboundLocalError
       \<and> (\<exists>e. compare_domains other tree = Inl e)"
  using assms
  by (auto simp: iter_tag_Nil get_domain_properties_def compare_domains_def bindE_def
           split: sum.splits)

theorem get_domain_properties_without_Domains_witness:
  "''Domains'' \<notin> tag ` set (iter (Element ''Workspace'' [] None []))
   \<and> get_domain_properties (Element ''Workspace'' [] None []) = Inl UnboundLocalError"
  using get_domain_properties_without_Domains [of "Element ''Workspace'' [] None []"]
  by simp

text \<open>C2. For the domain Status with the coded values Active/1 and Inactive/2 in the
  base document and Active/1 and Retired/2 in the test document, \<open>compare_domains\<close>
  reports no missing and no additional domain and one triple for Status, but not the
  one the branches of the code are written to give. Both differences are non-empty,
  and the branch labelled "additional and missing", which turns both differences
  around, is guarded by an empty test difference: it is skipped, the branch labelled
  "missing" is taken, and only the base difference is turned around. The test value
  is left name first, \<open>{'Retired': '2'}\<close>. The result is neither the triple with the
  label "additional and missing" and both dictionaries code first, nor that triple
  with the codes printed without quotes.\<close>

theorem compare_domains_status_label:
  "compare_domains
     (status_doc ft mp sp [(''Active'', ''1''), (''Inactive'', ''2'')])
     (status_doc ft mp sp [(''Active'', ''1''), (''Retired'', ''2'')])
   = Inr ([],
          [(Some ''Status'',
            EList [(''Domain has missing CodedValues'',
                    Scalar (Some (''{'' @ quoted ''2'' @ '': '' @ quoted ''Inactive'' @ ''}'')),
                    Scalar (Some (''{'' @ quoted ''Retired'' @ '': '' @ quoted ''2'' @ ''}'')))])],
          [])
   \<and> (''Domain has missing CodedValues'',
        Scalar (Some (''{'' @ quoted ''2'' @ '': '' @ quoted ''Inactive'' @ ''}'')),
        Scalar (Some (''{'' @ quoted ''Retired'' @ '': '' @ quoted ''2'' @ ''}'')))
     \<noteq> (''Domain has additional and missing CodedValues'',
          Scalar (Some (''{'' @ quoted ''2'' @ '': '' @ quoted ''Inactive'' @ ''}'')),
          Scalar (Some (''{'' @ quoted ''2'' @ '': '' @ quoted ''Retired'' @ ''}'')))
   \<and> (''Domain has missing CodedValues'',
        Scalar (Some (''{'' @ quoted ''2'' @ '': '' @ quoted ''Inactive'' @ ''}'')),
        Scalar (Some (''{'' @ quoted ''Retired'' @ '': '' @ quoted ''2'' @ ''}'')))
     \<noteq> (''Domain has additional and missing CodedValues'',
          Scalar (Some (''{2: '' @ quoted ''Inactive'' @ ''}'')),
          Scalar (Some (''{2: '' @ quoted ''Retired'' @ ''}'')))"
  by code_simp

text \<open>The branch labelled "additional and missing" is the one taken when only the
  base document has a coded value of its own; it calls \<open>swap_key_value\<close> on the
  empty string and raises.\<close>

lemma compare_domains_missing_coded_value_raises:
  "compare_domains
     (status_doc ft mp sp [(''Active'', ''1''), (''Inactive'', ''2'')])
     (status_doc ft mp sp [(''Active'', ''1'')])
   = Inl AttributeError"
  by code_simp

text \<open>With a coded value of its own in the test document only, the label is
  "additional".\<close>

lemma compare_domains_additional_coded_value:
  "compare_domains
     (status_doc ft mp sp [(''Active'', ''1'')])
     (status_doc ft mp sp [(''Active'', ''1''), (''Retired'', ''2'')])
   = Inr ([],
          [(Some ''Status'',
            EList [(''Domain has additional CodedValues'', Scalar (Some []),
                    Scalar (Some (''{'' @ quoted ''2'' @ '': '' @ quoted ''Retired'' @ ''}'')))])],
          [])"
  by code_simp

subsection \<open>Identical collections\<close>

lemma dict_eq_refl: "(\<And>x. veq x x) \<Longrightarrow> dict_eq veq d d"
  by (auto simp: dict_eq_def list_all_iff split: option.splits dest: weak_map_of_SomeI)

lemma py_eq_refl: "py_eq v v"
  by (cases v) (simp_all add: dict_eq_refl list_all2_same)

lemma entity_eq_refl: "entity_eq d d"
  unfolding entity_eq_def by (rule dict_eq_refl) (rule py_eq_refl)

lemma entity_list_eq_refl: "list_all2 entity_eq X X"
  by (simp add: list_all2_same entity_eq_refl)

text \<open>C1. Each of the comparisons, given the same normalised collection twice,
  returns the empty triple: the domains, the feature datasets, the feature classes and
  the tables (both compared by \<open>compare_datasets\<close>, which leaves the two lists as
  they are), the relationship classes, the topologies and the attribute rules.\<close>

theorem compare_identical:
  "compare_domain_lists X X = Inr ([], [], [])
   \<and> compare_fds_lists name X X = Inr ([], [], [])
   \<and> compare_dataset_lists name \<lparr>ds_list_base = X, ds_list_test = X\<rparr>
       = Inr (([], [], []), \<lparr>ds_list_base = X, ds_list_test = X\<rparr>)
   \<and> compare_relationship_class_lists name X X = Inr ([], [], [])
   \<and> compare_topo_lists name X X = Inr ([], [], [])
   \<and> compare_attr_rule_dicts A A = Inr ([], [], [])"
  by (simp add: compare_domain_lists_def compare_fds_lists_def compare_dataset_lists_def
      compare_relationship_class_lists_def compare_topo_lists_def compare_attr_rule_dicts_def
      entity_list_eq_refl dict_eq_refl)

text \<open>The same from the documents on: when a document is normalised without an
  exception, comparing it with itself gives the empty triple.\<close>

lemma compare_domains_same_document:
  "get_domain_properties tree = Inr X \<Longrightarrow> compare_domains tree tree = Inr ([], [], [])"
  by (simp add: compare_domains_def bindE_def compare_domain_lists_def entity_list_eq_refl)

lemma compare_datasets_same_document:
  "get_dataset_properties f tree ds_type a b c d = Inr X
   \<Longrightarrow> compare_datasets f tree tree ds_type name a b c d = Inr ([], [], [])"
  by (simp add: compare_datasets_def bindE_def compare_dataset_lists_def entity_list_eq_refl)

lemma compare_relationship_classes_same_document:
  "get_rc_properties tree ds_type = Inr X
   \<Longrightarrow> compare_relationship_classes tree tree ds_type name = Inr ([], [], [])"
  by (simp add: compare_relationship_classes_def bindE_def compare_relationship_class_lists_def
        entity_list_eq_refl)

lemma compare_attr_rules_same_document:
  "get_attr_rules_properties tree ds_type = Inr A
   \<Longrightarrow> compare_attr_rules tree tree ds_type name = Inr ([], [], [])"
  by (simp add: compare_attr_rules_def bindE_def compare_attr_rule_dicts_def dict_eq_refl)

subsection \<open>Several properties that differ\<close>

text \<open>C3 does not hold of the code. A relationship class whose Cardinality and
  IsComposite both differ gets one triple, for the property compared last: each
  difference is stored with \<open>rc_diff[rc_name] = [...]\<close> and replaces the one before.
  The scalar properties of a domain are stored the same way: with FieldType and
  MergePolicy both different only MergePolicy is reported.\<close>

theorem two_mismatches_one_triple:
  "compare_relationship_classes
     (workspace [relationship_class_element ''esriRelCardinalityOneToMany'' ''false''])
     (workspace [relationship_class_element ''esriRelCardinalityOneToOne'' ''true''])
     ''esri:DERelationshipClass'' ''Relationship Class''
   = Inr ([],
          [(Some ''RoadsToSigns'',
            EList [(''Relationship Class has mismatch IsComposite property'',
                    Scalar (Some ''false''), Scalar (Some ''true''))])],
          [])
   \<and> compare_domains
       (status_doc (Some ''esriFieldTypeInteger'') (Some ''esriMPTDefaultValue'') None [])
       (status_doc (Some ''esriFieldTypeString'') (Some ''esriMPTAreaWeighted'') None [])
   = Inr ([],
          [(Some ''Status'',
            EList [(''Domain has mismatch MergePolicy property'',
                    Scalar (Some ''esriMPTDefaultValue''), Scalar (Some ''esriMPTAreaWeighted''))])],
          [])"
  by code_simp

text \<open>The document above is normalised to the entity \<open>relationship_class\<close>.\<close>

lemma get_rc_properties_relationship_class:
  "get_rc_properties (workspace [relationship_class_element c k]) ''esri:DERelationshipClass''
   = Inr [relationship_class c k]"
  by code_simp

text \<open>The comparison of feature datasets, written with an append, keeps both.\<close>

lemma compare_fds_two_mismatches:
  "compare_fds_lists ''Feature Dataset''
     [relationship_class ''esriRelCardinalityOneToMany'' ''false'']
     [relationship_class ''esriRelCardinalityOneToOne'' ''true'']
   = Inr ([],
          [(Some ''RoadsToSigns'',
            EList [(''Feature Dataset has mismatch Cardinality property'',
                    Scalar (Some ''esriRelCardinalityOneToMany''),
                    Scalar (Some ''esriRelCardinalityOneToOne'')),
                   (''Feature Dataset has mismatch IsComposite property'',
                    Scalar (Some ''false''), Scalar (Some ''true''))])],
          [])"
  by code_simp

subsection \<open>Attribute rules with the same keys\<close>

text \<open>C4 does not hold of the code. With the same rule in both documents and a
  different script expression, the lists of keys are equal, \<open>attr_miss\<close> and
  \<open>attr_add\<close> are never assigned and the \<open>return\<close> raises UnboundLocalError.\<close>

theorem compare_attr_rules_same_keys_raises:
  "compare_attr_rules
     (workspace [roads_with_rule ''return true'']) (workspace [roads_with_rule ''return false''])
     [''esri:DEFeatureClass'', ''esri:DETable''] ''Attribute Rules''
   = Inl UnboundLocalError"
  by code_simp

text \<open>The two documents are normalised without an exception.\<close>

lemma get_attr_rules_properties_roads:
  "get_attr_rules_properties (workspace [roads_with_rule script])
     [''esri:DEFeatureClass'', ''esri:DETable'']
   = Inr [(''Roads: SpeedCheck'',
           [(''DatasetName'', Some ''Roads''), (''ScriptExpression'', Some script),
            (''Type'', Some ''esriARTConstraint'')])]"
  by code_simp

text \<open>The exception is raised for every pair of normalised dictionaries that differ
  and have the same keys: the comparison never returns a triple.\<close>

lemma compare_attr_rules_same_keys:
  assumes "\<not> dict_eq (dict_eq (=)) base test" and "sort (map fst base) = sort (map fst test)"
  shows "\<exists>e. compare_attr_rule_dicts base test = Inl e"
  using assms
  by (auto simp: compare_attr_rule_dicts_def Let_def bindE_def split: sum.splits)

text \<open>With a rule that only one document has, the function returns.\<close>

lemma compare_attr_rules_other_keys:
  "compare_attr_rules
     (workspace [roads_with_rule ''return true''])
     (workspace [roads_with_rule ''return false'', lane_rule_element])
     [''esri:DEFeatureClass'', ''esri:DETable''] ''Attribute Rules''
   = Inr ([],
          [(''Roads: SpeedCheck'',
            EList [(''SpeedCheck has mismatch ScriptExpression property'',
                    Scalar (Some ''return true''), Scalar (Some ''return false''))])],
          [''Lanes: LaneCheck''])"
  by code_simp

subsection \<open>When the workbook is saved\<close>

lemma category_step_Inr:
  assumes "category_step kv sn it dk call (b, wb) = Inr (b', wb')"
  shows "b' = (b \<or> differs call)" and "(b \<longrightarrow> wb \<noteq> []) \<Longrightarrow> (b' \<longrightarrow> wb' \<noteq> [])"
  using assms
  by (auto simp: category_step_def bindE_def differs_def split: sum.splits if_splits prod.splits)

lemma optional_step_Inr:
  assumes "(if \<not> ignore then category_step kv sn it dk call (b, wb) else Inr (b, wb))
           = Inr (b', wb')"
  shows "b' = (b \<or> (\<not> ignore \<and> differs call))"
    and "(b \<longrightarrow> wb \<noteq> []) \<Longrightarrow> (b' \<longrightarrow> wb' \<noteq> [])"
  using assms category_step_Inr[of kv sn it dk call b wb b' wb']
  by (cases ignore; auto)+

text \<open>C5. When the script runs to its end, a workbook is saved exactly when one of
  the comparisons that were made returned something, and a workbook that is saved has
  at least one sheet. The comparisons of the domains and of the topologies are made
  unless the matching option skips them.\<close>

theorem workbook_saved_iff:
  assumes "main_script ignore_domains ignore_topology
             call_fds call_fc call_tbl call_rc call_dom call_topo call_attr = Inr saved"
  shows "(saved \<noteq> None) =
           (differs call_fds \<or> differs call_fc \<or> differs call_tbl \<or> differs call_rc
            \<or> (\<not> ignore_domains \<and> differs call_dom)
            \<or> (\<not> ignore_topology \<and> differs call_topo) \<or> differs call_attr)
         \<and> saved \<noteq> Some []"
proof -
  from assms obtain b1 w1 where s1:
    "category_step Scalar ''Feature Datasets'' ''Feature Dataset'' ''Name'' call_fds (False, [])
     = Inr (b1, w1)"
    by (auto simp: main_script_def bindE_def split: sum.splits)
  from assms s1 obtain b2 w2 where s2:
    "category_step Scalar ''Feature Classes'' ''Feature Class'' ''Name'' call_fc (b1, w1)
     = Inr (b2, w2)"
    by (auto simp: main_script_def bindE_def split: sum.splits)
  from assms s1 s2 obtain b3 w3 where s3:
    "category_step Scalar ''Tables'' ''Table'' ''Name'' call_tbl (b2, w2) = Inr (b3, w3)"
    by (auto simp: main_script_def bindE_def split: sum.splits)
  from assms s1 s2 s3 obtain b4 w4 where s4:
    "category_step Scalar ''Relationship Classes'' ''Relationship Class'' ''Name'' call_rc (b3, w3)
     = Inr (b4, w4)"
    by (auto simp: main_script_def bindE_def split: sum.splits)
  from assms s1 s2 s3 s4 obtain b5 w5 where s5:
    "(if \<not> ignore_domains
      then category_step Scalar ''Domains'' ''Domain'' ''DomainName'' call_dom (b4, w4)
      else Inr (b4, w4)) = Inr (b5, w5)"
    by (auto simp: main_script_def bindE_def split: sum.splits)
  from assms s1 s2 s3 s4 s5 obtain b6 w6 where s6:
    "(if \<not> ignore_topology
      then category_step Scalar ''Topologies'' ''Topology'' ''Name'' call_topo (b5, w5)
      else Inr (b5, w5)) = Inr (b6, w6)"
    by (auto simp: main_script_def bindE_def split: sum.splits)
  from assms s1 s2 s3 s4 s5 s6 obtain b7 w7 where s7:
    "category_step (\<lambda>k. Scalar (Some k)) ''Attribute Rules'' ''Attribute Rule'' [] call_attr (b6, w6)
     = Inr (b7, w7)"
    and saved: "saved = (if b7 then Some w7 else None)"
    by (auto simp: main_script_def bindE_def split: sum.splits)
  have i1: "b1 = differs call_fds" "b1 \<longrightarrow> w1 \<noteq> []"
    using category_step_Inr[OF s1] by auto
  have i2: "b2 = (b1 \<or> differs call_fc)" "b2 \<longrightarrow> w2 \<noteq> []"
    using category_step_Inr[OF s2] i1 by auto
  have i3: "b3 = (b2 \<or> differs call_tbl)" "b3 \<longrightarrow> w3 \<noteq> []"
    using category_step_Inr[OF s3] i2 by auto
  have i4: "b4 = (b3 \<or> differs call_rc)" "b4 \<longrightarrow> w4 \<noteq> []"
    using category_step_Inr[OF s4] i3 by auto
  have i5: "b5 = (b4 \<or> (\<not> ignore_domains \<and> differs call_dom))" "b5 \<longrightarrow> w5 \<noteq> []"
    using optional_step_Inr[OF s5] i4 by auto
  have i6: "b6 = (b5 \<or> (\<not> ignore_topology \<and> differs call_topo))" "b6 \<longrightarrow> w6 \<noteq> []"
    using optional_step_Inr[OF s6] i5 by auto
  have i7: "b7 = (b6 \<or> differs call_attr)" "b7 \<longrightarrow> w7 \<noteq> []"
    using category_step_Inr[OF s7] i6 by auto
  show ?thesis
    using saved i1 i2 i3 i4 i5 i6 i7 by auto
qed

text \<open>Two runs of the script, every call being the comparison itself. With the
  same document on both sides nothing is saved and no comparison differs. With the
  table Inspections added to the test document the workbook is saved with the one
  sheet of the tables, and a comparison differs.\<close>

theorem workbook_saved_iff_witness:
  "main_script False False
     (entity_outcome (compare_fds_lists ''Feature Dataset'' [] []))
     (call_feature_classes True (workspace [roads]) (workspace [roads]) False False False False)
     (call_tables True (workspace [roads]) (workspace [roads]) False False False)
     (call_relationship_classes (workspace [roads]) (workspace [roads]))
     (call_domains (workspace [roads]) (workspace [roads]))
     (entity_outcome (compare_topo_lists ''Topology'' [] []))
     (call_attr_rules (workspace [roads]) (workspace [roads]))
   = Inr None
   \<and> \<not> differs (call_tables True (workspace [roads]) (workspace [roads]) False False False)
   \<and> main_script False False
     (entity_outcome (compare_fds_lists ''Feature Dataset'' [] []))
     (call_feature_classes True (workspace [roads]) (workspace [roads, inspections])
        False False False False)
     (call_tables True (workspace [roads]) (workspace [roads, inspections]) False False False)
     (call_relationship_classes (workspace [roads]) (workspace [roads, inspections]))
     (call_domains (workspace [roads]) (workspace [roads, inspections]))
     (entity_outcome (compare_topo_lists ''Topology'' [] []))
     (call_attr_rules (workspace [roads]) (workspace [roads, inspections]))
   = Inr (Some [\<lparr>title = ''Tables'',
                  cells = [((1, 1), Scalar (Some ''Table Name'')),
                           ((1, 2), Scalar (Some ''Difference'')),
                           ((1, 3), Scalar (Some ''Base'')),
                           ((1, 4), Scalar (Some ''Test'')),
                           ((2, 1), Scalar (Some ''Inspections'')),
                           ((2, 2), Scalar (Some ''Additional Table'')),
                           ((2, 4), Scalar (Some ''Inspections''))],
                  merged_cells = []\<rparr>])
   \<and> (differs (entity_outcome (compare_fds_lists ''Feature Dataset'' [] []))
      \<or> differs (call_feature_classes True (workspace [roads]) (workspace [roads, inspections])
                   False False False False)
      \<or> differs (call_tables True (workspace [roads]) (workspace [roads, inspections])
                   False False False)
      \<or> differs (call_relationship_classes (workspace [roads]) (workspace [roads, inspections]))
      \<or> differs (call_domains (workspace [roads]) (workspace [roads, inspections]))
      \<or> differs (entity_outcome (compare_topo_lists ''Topology'' [] []))
      \<or> differs (call_attr_rules (workspace [roads]) (workspace [roads, inspections])))"
proof -
  have same: "main_script False False
     (entity_outcome (compare_fds_lists ''Feature Dataset'' [] []))
     (call_feature_classes True (workspace [roads]) (workspace [roads]) False False False False)
     (call_tables True (workspace [roads]) (workspace [roads]) False False False)
     (call_relationship_classes (workspace [roads]) (workspace [roads]))
     (call_domains (workspace [roads]) (workspace [roads]))
     (entity_outcome (compare_topo_lists ''Topology'' [] []))
     (call_attr_rules (workspace [roads]) (workspace [roads]))
   = Inr None"
    by code_simp
  have added: "main_script False False
     (entity_outcome (compare_fds_lists ''Feature Dataset'' [] []))
     (call_feature_classes True (workspace [roads]) (workspace [roads, inspections])
        False False False False)
     (call_tables True (workspace [roads]) (workspace [roads, inspections]) False False False)
     (call_relationship_classes (workspace [roads]) (workspace [roads, inspections]))
     (call_domains (workspace [roads]) (workspace [roads, inspections]))
     (entity_outcome (compare_topo_lists ''Topology'' [] []))
     (call_attr_rules (workspace [roads]) (workspace [roads, inspections]))
   = Inr (Some [\<lparr>title = ''Tables'',
                  cells = [((1, 1), Scalar (Some ''Table Name'')),
                           ((1, 2), Scalar (Some ''Difference'')),
                           ((1, 3), Scalar (Some ''Base'')),
                           ((1, 4), Scalar (Some ''Test'')),
                           ((2, 1), Scalar (Some ''Inspections'')),
                           ((2, 2), Scalar (Some ''Additional Table'')),
                           ((2, 4), Scalar (Some ''Inspections''))],
                  merged_cells = []\<rparr>])"
    by code_simp
  from workbook_saved_iff [OF same] workbook_saved_iff [OF added] same added
  show ?thesis by simp
qed

text \<open>When every comparison that is made returns the empty triple, the script runs
  to its end and saves nothing.\<close>

lemma nothing_differs_nothing_saved:
  assumes "call_fds = Inr ([], [], [])" "call_fc = Inr ([], [], [])"
    and "call_tbl = Inr ([], [], [])" "call_rc = Inr ([], [], [])"
    and "ignore_domains \<or> call_dom = Inr ([], [], [])"
    and "ignore_topology \<or> call_topo = Inr ([], [], [])"
    and "call_attr = Inr ([], [], [])"
  shows "main_script ignore_domains ignore_topology
           call_fds call_fc call_tbl call_rc call_dom call_topo call_attr = Inr None"
  using assms
  by (auto simp: main_script_def category_step_def any_difference_def bindE_simps)

text \<open>A run that does not reach its end saves nothing, whatever the comparisons
  before returned: here the tables differ and the comparison of the attribute rules
  raises.\<close>

lemma script_stops_at_exception:
  "main_script False False
     (entity_outcome (compare_fds_lists ''Feature Dataset'' [] []))
     (call_feature_classes True (workspace [roads_with_rule ''return true''])
        (workspace [roads_with_rule ''return false'', inspections]) False False False False)
     (call_tables True (workspace [roads_with_rule ''return true''])
        (workspace [roads_with_rule ''return false'', inspections]) False False False)
     (call_relationship_classes (workspace [roads_with_rule ''return true''])
        (workspace [roads_with_rule ''return false'', inspections]))
     (call_domains (workspace [roads_with_rule ''return true''])
        (workspace [roads_with_rule ''return false'', inspections]))
     (entity_outcome (compare_topo_lists ''Topology'' [] []))
     (call_attr_rules (workspace [roads_with_rule ''return true''])
        (workspace [roads_with_rule ''return false'', inspections]))
   = Inl UnboundLocalError"
  by code_simp

subsection \<open>Fields of feature classes and tables\<close>

lemmas document_defs = workspace_def feature_class_def table_def field_def leaf_def

lemmas parser_defs = get_dataset_properties_def dataset_elem_step_def ds_prop_step_def
  field_record_def fld_prop_step_def subtype_record_def iter_tag_def first_attrib_def
  sort_by_item_def itemgetter_def py_sort_def dict_get_def dict_del_def bindE_simps dict_eq_def
  str_key_def Let_def normal_field_def normal_feature_class_def kept_length_def

lemmas differ_defs = compare_dataset_lists_def dataset_step_def ds_item_step_def
  fields_branch_def subtypes_branch_def subtype_info_branch_def field_step_def
  field_pair_step_def names_of_def not_named_def as_dicts_def items_def first_def
  find_by_name_def entity_in_def entity_eq_def append_or_create_def
  append_or_create_tuple_def entry_append_def str_text_def itemgetter_def dict_get_def
  bindE_simps dict_eq_def Let_def normal_field_def normal_feature_class_def

lemma lower_names:
  "lower ''NAME'' = ''name''" "lower ''LANES'' = ''lanes''" "lower ''SPEED'' = ''speed''"
  "lower ''OWNER'' = ''owner''" "lower ''owner'' = ''owner''"
  by code_simp+

text \<open>A child tagged Name stores its text lowercased in the record of the field.\<close>

lemma map_of_dict_set: "map_of (dict_set d k v) k = Some v"
  by (induction d) auto

lemma fld_prop_step_Name:
  "fld_prop_step ignore_fld_alias (Element ''Name'' atts (Some s) cs) d = Inr d'
   \<Longrightarrow> map_of d' ''Name'' = Some (Some (lower s))"
  by (auto simp: fld_prop_step_def Let_def map_of_dict_set)

text \<open>With the option set, the record of a field whose Type is not
  esriFieldTypeString has no Length.\<close>

lemma field_record_drops_length:
  assumes "field_record True ignore_fld_alias ds_prop = Inr d"
    and "map_of d ''Type'' \<noteq> Some (Some ''esriFieldTypeString'')"
  shows "''Length'' \<notin> fst ` set d"
proof -
  from assms(1) obtain flds_dict ty where
    ty: "map_of flds_dict ''Type'' = Some ty"
    and d: "(if ty \<noteq> Some ''esriFieldTypeString'' then dict_del flds_dict ''Length''
             else Inr flds_dict) = Inr d"
    by (auto simp: field_record_def bindE_eq_Inr dict_get_Inr)
  show ?thesis
  proof (cases "ty = Some ''esriFieldTypeString''")
    case True
    with d ty assms(2) show ?thesis by simp
  next
    case False
    with d show ?thesis
      by (auto simp: dict_del_def split: if_splits)
  qed
qed

text \<open>The normal form of a feature class with one field: the name of the field is
  lowercased, the key Domain comes first and holds the name of the domain or the empty
  string, and the Length is kept or not.\<close>

lemma parse_feature_class:
  "get_dataset_properties f (workspace [feature_class nm [field n ty len dm]])
     ''esri:DEFeatureClass'' a b c d
   = Inr [normal_feature_class nm
            [normal_field (case dm of None \<Rightarrow> [] | Some x \<Rightarrow> x) (lower n) ty
               (kept_length f ty len)]]"
  by (cases dm) (simp_all add: document_defs parser_defs)

text \<open>The same with a string field NAME and a second field LANES.\<close>

lemma parse_two_fields:
  "get_dataset_properties f
     (workspace [feature_class ''Roads''
                   [field ''NAME'' ''esriFieldTypeString'' l1 None, field ''LANES'' ty l2 None]])
     ''esri:DEFeatureClass'' a b c d
   = Inr [normal_feature_class ''Roads''
            [normal_field [] ''name'' ''esriFieldTypeString'' (Some l1),
             normal_field [] ''lanes'' ty (kept_length f ty l2)]]"
  by (simp add: document_defs parser_defs lower_names)

lemma compare_dataset_lists_same:
  "compare_dataset_lists name \<lparr>ds_list_base = X, ds_list_test = X\<rparr>
   = Inr (([], [], []), \<lparr>ds_list_base = X, ds_list_test = X\<rparr>)"
  by (simp add: compare_dataset_lists_def entity_list_eq_refl)

text \<open>Two feature classes that differ in the Length of their one field.\<close>

lemma differ_length:
  assumes "l1 \<noteq> l2"
  shows "compare_dataset_lists name
     \<lparr>ds_list_base = [normal_feature_class ds [normal_field dm n ty (Some l1)]],
      ds_list_test = [normal_feature_class ds [normal_field dm n ty (Some l2)]]\<rparr>
   = Inr (([],
           [(Some ds,
             EList [(n @ '' field has different values for Length'',
                     Scalar (Some (str_text l1)), Scalar (Some (str_text l2)))])],
           []),
          \<lparr>ds_list_base = [normal_feature_class ds [normal_field dm n ty (Some l1)]],
           ds_list_test = [normal_feature_class ds [normal_field dm n ty (Some l2)]]\<rparr>)"
  using assms by (simp add: differ_defs)

text \<open>Two feature classes with one field each, the names of the two fields differing
  at most in the case of their letters and the fields at most in their Length: the
  result is empty or holds the one triple for the Length, under the lowercased name.\<close>

lemma one_field_ignore_case:
  assumes "lower nb = lower nt"
  shows "compare_datasets f
           (workspace [feature_class ds [field nb ty lb dm]])
           (workspace [feature_class ds [field nt ty lt dm]])
           ''esri:DEFeatureClass'' name a b c d
         = Inr ([],
                (if kept_length f ty lb = kept_length f ty lt then []
                 else [(Some ds,
                        EList [(lower nb @ '' field has different values for Length'',
                                Scalar (Some (str_text lb)), Scalar (Some (str_text lt)))])]),
                [])"
proof (cases "kept_length f ty lb = kept_length f ty lt")
  case True
  with assms show ?thesis
    by (simp add: compare_datasets_def parse_feature_class compare_dataset_lists_same
          bindE_simps)
next
  case False
  then have "kept_length f ty lb = Some lb" "kept_length f ty lt = Some lt" "lb \<noteq> lt"
    by (auto simp: kept_length_def split: if_splits)
  with assms False show ?thesis
    by (simp add: compare_datasets_def parse_feature_class differ_length bindE_simps)
qed

text \<open>Two feature classes with the fields \<open>name\<close> and \<open>lanes\<close>, the second
  without a Length on either side, and then with one.\<close>

lemma differ_two_fields_ignore:
  assumes "l1 \<noteq> l1'"
  shows "compare_dataset_lists ''Feature Class''
     \<lparr>ds_list_base = [normal_feature_class ''Roads''
        [normal_field [] ''name'' ''esriFieldTypeString'' (Some l1),
         normal_field [] ''lanes'' ty None]],
      ds_list_test = [normal_feature_class ''Roads''
        [normal_field [] ''name'' ''esriFieldTypeString'' (Some l1'),
         normal_field [] ''lanes'' ty None]]\<rparr>
   = Inr (([],
           [(Some ''Roads'',
             EList [(''name field has different values for Length'',
                     Scalar (Some (str_text l1)), Scalar (Some (str_text l1')))])],
           []),
          \<lparr>ds_list_base = [normal_feature_class ''Roads''
             [normal_field [] ''name'' ''esriFieldTypeString'' (Some l1),
              normal_field [] ''lanes'' ty None]],
           ds_list_test = [normal_feature_class ''Roads''
             [normal_field [] ''name'' ''esriFieldTypeString'' (Some l1'),
              normal_field [] ''lanes'' ty None]]\<rparr>)"
  using assms by (simp add: differ_defs)

lemma differ_two_fields_keep:
  assumes "l1 \<noteq> l1'" "l2 \<noteq> l2'"
  shows "compare_dataset_lists ''Feature Class''
     \<lparr>ds_list_base = [normal_feature_class ''Roads''
        [normal_field [] ''name'' ''esriFieldTypeString'' (Some l1),
         normal_field [] ''lanes'' ty (Some l2)]],
      ds_list_test = [normal_feature_class ''Roads''
        [normal_field [] ''name'' ''esriFieldTypeString'' (Some l1'),
         normal_field [] ''lanes'' ty (Some l2')]]\<rparr>
   = Inr (([],
           [(Some ''Roads'',
             EList [(''name field has different values for Length'',
                     Scalar (Some (str_text l1)), Scalar (Some (str_text l1'))),
                    (''lanes field has different values for Length'',
                     Scalar (Some (str_text l2)), Scalar (Some (str_text l2')))])],
           []),
          \<lparr>ds_list_base = [normal_feature_class ''Roads''
             [normal_field [] ''name'' ''esriFieldTypeString'' (Some l1),
              normal_field [] ''lanes'' ty (Some l2)]],
           ds_list_test = [normal_feature_class ''Roads''
             [normal_field [] ''name'' ''esriFieldTypeString'' (Some l1'),
              normal_field [] ''lanes'' ty (Some l2')]]\<rparr>)"
  using assms by (simp add: differ_defs)

text \<open>C7. With the option to ignore the length of fields that are not strings set,
  a string field and a field of another type whose Lengths both differ between the
  documents give one triple, for the string field: the other field has lost its
  Length when it was normalised.\<close>

theorem length_of_non_text_field_ignored:
  assumes "ty \<noteq> ''esriFieldTypeString''" and "l1 \<noteq> l1'" and "l2 \<noteq> l2'"
  shows "compare_datasets True
           (workspace [feature_class ''Roads''
              [field ''NAME'' ''esriFieldTypeString'' l1 None, field ''LANES'' ty l2 None]])
           (workspace [feature_class ''Roads''
              [field ''NAME'' ''esriFieldTypeString'' l1' None, field ''LANES'' ty l2' None]])
           ''esri:DEFeatureClass'' ''Feature Class'' a b c d
         = Inr ([],
                [(Some ''Roads'',
                  EList [(''name field has different values for Length'',
                          Scalar (Some (str_text l1)), Scalar (Some (str_text l1')))])],
                [])"
  using assms
  by (simp add: compare_datasets_def parse_two_fields kept_length_def
        differ_two_fields_ignore bindE_simps)

theorem length_of_non_text_field_ignored_witness:
  "''esriFieldTypeInteger'' \<noteq> ''esriFieldTypeString''
   \<and> compare_datasets True
       (workspace [feature_class ''Roads''
          [field ''NAME'' ''esriFieldTypeString'' (Some ''50'') None,
           field ''LANES'' ''esriFieldTypeInteger'' (Some ''4'') None]])
       (workspace [feature_class ''Roads''
          [field ''NAME'' ''esriFieldTypeString'' (Some ''60'') None,
           field ''LANES'' ''esriFieldTypeInteger'' (Some ''8'') None]])
       ''esri:DEFeatureClass'' ''Feature Class'' False False False False
     = Inr ([],
            [(Some ''Roads'',
              EList [(''name field has different values for Length'',
                      Scalar (Some ''50''), Scalar (Some ''60''))])],
            [])"
  using length_of_non_text_field_ignored [of "''esriFieldTypeInteger''"
      "Some ''50''" "Some ''60''" "Some ''4''" "Some ''8''" False False False False]
  by (simp add: str_text_def)

text \<open>With the option unset both Lengths are compared, whatever the type of the
  second field is.\<close>

lemma length_of_non_text_field_compared:
  assumes "l1 \<noteq> l1'" and "l2 \<noteq> l2'"
  shows "compare_datasets False
           (workspace [feature_class ''Roads''
              [field ''NAME'' ''esriFieldTypeString'' l1 None, field ''LANES'' ty l2 None]])
           (workspace [feature_class ''Roads''
              [field ''NAME'' ''esriFieldTypeString'' l1' None, field ''LANES'' ty l2' None]])
           ''esri:DEFeatureClass'' ''Feature Class'' a b c d
         = Inr ([],
                [(Some ''Roads'',
                  EList [(''name field has different values for Length'',
                          Scalar (Some (str_text l1)), Scalar (Some (str_text l1'))),
                         (''lanes field has different values for Length'',
                          Scalar (Some (str_text l2)), Scalar (Some (str_text l2')))])],
                [])"
  using assms
  by (simp add: compare_datasets_def parse_two_fields kept_length_def
        differ_two_fields_keep bindE_simps)

text \<open>Two feature classes Roads whose field \<open>speed\<close> has the domain SpeedLimits in
  the base list and none in the test list.\<close>

lemma differ_domain:
  "compare_dataset_lists ''Feature Class''
     \<lparr>ds_list_base = [normal_feature_class ''Roads''
                        [normal_field ''SpeedLimits'' ''speed'' ty len]],
      ds_list_test = [normal_feature_class ''Roads'' [normal_field [] ''speed'' ty len]]\<rparr>
   = Inr (([],
           [(Some ''Roads'',
             EList [(''speed field has different values for Domain'',
                     Scalar (Some ''SpeedLimits''), Scalar (Some []))])],
           []),
          \<lparr>ds_list_base = [normal_feature_class ''Roads''
                             [normal_field ''SpeedLimits'' ''speed'' ty len]],
           ds_list_test = [normal_feature_class ''Roads'' [normal_field [] ''speed'' ty len]]\<rparr>)"
  by (cases len) (simp_all add: differ_defs)

text \<open>C8, as the specification states it, fails: the description of the triple
  names the field \<open>speed\<close>, in lowercase, as every field name is after
  normalisation, and not \<open>SPEED\<close>.\<close>

theorem compare_datasets_speed_domain_counterexample:
  "compare_datasets True
     (workspace [feature_class ''Roads''
        [field ''SPEED'' ''esriFieldTypeInteger'' (Some ''4'') (Some ''SpeedLimits'')]])
     (workspace [feature_class ''Roads''
        [field ''SPEED'' ''esriFieldTypeInteger'' (Some ''4'') None]])
     ''esri:DEFeatureClass'' ''Feature Class'' False False False False
   = Inr ([],
          [(Some ''Roads'',
            EList [(''speed field has different values for Domain'',
                    Scalar (Some ''SpeedLimits''), Scalar (Some []))])],
          [])
   \<and> (''speed field has different values for Domain'',
        Scalar (Some ''SpeedLimits''), Scalar (Some []))
     \<noteq> (''SPEED field has different values for Domain'',
          Scalar (Some ''SpeedLimits''), Scalar (Some []))"
  by (simp add: compare_datasets_def parse_feature_class lower_names differ_domain bindE_simps)

text \<open>C8, amended. Whatever the type and the length of the field, the options of
  the call and the setting for the lengths are, Roads gets exactly the one triple, with
  the field named in lowercase; no feature class is missing or additional.\<close>

theorem compare_datasets_speed_domain:
  "compare_datasets f
     (workspace [feature_class ''Roads'' [field ''SPEED'' ty len (Some ''SpeedLimits'')]])
     (workspace [feature_class ''Roads'' [field ''SPEED'' ty len None]])
     ''esri:DEFeatureClass'' ''Feature Class'' a b c d
   = Inr ([],
          [(Some ''Roads'',
            EList [(''speed field has different values for Domain'',
                    Scalar (Some ''SpeedLimits''), Scalar (Some []))])],
          [])"
  by (simp add: compare_datasets_def parse_feature_class lower_names differ_domain bindE_simps)

subsection \<open>What the comparison does to its two lists\<close>

lemma list_remove_subseq: "list_remove P xs = Inr ys \<Longrightarrow> subseq ys xs"
proof (induction xs arbitrary: ys)
  case Nil
  then show ?case by simp
next
  case (Cons x xs)
  show ?case
  proof (cases "P x")
    case True
    with Cons.prems show ?thesis by auto
  next
    case False
    with Cons.prems obtain zs where "list_remove P xs = Inr zs" "ys = x # zs"
      by (auto simp: bindE_eq_Inr)
    with Cons.IH show ?thesis by auto
  qed
qed

lemma list_remove_set: "list_remove P xs = Inr ys \<Longrightarrow> set ys \<subseteq> set xs"
  by (induction xs arbitrary: ys) (auto simp: bindE_eq_Inr split: if_splits)

lemma shrunk_value_refl: "shrunk_value v v"
  by (simp add: shrunk_value_def)

lemma shrunk_value_DictList:
  "as_dicts v = Inr xs \<Longrightarrow> subseq ys xs \<Longrightarrow> shrunk_value v (DictList ys)"
  by (simp add: shrunk_value_def)

lemma shrunk_refl: "shrunk d d"
  by (simp add: shrunk_def list_all2_same shrunk_value_refl split: prod.splits)

lemma shrunk_value_trans:
  assumes "shrunk_value u v" "shrunk_value v w"
  shows "shrunk_value u w"
  using assms
  by (auto simp: shrunk_value_def as_dicts_def split: sum.splits pyval.splits if_splits
           intro: subseq_order.trans)

lemma shrunk_trans:
  assumes "shrunk a b" "shrunk b c"
  shows "shrunk a c"
proof -
  have "list_all2 (\<lambda>(k, v) (k', v').
          k' = k \<and> (if k = ''Fields'' \<or> k = ''Subtypes'' then shrunk_value v v' else v' = v)) a c"
    using assms unfolding shrunk_def
    by (rule list_all2_trans[rotated]) (auto split: if_splits intro: shrunk_value_trans)
  then show ?thesis by (simp add: shrunk_def)
qed

text \<open>Storing a shorter list under Fields or Subtypes shrinks the dataset.\<close>

lemma shrunk_dict_set:
  assumes "map_of d k = Some v"
    and "if k = ''Fields'' \<or> k = ''Subtypes'' then shrunk_value v v' else v' = v"
  shows "shrunk d (dict_set d k v')"
  using assms
proof (induction d)
  case Nil
  then show ?case by simp
next
  case (Cons p d)
  obtain k0 v0 where p: "p = (k0, v0)" by (cases p)
  show ?case
  proof (cases "k0 = k")
    case True
    with Cons.prems p have "v0 = v" by simp
    with True p Cons.prems(2) show ?thesis
      using shrunk_refl[of d]
      by (auto simp: shrunk_def split: if_splits)
  next
    case False
    with Cons.prems p have "map_of d k = Some v" by simp
    from Cons.IH[OF this Cons.prems(2)] False p show ?thesis
      by (auto simp: shrunk_def shrunk_value_refl)
  qed
qed

text \<open>The loop that removes the additional fields, or subtypes, from \<open>val\<close>.\<close>

lemma removal_loop_subseq:
  assumes "foldE (\<lambda>x (v, d). bindE (list_remove (P x) v) (\<lambda>v'. bindE (g x) (\<lambda>n.
                     bindE (h d n) (\<lambda>d'. Inr (v', d'))))) xs (val, d0) = Inr (val', d1)"
  shows "subseq val' val"
proof -
  have "case (val', d1) of (v, d) \<Rightarrow> subseq v val"
    by (rule foldE_invariant[OF assms])
       (auto simp: bindE_eq_Inr dest!: list_remove_subseq intro: subseq_order.trans)
  then show ?thesis by simp
qed

lemma subtypes_branch_shrunk:
  assumes "subtypes_branch dsn ds_base val0 d = Inr (val', d')"
  shows "shrunk_value val0 val'"
proof -
  from assms obtain val v where val: "as_dicts val0 = Inr val" and v: "val' = DictList v"
    and "subseq v val"
    unfolding subtypes_branch_def Let_def
    by (auto simp: bindE_eq_Inr dest!: removal_loop_subseq)
  then show ?thesis by (simp add: shrunk_value_DictList)
qed

lemma fields_branch_shrunk:
  assumes "fields_branch dsn ds_base val0 d = Inr (val', d')"
  shows "shrunk_value val0 val'"
proof -
  from assms obtain val v where val: "as_dicts val0 = Inr val" and v: "val' = DictList v"
    and "subseq v val"
    unfolding fields_branch_def Let_def
    by (auto simp: bindE_eq_Inr dest!: removal_loop_subseq)
  then show ?thesis by (simp add: shrunk_value_DictList)
qed

lemma ds_item_step_shrunk:
  assumes "ds_item_step name dsn ds_base key (ds, d) = Inr (ds', d')"
  shows "shrunk ds ds'"
  using assms unfolding ds_item_step_def
  by (auto simp: bindE_eq_Inr dict_get_Inr shrunk_refl split: if_splits
           intro!: shrunk_dict_set dest: subtypes_branch_shrunk fields_branch_shrunk)

lemma key_loop_shrunk:
  assumes "foldE (ds_item_step name dsn ds_base) keys (ds, d) = Inr (ds', d')"
  shows "shrunk ds ds'"
proof -
  have "case (ds', d') of (x, y) \<Rightarrow> shrunk ds x"
    by (rule foldE_invariant[OF assms])
       (auto simp: shrunk_refl dest: ds_item_step_shrunk intro: shrunk_trans)
  then show ?thesis by simp
qed

lemma dataset_step_shrunk:
  assumes "dataset_step name base (j, ds) (ts, d) = Inr (ts', d')"
  shows "\<exists>ds'. ts' = ts[j := ds'] \<and> shrunk ds ds'"
  using assms unfolding dataset_step_def
  by (auto simp: bindE_eq_Inr dest: key_loop_shrunk)

lemma remove_loop_set:
  assumes "foldE (\<lambda>x. list_remove (P x)) xs ys = Inr zs"
  shows "set zs \<subseteq> set ys"
  by (rule foldE_invariant[OF assms]) (auto dest: list_remove_set)

lemma list_all2_shrunk_update:
  assumes "list_all2 shrunk test ts" and "shrunk (test ! j) ds'"
  shows "list_all2 shrunk test (ts[j := ds'])"
proof -
  have "shrunk (test ! i) (ts[j := ds'] ! i)" if "i < length ts" for i
    using that assms by (cases "i = j") (auto simp: list_all2_conv_all_nth)
  with assms(1) show ?thesis
    by (auto simp: list_all2_conv_all_nth)
qed

text \<open>A test feature class with a field \<open>lanes\<close> that the base feature class has
  not: the field is reported as additional, and the test list comes back without it.\<close>

lemma differ_additional_field:
  "compare_dataset_lists ''Feature Class''
     \<lparr>ds_list_base = [normal_feature_class ''Roads''
        [normal_field [] ''speed'' ''esriFieldTypeInteger'' None]],
      ds_list_test = [normal_feature_class ''Roads''
        [normal_field [] ''speed'' ''esriFieldTypeInteger'' None,
         normal_field [] ''lanes'' ''esriFieldTypeInteger'' None]]\<rparr>
   = Inr (([],
           [(Some ''Roads'',
             EList [(''Additional field'', Scalar (Some []), Scalar (Some ''lanes''))])],
           []),
          \<lparr>ds_list_base = [normal_feature_class ''Roads''
             [normal_field [] ''speed'' ''esriFieldTypeInteger'' None]],
           ds_list_test = [normal_feature_class ''Roads''
             [normal_field [] ''speed'' ''esriFieldTypeInteger'' None]]\<rparr>)"
  by (simp add: differ_defs)

text \<open>C9, as the specification states it, fails. The comparison removes the
  additional field from the list of fields of the test dataset (\<open>val.remove(fld)\<close>),
  so the test list is not what it was before the call.\<close>

theorem compare_datasets_mutates_counterexample:
  "compare_dataset_lists ''Feature Class''
     \<lparr>ds_list_base = [normal_feature_class ''Roads''
        [normal_field [] ''speed'' ''esriFieldTypeInteger'' None]],
      ds_list_test = [normal_feature_class ''Roads''
        [normal_field [] ''speed'' ''esriFieldTypeInteger'' None,
         normal_field [] ''lanes'' ''esriFieldTypeInteger'' None]]\<rparr>
   = Inr (([],
           [(Some ''Roads'',
             EList [(''Additional field'', Scalar (Some []), Scalar (Some ''lanes''))])],
           []),
          \<lparr>ds_list_base = [normal_feature_class ''Roads''
             [normal_field [] ''speed'' ''esriFieldTypeInteger'' None]],
           ds_list_test = [normal_feature_class ''Roads''
             [normal_field [] ''speed'' ''esriFieldTypeInteger'' None]]\<rparr>)
   \<and> [normal_feature_class ''Roads''
        [normal_field [] ''speed'' ''esriFieldTypeInteger'' None]]
     \<noteq> [normal_feature_class ''Roads''
          [normal_field [] ''speed'' ''esriFieldTypeInteger'' None,
           normal_field [] ''lanes'' ''esriFieldTypeInteger'' None]]"
proof -
  have "[normal_feature_class ''Roads''
          [normal_field [] ''speed'' ''esriFieldTypeInteger'' None]]
        \<noteq> [normal_feature_class ''Roads''
             [normal_field [] ''speed'' ''esriFieldTypeInteger'' None,
              normal_field [] ''lanes'' ''esriFieldTypeInteger'' None]]"
    by (simp add: normal_feature_class_def)
  with differ_additional_field show ?thesis
    by (rule conjI)
qed

text \<open>C9, amended. When the comparison returns, the base list is the one it was
  given. The test list has the same datasets in the same order, each with the same
  keys and the same values, except that the lists under Fields and Subtypes may have
  lost elements.\<close>

theorem compare_dataset_lists_shrinks:
  assumes "compare_dataset_lists name c = Inr (r, c')"
  shows "ds_list_base c' = ds_list_base c
       \<and> list_all2 shrunk (ds_list_test c) (ds_list_test c')"
proof (cases "list_all2 entity_eq (ds_list_base c) (ds_list_test c)")
  case True
  with assms have "c' = c" by (simp add: compare_dataset_lists_def)
  then show ?thesis by (simp add: list_all2_same shrunk_refl)
next
  case False
  let ?test = "ds_list_test c"
  let ?indexed = "zip [0..<length ?test] ?test"
  from assms False obtain add todo ts d where
    removed: "foldE (\<lambda>ds. list_remove (\<lambda>(j, y). entity_eq y ds)) add
                (filter (\<lambda>(j, i). \<not> entity_in i (ds_list_base c)) ?indexed) = Inr todo"
    and loop: "foldE (dataset_step name (ds_list_base c)) todo (?test, []) = Inr (ts, d)"
    and c': "c' = c\<lparr>ds_list_test := ts\<rparr>"
    unfolding compare_dataset_lists_def Let_def
    by (auto simp: bindE_eq_Inr)
  from remove_loop_set[OF removed] have todo: "set todo \<subseteq> set ?indexed"
    by auto
  have "case (ts, d) of (x, y) \<Rightarrow> list_all2 shrunk ?test x"
  proof (rule foldE_invariant[OF loop])
    show "case (?test, []) of (x, y) \<Rightarrow> list_all2 shrunk ?test x"
      by (simp add: list_all2_same shrunk_refl)
  next
    fix x t t'
    assume x: "x \<in> set todo"
      and inv: "case t of (x, y) \<Rightarrow> list_all2 shrunk ?test x"
      and step: "dataset_step name (ds_list_base c) x t = Inr t'"
    obtain j ds where xj: "x = (j, ds)" by (cases x)
    obtain ts0 d0 where t: "t = (ts0, d0)" by (cases t)
    obtain ts1 d1 where t': "t' = (ts1, d1)" by (cases t')
    from x xj todo have "(j, ds) \<in> set ?indexed" by auto
    then have ds: "ds = ?test ! j"
      by (auto simp: set_zip)
    from step xj t t' obtain ds' where "ts1 = ts0[j := ds']" "shrunk ds ds'"
      by (auto dest: dataset_step_shrunk)
    with inv t ds have "list_all2 shrunk ?test ts1"
      by (auto intro: list_all2_shrunk_update)
    with t' show "case t' of (x, y) \<Rightarrow> list_all2 shrunk ?test x" by simp
  qed
  with c' show ?thesis by simp
qed

theorem compare_dataset_lists_shrinks_witness:
  "compare_dataset_lists ''Feature Class''
     \<lparr>ds_list_base = [normal_feature_class ''Roads''
        [normal_field [] ''speed'' ''esriFieldTypeInteger'' None]],
      ds_list_test = [normal_feature_class ''Roads''
        [normal_field [] ''speed'' ''esriFieldTypeInteger'' None,
         normal_field [] ''lanes'' ''esriFieldTypeInteger'' None]]\<rparr>
   = Inr (([],
           [(Some ''Roads'',
             EList [(''Additional field'', Scalar (Some []), Scalar (Some ''lanes''))])],
           []),
          \<lparr>ds_list_base = [normal_feature_class ''Roads''
             [normal_field [] ''speed'' ''esriFieldTypeInteger'' None]],
           ds_list_test = [normal_feature_class ''Roads''
             [normal_field [] ''speed'' ''esriFieldTypeInteger'' None]]\<rparr>)
   \<and> list_all2 shrunk
       [normal_feature_class ''Roads''
          [normal_field [] ''speed'' ''esriFieldTypeInteger'' None,
           normal_field [] ''lanes'' ''esriFieldTypeInteger'' None]]
       [normal_feature_class ''Roads''
          [normal_field [] ''speed'' ''esriFieldTypeInteger'' None]]"
  using compare_dataset_lists_shrinks [OF differ_additional_field] differ_additional_field
  by simp

subsection \<open>Field names and the case of their letters\<close>

text \<open>A loop reaches a property at one of its elements and keeps it from there on.\<close>

lemma foldE_establish:
  assumes "foldE f xs s = Inr s'" and "J s" and "x \<in> set xs \<or> R s"
    and "\<And>y t t'. y \<in> set xs \<Longrightarrow> J t \<Longrightarrow> f y t = Inr t'
           \<Longrightarrow> J t' \<and> (R t \<longrightarrow> R t') \<and> (y = x \<longrightarrow> R t')"
  shows "J s' \<and> R s'"
  using assms
proof (induction xs arbitrary: s)
  case Nil
  then show ?case by simp
next
  case (Cons y ys)
  from Cons.prems(1) obtain t where t: "f y s = Inr t" and rest: "foldE f ys t = Inr s'"
    by (auto simp: bindE_eq_Inr)
  have step: "J t \<and> (R s \<longrightarrow> R t) \<and> (y = x \<longrightarrow> R t)"
    using Cons.prems(4)[OF _ Cons.prems(2) t] by simp
  with Cons.prems(3) have "x \<in> set ys \<or> R t" by auto
  show ?case
    by (rule Cons.IH[OF rest _ \<open>x \<in> set ys \<or> R t\<close>]) (use step Cons.prems(4) in auto)
qed

lemma mapE_Inr: "mapE f xs = Inr ys \<Longrightarrow> list_all2 (\<lambda>x y. f x = Inr y) xs ys"
  by (induction xs arbitrary: ys) (auto simp: bindE_eq_Inr)

lemma mapE_member:
  assumes "mapE f xs = Inr ys" and "x \<in> set xs"
  shows "\<exists>y \<in> set ys. f x = Inr y"
proof -
  from assms(2) obtain i where i: "i < length xs" "xs ! i = x"
    by (auto simp: in_set_conv_nth)
  from mapE_Inr[OF assms(1)] i have "length ys = length xs" "f x = Inr (ys ! i)"
    by (auto simp: list_all2_conv_all_nth)
  with i show ?thesis by auto
qed

lemma not_named_member:
  assumes "mapE f a = Inr names_a" and "x \<in> set (not_named names_a a names)"
  shows "x \<in> set a \<and> (\<exists>n. f x = Inr n \<and> n \<notin> set names)"
proof -
  from assms(2) obtain n where n: "(n, x) \<in> set (zip names_a a)" "n \<notin> set names"
    by (auto simp: not_named_def)
  then obtain i where i: "i < length a" "i < length names_a" "names_a ! i = n" "a ! i = x"
    by (auto simp: in_set_zip)
  with mapE_Inr[OF assms(1)] have "f x = Inr n"
    by (auto simp: list_all2_conv_all_nth)
  with n i show ?thesis by auto
qed

text \<open>Records that are equal hold the same values.\<close>

lemma dict_eq_map_of:
  assumes "dict_eq (=) a b"
  shows "map_of a k = map_of b k"
proof (cases "k \<in> set (map fst a @ map fst b)")
  case True
  with assms have "case (map_of a k, map_of b k) of (Some x, Some y) \<Rightarrow> x = y | _ \<Rightarrow> False"
    unfolding dict_eq_def list_all_iff by blast
  then show ?thesis
    by (auto split: option.splits)
next
  case False
  then have "map_of a k = None" "map_of b k = None"
    by (auto simp: map_of_eq_None_iff)
  then show ?thesis by simp
qed

lemma list_remove_keeps:
  "list_remove P xs = Inr ys \<Longrightarrow> z \<in> set xs \<Longrightarrow> \<not> P z \<Longrightarrow> z \<in> set ys"
proof (induction xs arbitrary: ys)
  case Nil
  then show ?case by simp
next
  case (Cons x xs)
  then show ?case by (auto simp: bindE_eq_Inr split: if_splits)
qed

text \<open>The differences after a difference has been recorded.\<close>

lemma map_of_dict_set_other: "k' \<noteq> k \<Longrightarrow> map_of (dict_set d k v) k' = map_of d k'"
  by (induction d) auto

lemma triples_of_dict_set:
  "triples_of (dict_set d k e) k'
   = (if k' = k then (case e of EList ts \<Rightarrow> ts | ETuple t \<Rightarrow> [t]) else triples_of d k')"
  by (simp add: triples_of_def map_of_dict_set map_of_dict_set_other)

lemma triples_of_entry_append:
  assumes "entry_append d k t = Inr d'"
  shows "triples_of d' k' = (if k' = k then triples_of d k @ [t] else triples_of d k')"
proof -
  from assms obtain ts where "map_of d k = Some (EList ts)" "d' = dict_set d k (EList (ts @ [t]))"
    by (auto simp: entry_append_def split: option.splits entry.splits)
  then show ?thesis
    by (simp add: triples_of_dict_set) (simp add: triples_of_def)
qed

lemma triples_of_append_or_create:
  assumes "append_or_create d k t = Inr d'"
  shows "triples_of d' k' = (if k' = k then triples_of d k @ [t] else triples_of d k')"
proof (cases "k \<in> set (map fst d)")
  case True
  with assms show ?thesis
    by (simp add: append_or_create_def triples_of_entry_append)
next
  case False
  then have "map_of d k = None" by (simp add: map_of_eq_None_iff)
  then have "triples_of d k = []" by (simp add: triples_of_def)
  moreover from False assms have "d' = dict_set d k (EList [t])"
    by (auto simp: append_or_create_def)
  ultimately show ?thesis by (simp add: triples_of_dict_set)
qed

lemma triples_of_append_or_create_tuple:
  assumes "append_or_create_tuple d k t = Inr d'"
  shows "triples_of d' k' = (if k' = k then triples_of d k @ [t] else triples_of d k')"
proof (cases "k \<in> set (map fst d)")
  case True
  with assms show ?thesis
    by (simp add: append_or_create_tuple_def triples_of_entry_append)
next
  case False
  then have "map_of d k = None" by (simp add: map_of_eq_None_iff)
  then have "triples_of d k = []" by (simp add: triples_of_def)
  moreover from False assms have "d' = dict_set d k (ETuple t)"
    by (auto simp: append_or_create_tuple_def)
  ultimately show ?thesis by (simp add: triples_of_dict_set)
qed

lemma adds_only_refl: "adds_only k T d d"
  by (simp add: adds_only_def)

lemma adds_only_trans: "adds_only k T a b \<Longrightarrow> adds_only k T b c \<Longrightarrow> adds_only k T a c"
  unfolding adds_only_def by (intro allI conjI) (blast, fastforce split: if_splits)

lemma adds_only_append: "append_or_create d k t = Inr d' \<Longrightarrow> t \<in> T \<Longrightarrow> adds_only k T d d'"
  by (auto simp: adds_only_def triples_of_append_or_create)

lemma adds_only_append_tuple:
  "append_or_create_tuple d k t = Inr d' \<Longrightarrow> t \<in> T \<Longrightarrow> adds_only k T d d'"
  by (auto simp: adds_only_def triples_of_append_or_create_tuple)

lemma adds_only_if_append:
  "(if c then append_or_create d k t else Inr d) = Inr d' \<Longrightarrow> (c \<Longrightarrow> t \<in> T)
   \<Longrightarrow> adds_only k T d d'"
  by (auto split: if_splits intro: adds_only_append adds_only_refl)

lemma adds_only_keeps: "adds_only k T d d' \<Longrightarrow> t \<in> set (triples_of d n) \<Longrightarrow> t \<in> set (triples_of d' n)"
  by (auto simp: adds_only_def)

lemma adds_only_elsewhere:
  assumes "adds_only k T d d'" and "n \<noteq> k"
  shows "set (triples_of d' n) = set (triples_of d n)"
  using assms(1)[unfolded adds_only_def, rule_format, of n] assms(2) by auto

lemma adds_only_new:
  "adds_only k T d d' \<Longrightarrow> t \<notin> T \<Longrightarrow> t \<notin> set (triples_of d n) \<Longrightarrow> t \<notin> set (triples_of d' n)"
  by (auto simp: adds_only_def split: if_splits)

lemma adds_only_loop:
  assumes "foldE f xs s = Inr s'"
    and "\<And>x t t'. x \<in> set xs \<Longrightarrow> f x t = Inr t' \<Longrightarrow> adds_only k T t t'"
  shows "adds_only k T s s'"
  by (rule foldE_invariant[OF assms(1), where I = "adds_only k T s"])
     (auto intro: adds_only_refl adds_only_trans assms(2))


text \<open>The descriptions of the differences of a dataset.\<close>

lemma description_field:
  "s @ '' field has different values for '' @ k \<noteq> ''Missing field''"
  "s @ '' field has different values for '' @ k \<noteq> ''Additional field''"
  by (auto dest: arg_cong[where f = length])

lemma description_property:
  "s @ '' has mismatch '' @ k @ '' property'' \<noteq> ''Missing field''"
  "s @ '' has mismatch '' @ k @ '' property'' \<noteq> ''Additional field''"
  "s @ '' has mismatch DefaultSubtypeCode property'' \<noteq> ''Missing field''"
  "s @ '' has mismatch DefaultSubtypeCode property'' \<noteq> ''Additional field''"
  by (auto dest: arg_cong[where f = length])

text \<open>The comparison of two records of fields.\<close>

lemma field_pair_step_adds:
  assumes "field_pair_step dn fn fp kv d = Inr d'"
    and H1: "\<forall>desc b v. desc \<noteq> ''Missing field'' \<longrightarrow> desc \<noteq> ''Additional field''
               \<longrightarrow> (desc, b, v) \<in> T"
  shows "adds_only dn T d d'"
proof -
  obtain bk bv where kv: "kv = (bk, bv)" by (cases kv)
  from assms(1) have loop:
    "foldE (\<lambda>(test_key, test_val) d.
              if bk = test_key \<and> bv \<noteq> test_val then
                append_or_create d dn
                  (str_text fn @ '' field has different values for '' @ bk,
                   Scalar (Some (str_text bv)), Scalar (Some (str_text test_val)))
              else Inr d)
       fp d = Inr d'"
    by (simp add: field_pair_step_def kv)
  have step: "adds_only dn T t t'"
    if "(if bk = tk \<and> bv \<noteq> tv then
           append_or_create t dn
             (str_text fn @ '' field has different values for '' @ bk,
              Scalar (Some (str_text bv)), Scalar (Some (str_text tv)))
         else Inr t) = Inr t'" for tk tv t t'
    using that by (rule adds_only_if_append) (simp add: H1 description_field)
  show ?thesis
  proof (rule adds_only_loop[OF loop])
    fix x t t'
    assume "(case x of (test_key, test_val) \<Rightarrow> \<lambda>d.
              if bk = test_key \<and> bv \<noteq> test_val then
                append_or_create d dn
                  (str_text fn @ '' field has different values for '' @ bk,
                   Scalar (Some (str_text bv)), Scalar (Some (str_text test_val)))
              else Inr d) t = Inr t'"
    then show "adds_only dn T t t'"
      by (cases x) (auto intro: step)
  qed
qed

lemma field_pair_step_reports:
  assumes "field_pair_step dn fn g (k, vb) d = Inr d'" and "(k, vt) \<in> set g" and "vb \<noteq> vt"
  shows "(str_text fn @ '' field has different values for '' @ k,
          Scalar (Some (str_text vb)), Scalar (Some (str_text vt))) \<in> set (triples_of d' dn)"
proof -
  from assms(1) have loop:
    "foldE (\<lambda>(test_key, test_val) d.
              if k = test_key \<and> vb \<noteq> test_val then
                append_or_create d dn
                  (str_text fn @ '' field has different values for '' @ k,
                   Scalar (Some (str_text vb)), Scalar (Some (str_text test_val)))
              else Inr d)
       g d = Inr d'"
    by (simp add: field_pair_step_def)
  have "True \<and> (str_text fn @ '' field has different values for '' @ k,
          Scalar (Some (str_text vb)), Scalar (Some (str_text vt))) \<in> set (triples_of d' dn)"
    by (rule foldE_establish[OF loop, where J = "\<lambda>_. True" and x = "(k, vt)"])
       (use assms(2,3) in \<open>auto split: if_splits simp: triples_of_append_or_create\<close>)
  then show ?thesis by simp
qed

lemma field_loop_adds:
  assumes "foldE (field_pair_step dn fn fp) fb d = Inr d'"
    and H1: "\<forall>desc b v. desc \<noteq> ''Missing field'' \<longrightarrow> desc \<noteq> ''Additional field''
               \<longrightarrow> (desc, b, v) \<in> T"
  shows "adds_only dn T d d'"
  by (rule adds_only_loop[OF assms(1)]) (rule field_pair_step_adds[OF _ H1])

lemma field_step_adds:
  assumes "field_step dn flds_base fp d = Inr d'"
    and H1: "\<forall>desc b v. desc \<noteq> ''Missing field'' \<longrightarrow> desc \<noteq> ''Additional field''
               \<longrightarrow> (desc, b, v) \<in> T"
  shows "adds_only dn T d d'"
proof -
  from assms(1) obtain fn where loop:
    "foldE (\<lambda>flds_base d.
              bindE (dict_get flds_base ''Name'') (\<lambda>base_name.
                if base_name = fn
                then foldE (field_pair_step dn fn fp) flds_base d
                else Inr d))
       flds_base d = Inr d'"
    by (auto simp: field_step_def bindE_eq_Inr)
  show ?thesis
    by (rule adds_only_loop[OF loop])
       (auto simp: bindE_eq_Inr adds_only_refl split: if_splits intro: field_loop_adds[OF _ H1])
qed

lemma field_step_reports:
  assumes "field_step dn flds_base g d = Inr d'"
    and "dict_get f ''Name'' = Inr fn" and "dict_get g ''Name'' = Inr fn"
    and "f \<in> set flds_base" and "(k, vb) \<in> set f" and "(k, vt) \<in> set g" and "vb \<noteq> vt"
  shows "(str_text fn @ '' field has different values for '' @ k,
          Scalar (Some (str_text vb)), Scalar (Some (str_text vt))) \<in> set (triples_of d' dn)"
    (is "?t \<in> _")
proof -
  from assms(1,3) have loop:
    "foldE (\<lambda>flds_base d.
              bindE (dict_get flds_base ''Name'') (\<lambda>base_name.
                if base_name = fn
                then foldE (field_pair_step dn fn g) flds_base d
                else Inr d))
       flds_base d = Inr d'"
    by (auto simp: field_step_def bindE_eq_Inr)
  have all: "\<forall>desc b v. desc \<noteq> ''Missing field'' \<longrightarrow> desc \<noteq> ''Additional field''
               \<longrightarrow> (desc, b, v) \<in> (UNIV :: triple set)"
    by simp
  have inner: "?t \<in> set (triples_of t' dn)"
    if "foldE (field_pair_step dn fn g) f t = Inr t'" for t t'
  proof -
    have "True \<and> ?t \<in> set (triples_of t' dn)"
    proof (rule foldE_establish[OF that, where J = "\<lambda>_. True" and x = "(k, vb)"])
      show True ..
      show "(k, vb) \<in> set f \<or> ?t \<in> set (triples_of t dn)"
        using assms(5) by simp
    next
      fix y u u'
      assume step: "field_pair_step dn fn g y u = Inr u'"
      from field_pair_step_adds[OF step all] have "?t \<in> set (triples_of u dn) \<longrightarrow> ?t \<in> set (triples_of u' dn)"
        by (auto dest: adds_only_keeps)
      moreover have "y = (k, vb) \<longrightarrow> ?t \<in> set (triples_of u' dn)"
        using step field_pair_step_reports[OF _ assms(6,7)] by auto
      ultimately show "True \<and> (?t \<in> set (triples_of u dn) \<longrightarrow> ?t \<in> set (triples_of u' dn))
          \<and> (y = (k, vb) \<longrightarrow> ?t \<in> set (triples_of u' dn))"
        by simp
    qed
    then show ?thesis by simp
  qed
  have "True \<and> ?t \<in> set (triples_of d' dn)"
  proof (rule foldE_establish[OF loop, where J = "\<lambda>_. True" and x = f])
    show True ..
    show "f \<in> set flds_base \<or> ?t \<in> set (triples_of d dn)"
      using assms(4) by simp
  next
    fix y u u'
    assume step: "bindE (dict_get y ''Name'') (\<lambda>base_name.
                if base_name = fn
                then foldE (field_pair_step dn fn g) y u
                else Inr u) = Inr u'"
    then have "adds_only dn UNIV u u'"
      by (auto simp: bindE_eq_Inr adds_only_refl split: if_splits intro: field_loop_adds[OF _ all])
    then have "?t \<in> set (triples_of u dn) \<longrightarrow> ?t \<in> set (triples_of u' dn)"
      by (auto dest: adds_only_keeps)
    moreover have "y = f \<longrightarrow> ?t \<in> set (triples_of u' dn)"
      using step assms(2) inner by (auto simp: bindE_eq_Inr)
    ultimately show "True \<and> (?t \<in> set (triples_of u dn) \<longrightarrow> ?t \<in> set (triples_of u' dn))
          \<and> (y = f \<longrightarrow> ?t \<in> set (triples_of u' dn))"
      by simp
  qed
  then show ?thesis by simp
qed


text \<open>The branch for the key Fields, taken apart.\<close>

lemma fields_branch_Inr:
  assumes "fields_branch dn ds_base val0 d = Inr (v', d')"
  obtains bv flds_base val names_test names_base val' d1 d2 where
    "dict_get ds_base ''Fields'' = Inr bv" and "as_dicts bv = Inr flds_base"
    and "as_dicts val0 = Inr val"
    and "mapE (\<lambda>d. dict_get d ''Name'') val = Inr names_test"
    and "mapE (\<lambda>d. dict_get d ''Name'') flds_base = Inr names_base"
    and "foldE (\<lambda>fld (v, d).
                  bindE (list_remove (\<lambda>y. dict_eq (=) y fld) v) (\<lambda>v'.
                  bindE (dict_get fld ''Name'') (\<lambda>n.
                  bindE (append_or_create d dn
                           (''Additional field'', Scalar (Some []), Scalar n))
                    (\<lambda>d'. Inr (v', d')))))
           (not_named names_test val names_base) (val, d) = Inr (val', d1)"
    and "foldE (\<lambda>fld d.
                  bindE (dict_get fld ''Name'') (\<lambda>n.
                    append_or_create d dn
                      (''Missing field'', Scalar n, Scalar (Some []))))
           (not_named names_base flds_base names_test) d1 = Inr d2"
    and "foldE (field_step dn flds_base) val' d2 = Inr d'"
    and "v' = DictList val'"
  using assms
  by (auto simp: fields_branch_def names_of_def bindE_eq_Inr Let_def)

lemma in_fields_iff: "in_fields g v \<longleftrightarrow> (\<exists>fs. as_dicts v = Inr fs \<and> g \<in> set fs)"
  by (auto simp: in_fields_def split: sum.splits)

lemma has_field_iff:
  "has_field e g \<longleftrightarrow> (\<exists>v fs. dict_get e ''Fields'' = Inr v \<and> as_dicts v = Inr fs \<and> g \<in> set fs)"
  by (auto simp: has_field_def in_fields_iff dict_get_Inr split: option.splits)

lemma name_member:
  assumes "mapE (\<lambda>d. dict_get d ''Name'') fs = Inr names" and "g \<in> set fs"
    and "dict_get g ''Name'' = Inr n"
  shows "n \<in> set names"
  using mapE_member[OF assms(1,2)] assms(3) by auto

text \<open>A field of the test dataset whose name is the name of a base field stays in
  the list of the test dataset.\<close>

lemma removal_keeps:
  assumes loop: "foldE (\<lambda>fld (v, d).
                  bindE (list_remove (\<lambda>y. dict_eq (=) y fld) v) (\<lambda>v'.
                  bindE (dict_get fld ''Name'') (\<lambda>n.
                  bindE (append_or_create d dn
                           (''Additional field'', Scalar (Some []), Scalar n))
                    (\<lambda>d'. Inr (v', d')))))
           (not_named names_test val names_base) (val, d) = Inr (val', d1)"
    and names: "mapE (\<lambda>d. dict_get d ''Name'') val = Inr names_test"
    and g: "g \<in> set val" "dict_get g ''Name'' = Inr n" "n \<in> set names_base"
  shows "g \<in> set val'"
proof -
  have "g \<in> set (fst (val', d1))"
  proof (rule foldE_invariant[OF loop, where I = "\<lambda>s. g \<in> set (fst s)"])
    show "g \<in> set (fst (val, d))" using g(1) by simp
  next
    fix fld t t'
    assume fld: "fld \<in> set (not_named names_test val names_base)"
      and inv: "g \<in> set (fst t)"
      and step: "(case t of (v, d) \<Rightarrow>
                  bindE (list_remove (\<lambda>y. dict_eq (=) y fld) v) (\<lambda>v'.
                  bindE (dict_get fld ''Name'') (\<lambda>n.
                  bindE (append_or_create d dn
                           (''Additional field'', Scalar (Some []), Scalar n))
                    (\<lambda>d'. Inr (v', d'))))) = Inr t'"
    from not_named_member[OF names fld] obtain m where
      m: "dict_get fld ''Name'' = Inr m" "m \<notin> set names_base"
      by auto
    have "\<not> dict_eq (=) g fld"
    proof
      assume "dict_eq (=) g fld"
      from dict_eq_map_of[OF this, of "''Name''"] g(2) m(1) have "m = n"
        by (simp add: dict_get_Inr)
      with m(2) g(3) show False by simp
    qed
    with step inv show "g \<in> set (fst t')"
      by (cases t) (auto simp: bindE_eq_Inr dest: list_remove_keeps)
  qed
  then show ?thesis by simp
qed

lemma fields_branch_keeps:
  assumes fb: "fields_branch dn ds_base val0 d = Inr (v', d')"
    and "has_field ds_base f" and "in_fields g val0"
    and nf: "dict_get f ''Name'' = Inr fn0" and ng: "dict_get g ''Name'' = Inr fn0"
  shows "in_fields g v'"
proof -
  from fb obtain bv flds_base val names_test names_base val' d1 d2 where
    p: "dict_get ds_base ''Fields'' = Inr bv" "as_dicts bv = Inr flds_base"
       "as_dicts val0 = Inr val"
       "mapE (\<lambda>d. dict_get d ''Name'') val = Inr names_test"
       "mapE (\<lambda>d. dict_get d ''Name'') flds_base = Inr names_base"
    and rm: "foldE (\<lambda>fld (v, d).
                  bindE (list_remove (\<lambda>y. dict_eq (=) y fld) v) (\<lambda>v'.
                  bindE (dict_get fld ''Name'') (\<lambda>n.
                  bindE (append_or_create d dn
                           (''Additional field'', Scalar (Some []), Scalar n))
                    (\<lambda>d'. Inr (v', d')))))
           (not_named names_test val names_base) (val, d) = Inr (val', d1)"
    and v': "v' = DictList val'"
    by (rule fields_branch_Inr)
  from assms(2) p have "f \<in> set flds_base" by (auto simp: has_field_iff)
  then have "fn0 \<in> set names_base" using name_member[OF p(5) _ nf] by simp
  moreover from assms(3) p have "g \<in> set val" by (auto simp: in_fields_iff)
  ultimately have "g \<in> set val'" using removal_keeps[OF rm p(4) _ ng] by simp
  then show ?thesis by (simp add: v' in_fields_def as_dicts_def)
qed

text \<open>The branch adds differences for the dataset only. When the base dataset has
  a field and the test dataset has a field of the same name, it adds no additional
  and no missing field of that name.\<close>

lemma fields_branch_adds:
  assumes fb: "fields_branch dn ds_base val0 d = Inr (v', d')"
    and H1: "\<forall>desc b v. desc \<noteq> ''Missing field'' \<longrightarrow> desc \<noteq> ''Additional field''
               \<longrightarrow> (desc, b, v) \<in> T"
    and H2: "\<forall>n. n \<noteq> fn0 \<longrightarrow> (''Missing field'', Scalar n, Scalar (Some [])) \<in> T
                           \<and> (''Additional field'', Scalar (Some []), Scalar n) \<in> T"
    and H3: "T = UNIV \<or> has_field ds_base f \<and> in_fields g val0"
    and nf: "dict_get f ''Name'' = Inr fn0" and ng: "dict_get g ''Name'' = Inr fn0"
  shows "adds_only dn T d d'"
proof -
  from fb obtain bv flds_base val names_test names_base val' d1 d2 where
    p: "dict_get ds_base ''Fields'' = Inr bv" "as_dicts bv = Inr flds_base"
       "as_dicts val0 = Inr val"
       "mapE (\<lambda>d. dict_get d ''Name'') val = Inr names_test"
       "mapE (\<lambda>d. dict_get d ''Name'') flds_base = Inr names_base"
    and rm: "foldE (\<lambda>fld (v, d).
                  bindE (list_remove (\<lambda>y. dict_eq (=) y fld) v) (\<lambda>v'.
                  bindE (dict_get fld ''Name'') (\<lambda>n.
                  bindE (append_or_create d dn
                           (''Additional field'', Scalar (Some []), Scalar n))
                    (\<lambda>d'. Inr (v', d')))))
           (not_named names_test val names_base) (val, d) = Inr (val', d1)"
    and ms: "foldE (\<lambda>fld d.
                  bindE (dict_get fld ''Name'') (\<lambda>n.
                    append_or_create d dn
                      (''Missing field'', Scalar n, Scalar (Some []))))
           (not_named names_base flds_base names_test) d1 = Inr d2"
    and cmp: "foldE (field_step dn flds_base) val' d2 = Inr d'"
    by (rule fields_branch_Inr)
  have names: "T = UNIV \<or> fn0 \<in> set names_base \<and> fn0 \<in> set names_test"
  proof (cases "T = UNIV")
    case False
    with H3 p have "f \<in> set flds_base" "g \<in> set val"
      by (auto simp: has_field_iff in_fields_iff)
    with name_member[OF p(5) _ nf] name_member[OF p(4) _ ng] show ?thesis by simp
  qed simp
  have add: "(''Additional field'', Scalar (Some []), Scalar n) \<in> T" if "n \<notin> set names_base" for n
    using names that H2 by auto
  have miss: "(''Missing field'', Scalar n, Scalar (Some [])) \<in> T" if "n \<notin> set names_test" for n
    using names that H2 by auto
  have "adds_only dn T d (snd (val', d1))"
  proof (rule foldE_invariant[OF rm, where I = "\<lambda>s. adds_only dn T d (snd s)"])
    show "adds_only dn T d (snd (val, d))" by (simp add: adds_only_refl)
  next
    fix fld t t'
    assume fld: "fld \<in> set (not_named names_test val names_base)"
      and inv: "adds_only dn T d (snd t)"
      and step: "(case t of (v, d) \<Rightarrow>
                  bindE (list_remove (\<lambda>y. dict_eq (=) y fld) v) (\<lambda>v'.
                  bindE (dict_get fld ''Name'') (\<lambda>n.
                  bindE (append_or_create d dn
                           (''Additional field'', Scalar (Some []), Scalar n))
                    (\<lambda>d'. Inr (v', d'))))) = Inr t'"
    from not_named_member[OF p(4) fld] obtain m where
      m: "dict_get fld ''Name'' = Inr m" "m \<notin> set names_base"
      by auto
    from step m(1) have "append_or_create (snd t) dn
        (''Additional field'', Scalar (Some []), Scalar m) = Inr (snd t')"
      by (cases t) (auto simp: bindE_eq_Inr)
    from adds_only_append[OF this add[OF m(2)]] inv show "adds_only dn T d (snd t')"
      by (rule adds_only_trans[rotated])
  qed
  then have one: "adds_only dn T d d1" by simp
  have two: "adds_only dn T d1 d2"
  proof (rule adds_only_loop[OF ms])
    fix fld t t'
    assume fld: "fld \<in> set (not_named names_base flds_base names_test)"
      and step: "bindE (dict_get fld ''Name'') (\<lambda>n.
                    append_or_create t dn
                      (''Missing field'', Scalar n, Scalar (Some []))) = Inr t'"
    from not_named_member[OF p(5) fld] obtain m where
      m: "dict_get fld ''Name'' = Inr m" "m \<notin> set names_test"
      by auto
    from step m(1) have "append_or_create t dn
        (''Missing field'', Scalar m, Scalar (Some [])) = Inr t'"
      by (simp add: bindE_simps)
    from adds_only_append[OF this miss[OF m(2)]] show "adds_only dn T t t'" .
  qed
  have three: "adds_only dn T d2 d'"
    by (rule adds_only_loop[OF cmp]) (rule field_step_adds[OF _ H1])
  from one two three show ?thesis
    by (blast intro: adds_only_trans)
qed

text \<open>A key that a base field and the test field of the same name share, with
  different values, gives its triple.\<close>

lemma fields_branch_reports:
  assumes fb: "fields_branch dn ds_base val0 d = Inr (v', d')"
    and "has_field ds_base f" and "in_fields g val0"
    and nf: "dict_get f ''Name'' = Inr fn0" and ng: "dict_get g ''Name'' = Inr fn0"
    and kv: "(k, vb) \<in> set f" "(k, vt) \<in> set g" "vb \<noteq> vt"
  shows "(str_text fn0 @ '' field has different values for '' @ k,
          Scalar (Some (str_text vb)), Scalar (Some (str_text vt))) \<in> set (triples_of d' dn)"
    (is "?t \<in> _")
proof -
  from fb obtain bv flds_base val names_test names_base val' d1 d2 where
    p: "dict_get ds_base ''Fields'' = Inr bv" "as_dicts bv = Inr flds_base"
       "as_dicts val0 = Inr val"
       "mapE (\<lambda>d. dict_get d ''Name'') val = Inr names_test"
       "mapE (\<lambda>d. dict_get d ''Name'') flds_base = Inr names_base"
    and cmp: "foldE (field_step dn flds_base) val' d2 = Inr d'"
    and v': "v' = DictList val'"
    by (rule fields_branch_Inr)
  from assms(2) p have f: "f \<in> set flds_base" by (auto simp: has_field_iff)
  from fields_branch_keeps[OF fb assms(2,3) nf ng] have g: "g \<in> set val'"
    by (simp add: v' in_fields_def as_dicts_def)
  have all: "\<forall>desc b v. desc \<noteq> ''Missing field'' \<longrightarrow> desc \<noteq> ''Additional field''
               \<longrightarrow> (desc, b, v) \<in> (UNIV :: triple set)"
    by simp
  have "True \<and> ?t \<in> set (triples_of d' dn)"
  proof (rule foldE_establish[OF cmp, where J = "\<lambda>_. True" and x = g])
    show True ..
    show "g \<in> set val' \<or> ?t \<in> set (triples_of d2 dn)" using g by simp
  next
    fix y u u'
    assume step: "field_step dn flds_base y u = Inr u'"
    from field_step_adds[OF step all]
    have "?t \<in> set (triples_of u dn) \<longrightarrow> ?t \<in> set (triples_of u' dn)"
      by (auto dest: adds_only_keeps)
    moreover have "y = g \<longrightarrow> ?t \<in> set (triples_of u' dn)"
      using step field_step_reports[OF _ nf ng f kv] by auto
    ultimately show "True \<and> (?t \<in> set (triples_of u dn) \<longrightarrow> ?t \<in> set (triples_of u' dn))
          \<and> (y = g \<longrightarrow> ?t \<in> set (triples_of u' dn))"
      by simp
  qed
  then show ?thesis by simp
qed


text \<open>The other branches add differences under other descriptions.\<close>

lemma subtypes_branch_adds:
  assumes sb: "subtypes_branch dn ds_base val0 d = Inr (v', d')"
    and H1: "\<forall>desc b v. desc \<noteq> ''Missing field'' \<longrightarrow> desc \<noteq> ''Additional field''
               \<longrightarrow> (desc, b, v) \<in> T"
  shows "adds_only dn T d d'"
proof -
  from sb obtain st_add st_miss val val' d1 where
    rm: "foldE (\<lambda>st (v, d).
                  bindE (list_remove (\<lambda>y. dict_eq (=) y st) v) (\<lambda>v'.
                  bindE (dict_get st ''SubtypeName'') (\<lambda>n.
                  bindE (append_or_create_tuple d dn
                           (''Additional subtype'', Scalar (Some []), Scalar n))
                    (\<lambda>d'. Inr (v', d')))))
           st_add (val, d) = Inr (val', d1)"
    and ms: "foldE (\<lambda>st d.
                  bindE (dict_get st ''SubtypeName'') (\<lambda>n.
                    append_or_create d dn
                      (''Missing subtype'', Scalar n, Scalar (Some []))))
           st_miss d1 = Inr d'"
    by (auto simp: subtypes_branch_def bindE_eq_Inr Let_def)
  have "adds_only dn T d (snd (val', d1))"
  proof (rule foldE_invariant[OF rm, where I = "\<lambda>s. adds_only dn T d (snd s)"])
    show "adds_only dn T d (snd (val, d))" by (simp add: adds_only_refl)
  next
    fix st t t'
    assume inv: "adds_only dn T d (snd t)"
      and step: "(case t of (v, d) \<Rightarrow>
                  bindE (list_remove (\<lambda>y. dict_eq (=) y st) v) (\<lambda>v'.
                  bindE (dict_get st ''SubtypeName'') (\<lambda>n.
                  bindE (append_or_create_tuple d dn
                           (''Additional subtype'', Scalar (Some []), Scalar n))
                    (\<lambda>d'. Inr (v', d'))))) = Inr t'"
    from step obtain m where "append_or_create_tuple (snd t) dn
        (''Additional subtype'', Scalar (Some []), Scalar m) = Inr (snd t')"
      by (cases t) (auto simp: bindE_eq_Inr)
    then have "adds_only dn T (snd t) (snd t')"
      by (rule adds_only_append_tuple) (simp add: H1)
    with inv show "adds_only dn T d (snd t')"
      by (rule adds_only_trans)
  qed
  then have one: "adds_only dn T d d1" by simp
  have two: "adds_only dn T d1 d'"
  proof (rule adds_only_loop[OF ms])
    fix st t t'
    assume "bindE (dict_get st ''SubtypeName'') (\<lambda>n.
                    append_or_create t dn
                      (''Missing subtype'', Scalar n, Scalar (Some []))) = Inr t'"
    then obtain m where "append_or_create t dn
        (''Missing subtype'', Scalar m, Scalar (Some [])) = Inr t'"
      by (auto simp: bindE_eq_Inr)
    then show "adds_only dn T t t'"
      by (rule adds_only_append) (simp add: H1)
  qed
  from one two show ?thesis by (rule adds_only_trans)
qed

lemma subtype_info_branch_adds:
  assumes "subtype_info_branch name dn ds_base val d = Inr d'"
    and H1: "\<forall>desc b v. desc \<noteq> ''Missing field'' \<longrightarrow> desc \<noteq> ''Additional field''
               \<longrightarrow> (desc, b, v) \<in> T"
  shows "adds_only dn T d d'"
proof -
  have "(name @ '' has mismatch DefaultSubtypeCode property'', b, v) \<in> T" for b v
    using H1 by (simp add: description_property)
  with assms(1) show ?thesis
    by (auto simp: subtype_info_branch_def bindE_eq_Inr adds_only_refl split: if_splits
             intro: adds_only_append_tuple)
qed

text \<open>One key of the test dataset.\<close>

lemma ds_item_step_adds:
  assumes step: "ds_item_step name dn ds_base key (ds_cur, d) = Inr (ds_cur', d')"
    and H1: "\<forall>desc b v. desc \<noteq> ''Missing field'' \<longrightarrow> desc \<noteq> ''Additional field''
               \<longrightarrow> (desc, b, v) \<in> T"
    and H2: "\<forall>n. n \<noteq> fn0 \<longrightarrow> (''Missing field'', Scalar n, Scalar (Some [])) \<in> T
                           \<and> (''Additional field'', Scalar (Some []), Scalar n) \<in> T"
    and H3: "T = UNIV \<or> has_field ds_base f \<and> has_field ds_cur g"
    and nf: "dict_get f ''Name'' = Inr fn0" and ng: "dict_get g ''Name'' = Inr fn0"
  shows "adds_only dn T d d'"
proof -
  from step obtain val where val: "dict_get ds_cur key = Inr val"
    by (auto simp: ds_item_step_def bindE_eq_Inr)
  consider (info) "key = ''SubtypeInfo''" | (sub) "key = ''Subtypes''" | (fld) "key = ''Fields''"
    | (other) "key \<noteq> ''SubtypeInfo''" "key \<noteq> ''Subtypes''" "key \<noteq> ''Fields''"
    by blast
  then show ?thesis
  proof cases
    case info
    with step val show ?thesis
      by (auto simp: ds_item_step_def bindE_eq_Inr intro: subtype_info_branch_adds[OF _ H1])
  next
    case sub
    with step val show ?thesis
      by (auto simp: ds_item_step_def bindE_eq_Inr intro: subtypes_branch_adds[OF _ H1])
  next
    case fld
    with step val obtain v' where fb: "fields_branch dn ds_base val d = Inr (v', d')"
      by (auto simp: ds_item_step_def bindE_eq_Inr)
    from H3 val fld have "T = UNIV \<or> has_field ds_base f \<and> in_fields g val"
      by (auto simp: has_field_def dict_get_Inr)
    from fields_branch_adds[OF fb H1 H2 this nf ng] show ?thesis .
  next
    case other
    have "(name @ '' has mismatch '' @ key @ '' property'', b, v) \<in> T" for b v
      using H1 by (simp add: description_property)
    with other step val show ?thesis
      by (auto simp: ds_item_step_def bindE_eq_Inr adds_only_refl split: if_splits
               intro: adds_only_append)
  qed
qed

lemma ds_item_step_keeps:
  assumes step: "ds_item_step name dn ds_base key (ds_cur, d) = Inr (ds_cur', d')"
    and "has_field ds_base f" and "has_field ds_cur g"
    and nf: "dict_get f ''Name'' = Inr fn0" and ng: "dict_get g ''Name'' = Inr fn0"
  shows "has_field ds_cur' g"
proof -
  from step obtain val where val: "dict_get ds_cur key = Inr val"
    by (auto simp: ds_item_step_def bindE_eq_Inr)
  consider (info) "key = ''SubtypeInfo''" | (sub) "key = ''Subtypes''" | (fld) "key = ''Fields''"
    | (other) "key \<noteq> ''SubtypeInfo''" "key \<noteq> ''Subtypes''" "key \<noteq> ''Fields''"
    by blast
  then show ?thesis
  proof cases
    case info
    with step val assms(3) show ?thesis
      by (auto simp: ds_item_step_def bindE_eq_Inr)
  next
    case sub
    with step val assms(3) show ?thesis
      by (auto simp: ds_item_step_def bindE_eq_Inr has_field_def map_of_dict_set_other)
  next
    case fld
    with step val obtain v' where fb: "fields_branch dn ds_base val d = Inr (v', d')"
      and ds': "ds_cur' = dict_set ds_cur ''Fields'' v'"
      by (auto simp: ds_item_step_def bindE_eq_Inr)
    from assms(3) val fld have "in_fields g val"
      by (auto simp: has_field_def dict_get_Inr)
    from fields_branch_keeps[OF fb assms(2) this nf ng] show ?thesis
      by (simp add: ds' has_field_def map_of_dict_set)
  next
    case other
    with step val assms(3) show ?thesis
      by (auto simp: ds_item_step_def bindE_eq_Inr split: if_splits)
  qed
qed

lemma ds_item_step_reports:
  assumes step: "ds_item_step name dn ds_base ''Fields'' (ds_cur, d) = Inr (ds_cur', d')"
    and "has_field ds_base f" and "has_field ds_cur g"
    and nf: "dict_get f ''Name'' = Inr fn0" and ng: "dict_get g ''Name'' = Inr fn0"
    and kv: "(k, vb) \<in> set f" "(k, vt) \<in> set g" "vb \<noteq> vt"
  shows "(str_text fn0 @ '' field has different values for '' @ k,
          Scalar (Some (str_text vb)), Scalar (Some (str_text vt))) \<in> set (triples_of d' dn)"
proof -
  from step obtain val v' where val: "dict_get ds_cur ''Fields'' = Inr val"
    and fb: "fields_branch dn ds_base val d = Inr (v', d')"
    by (auto simp: ds_item_step_def bindE_eq_Inr)
  from assms(3) val have "in_fields g val"
    by (auto simp: has_field_def dict_get_Inr)
  from fields_branch_reports[OF fb assms(2) this nf ng kv] show ?thesis .
qed

text \<open>The keys of the test dataset, one after the other.\<close>

lemma key_loop_adds:
  assumes loop: "foldE (ds_item_step name dn ds_base) keys (ds, d) = Inr (ds', d')"
    and H1: "\<forall>desc b v. desc \<noteq> ''Missing field'' \<longrightarrow> desc \<noteq> ''Additional field''
               \<longrightarrow> (desc, b, v) \<in> T"
    and H2: "\<forall>n. n \<noteq> fn0 \<longrightarrow> (''Missing field'', Scalar n, Scalar (Some [])) \<in> T
                           \<and> (''Additional field'', Scalar (Some []), Scalar n) \<in> T"
    and H3: "T = UNIV \<or> has_field ds_base f \<and> has_field ds g"
    and nf: "dict_get f ''Name'' = Inr fn0" and ng: "dict_get g ''Name'' = Inr fn0"
  shows "adds_only dn T d d'"
proof -
  have "(T = UNIV \<or> has_field (fst (ds', d')) g) \<and> adds_only dn T d (snd (ds', d'))"
  proof (rule foldE_invariant[OF loop,
        where I = "\<lambda>s. (T = UNIV \<or> has_field (fst s) g) \<and> adds_only dn T d (snd s)"])
    show "(T = UNIV \<or> has_field (fst (ds, d)) g) \<and> adds_only dn T d (snd (ds, d))"
      using H3 by (auto simp: adds_only_refl)
  next
    fix key t t'
    assume inv: "(T = UNIV \<or> has_field (fst t) g) \<and> adds_only dn T d (snd t)"
      and step: "ds_item_step name dn ds_base key t = Inr t'"
    obtain c dd c' dd' where t: "t = (c, dd)" "t' = (c', dd')"
      by (cases t, cases t') auto
    from inv H3 have ctx: "T = UNIV \<or> has_field ds_base f \<and> has_field c g"
      by (auto simp: t)
    from ds_item_step_adds[OF step[unfolded t] H1 H2 ctx nf ng] inv
    have "adds_only dn T d dd'"
      by (auto simp: t intro: adds_only_trans)
    moreover have "T = UNIV \<or> has_field c' g"
      using ctx ds_item_step_keeps[OF step[unfolded t] _ _ nf ng] by auto
    ultimately show "(T = UNIV \<or> has_field (fst t') g) \<and> adds_only dn T d (snd t')"
      by (simp add: t)
  qed
  then show ?thesis by simp
qed

lemma key_loop_reports:
  assumes loop: "foldE (ds_item_step name dn ds_base) keys (ds, d) = Inr (ds', d')"
    and "''Fields'' \<in> set keys"
    and "has_field ds_base f" and "has_field ds g"
    and nf: "dict_get f ''Name'' = Inr fn0" and ng: "dict_get g ''Name'' = Inr fn0"
    and kv: "(k, vb) \<in> set f" "(k, vt) \<in> set g" "vb \<noteq> vt"
  shows "(str_text fn0 @ '' field has different values for '' @ k,
          Scalar (Some (str_text vb)), Scalar (Some (str_text vt))) \<in> set (triples_of d' dn)"
    (is "?t \<in> _")
proof -
  have all: "\<forall>desc b v. desc \<noteq> ''Missing field'' \<longrightarrow> desc \<noteq> ''Additional field''
               \<longrightarrow> (desc, b, v) \<in> (UNIV :: triple set)"
    and all': "\<forall>n. n \<noteq> fn0 \<longrightarrow> (''Missing field'', Scalar n, Scalar (Some [])) \<in> (UNIV :: triple set)
                           \<and> (''Additional field'', Scalar (Some []), Scalar n) \<in> (UNIV :: triple set)"
    by simp_all
  have "has_field (fst (ds', d')) g \<and> ?t \<in> set (triples_of (snd (ds', d')) dn)"
  proof (rule foldE_establish[OF loop, where x = "''Fields''"
        and J = "\<lambda>s. has_field (fst s) g" and R = "\<lambda>s. ?t \<in> set (triples_of (snd s) dn)"])
    show "has_field (fst (ds, d)) g" using assms(4) by simp
    show "''Fields'' \<in> set keys \<or> ?t \<in> set (triples_of (snd (ds, d)) dn)"
      using assms(2) by simp
  next
    fix key t t'
    assume inv: "has_field (fst t) g"
      and step: "ds_item_step name dn ds_base key t = Inr t'"
    obtain c dd c' dd' where t: "t = (c, dd)" "t' = (c', dd')"
      by (cases t, cases t') auto
    from inv have c: "has_field c g" by (simp add: t)
    have "has_field c' g"
      by (rule ds_item_step_keeps[OF step[unfolded t] assms(3) c nf ng])
    moreover have "adds_only dn UNIV dd dd'"
      by (rule ds_item_step_adds[OF step[unfolded t] all all' _ nf ng]) simp
    then have "?t \<in> set (triples_of dd dn) \<longrightarrow> ?t \<in> set (triples_of dd' dn)"
      by (auto dest: adds_only_keeps)
    moreover have "key = ''Fields'' \<longrightarrow> ?t \<in> set (triples_of dd' dn)"
      using step[unfolded t] ds_item_step_reports[OF _ assms(3) c nf ng kv] by auto
    ultimately show "has_field (fst t') g
        \<and> (?t \<in> set (triples_of (snd t) dn) \<longrightarrow> ?t \<in> set (triples_of (snd t') dn))
        \<and> (key = ''Fields'' \<longrightarrow> ?t \<in> set (triples_of (snd t') dn))"
      by (simp add: t)
  qed
  then show ?thesis by simp
qed

text \<open>One dataset of the test list.\<close>

lemma dataset_step_adds:
  assumes step: "dataset_step name base (j, ds) (ts, d) = Inr (ts', d')"
    and dn: "itemgetter ''Name'' ds = Inr dn"
    and H1: "\<forall>desc b v. desc \<noteq> ''Missing field'' \<longrightarrow> desc \<noteq> ''Additional field''
               \<longrightarrow> (desc, b, v) \<in> T"
    and H2: "\<forall>n. n \<noteq> fn0 \<longrightarrow> (''Missing field'', Scalar n, Scalar (Some [])) \<in> T
                           \<and> (''Additional field'', Scalar (Some []), Scalar n) \<in> T"
    and H3: "T = UNIV \<or> find_by_name ''Name'' base dn = Inr ds_base
                         \<and> has_field ds_base f \<and> has_field ds g"
    and nf: "dict_get f ''Name'' = Inr fn0" and ng: "dict_get g ''Name'' = Inr fn0"
  shows "adds_only dn T d d'"
proof -
  from step dn obtain dsb ds' where dsb: "find_by_name ''Name'' base dn = Inr dsb"
    and loop: "foldE (ds_item_step name dn dsb) (map fst ds) (ds, d) = Inr (ds', d')"
    by (auto simp: dataset_step_def bindE_eq_Inr)
  from H3 dsb have "T = UNIV \<or> has_field dsb f \<and> has_field ds g" by auto
  from key_loop_adds[OF loop H1 H2 this nf ng] show ?thesis .
qed

lemma dataset_step_reports:
  assumes step: "dataset_step name base (j, ds) (ts, d) = Inr (ts', d')"
    and dn: "itemgetter ''Name'' ds = Inr dn"
    and "find_by_name ''Name'' base dn = Inr ds_base"
    and "has_field ds_base f" and "has_field ds g"
    and nf: "dict_get f ''Name'' = Inr fn0" and ng: "dict_get g ''Name'' = Inr fn0"
    and kv: "(k, vb) \<in> set f" "(k, vt) \<in> set g" "vb \<noteq> vt"
  shows "(str_text fn0 @ '' field has different values for '' @ k,
          Scalar (Some (str_text vb)), Scalar (Some (str_text vt))) \<in> set (triples_of d' dn)"
proof -
  from step dn assms(3) obtain ds' where
    loop: "foldE (ds_item_step name dn ds_base) (map fst ds) (ds, d) = Inr (ds', d')"
    by (auto simp: dataset_step_def bindE_eq_Inr)
  from assms(5) have "''Fields'' \<in> set (map fst ds)"
    by (auto simp: has_field_def split: option.splits dest: map_of_SomeD intro: rev_image_eqI)
  from key_loop_reports[OF loop this assms(4,5) nf ng kv] show ?thesis .
qed

text \<open>Names that are unique name one element.\<close>

lemma named_unique:
  assumes "mapE f xs = Inr ns" and "distinct ns" and "x \<in> set xs" and "y \<in> set xs"
    and "f x = Inr n" and "f y = Inr n"
  shows "x = y"
proof -
  from assms(3,4) obtain i j where ij: "i < length xs" "xs ! i = x" "j < length xs" "xs ! j = y"
    by (auto simp: in_set_conv_nth)
  from mapE_Inr[OF assms(1)] have len: "length xs = length ns"
    and nth: "\<And>i. i < length xs \<Longrightarrow> f (xs ! i) = Inr (ns ! i)"
    by (auto simp: list_all2_conv_all_nth)
  from nth[OF ij(1)] nth[OF ij(3)] ij assms(5,6) have "ns ! i = ns ! j" by simp
  with assms(2) ij len have "i = j" by (simp add: nth_eq_iff_index_eq)
  with ij show ?thesis by simp
qed

lemma find_by_name_distinct:
  assumes names: "mapE (itemgetter key) base = Inr ns" and "distinct ns"
    and e: "e \<in> set base" "itemgetter key e = Inr n"
  shows "find_by_name key base n = Inr e"
proof -
  let ?L = "filter (\<lambda>(n', d). n' = n) (zip ns base)"
  from mapE_Inr[OF names] have len: "length base = length ns"
    and nth: "\<And>i. i < length base \<Longrightarrow> itemgetter key (base ! i) = Inr (ns ! i)"
    by (auto simp: list_all2_conv_all_nth)
  from e(1) obtain i where i: "i < length base" "base ! i = e"
    by (auto simp: in_set_conv_nth)
  with nth[OF i(1)] e(2) have "ns ! i = n" by simp
  with i len have "(n, e) \<in> set (zip ns base)"
    by (auto simp: in_set_zip)
  then have "(n, e) \<in> set ?L" by simp
  then obtain x xs where L: "?L = x # xs" by (cases ?L) auto
  then have "x \<in> set ?L" by simp
  then obtain j where j: "j < length base" "x = (ns ! j, base ! j)" "ns ! j = n"
    by (auto simp: in_set_zip)
  from nth[OF j(1)] j(3) have "itemgetter key (base ! j) = Inr n" by simp
  from named_unique[OF names assms(2) _ e(1) this e(2)] j(1) have "base ! j = e" by simp
  with j L have "map snd ?L = e # map snd xs" by simp
  then show ?thesis
    by (simp add: find_by_name_def names bindE_simps first_def)
qed

text \<open>Datasets that are equal have the same name and the same fields.\<close>

lemma itemgetter_Inr: "itemgetter k d = Inr n \<longleftrightarrow> map_of d k = Some (Scalar n)"
  by (cases "map_of d k") (auto simp: itemgetter_def bindE_def dict_get_def split: pyval.splits)

lemma entity_eq_lookup:
  assumes "entity_eq a b" and "k \<in> fst ` set a \<union> fst ` set b"
  obtains x y where "map_of a k = Some x" and "map_of b k = Some y" and "py_eq x y"
proof -
  from assms have "case (map_of a k, map_of b k) of (Some x, Some y) \<Rightarrow> py_eq x y | _ \<Rightarrow> False"
    unfolding entity_eq_def dict_eq_def list_all_iff by auto
  then show ?thesis
    by (auto split: option.splits intro: that)
qed

lemma entity_eq_name:
  assumes "entity_eq a b"
  shows "itemgetter k a = Inr n \<longleftrightarrow> itemgetter k b = Inr n"
proof
  assume "itemgetter k a = Inr n"
  then have a: "map_of a k = Some (Scalar n)" by (simp add: itemgetter_Inr)
  then have "k \<in> fst ` set a \<union> fst ` set b"
    by (auto dest: map_of_SomeD intro: rev_image_eqI)
  from entity_eq_lookup[OF assms this] a obtain y where "map_of b k = Some y" "py_eq (Scalar n) y"
    by auto
  then show "itemgetter k b = Inr n"
    by (cases y) (simp_all add: itemgetter_Inr)
next
  assume "itemgetter k b = Inr n"
  then have b: "map_of b k = Some (Scalar n)" by (simp add: itemgetter_Inr)
  then have "k \<in> fst ` set a \<union> fst ` set b"
    by (auto dest: map_of_SomeD intro: rev_image_eqI)
  from entity_eq_lookup[OF assms this] b obtain x where "map_of a k = Some x" "py_eq x (Scalar n)"
    by auto
  then show "itemgetter k a = Inr n"
    by (cases x) (simp_all add: itemgetter_Inr)
qed

lemma entity_eq_fields:
  assumes "entity_eq a b"
    and "dict_get a ''Fields'' = Inr (DictList fa)" and "dict_get b ''Fields'' = Inr (DictList fb)"
  shows "list_all2 (\<lambda>x y. \<forall>k. map_of x k = map_of y k) fa fb"
proof -
  from assms(2) have "''Fields'' \<in> fst ` set a \<union> fst ` set b"
    by (auto simp: dict_get_Inr dest: map_of_SomeD intro: rev_image_eqI)
  from entity_eq_lookup[OF assms(1) this] obtain x y where
    "map_of a ''Fields'' = Some x" "map_of b ''Fields'' = Some y" "py_eq x y"
    by blast
  with assms(2,3) have "list_all2 (dict_eq (=)) fa fb"
    by (simp add: dict_get_Inr)
  then show ?thesis
    by (rule list_all2_mono) (blast dest: dict_eq_map_of)
qed

text \<open>When the test dataset is equal to a base dataset, no property of the two
  fields differs.\<close>

lemma same_dataset_same_values:
  assumes eq: "entity_eq ds e \<or> entity_eq e ds" and e: "e \<in> set base"
    and names: "mapE (itemgetter ''Name'') base = Inr names_base" "distinct names_base"
    and ds_base: "ds_base \<in> set base" "itemgetter ''Name'' ds_base = Inr dn"
      "dict_get ds_base ''Fields'' = Inr (DictList flds_base)"
    and fnames: "names_of ''Name'' flds_base = Inr fnames" "distinct fnames"
    and ds: "itemgetter ''Name'' ds = Inr dn" "dict_get ds ''Fields'' = Inr (DictList flds_test)"
    and f: "f \<in> set flds_base" "dict_get f ''Name'' = Inr fn0"
    and g: "g \<in> set flds_test" "dict_get g ''Name'' = Inr fn0"
  shows "map_of f k = map_of g k"
proof -
  from eq ds(1) have "itemgetter ''Name'' e = Inr dn"
    by (auto simp: entity_eq_name)
  from named_unique[OF names e ds_base(1) this ds_base(2)] have e': "e = ds_base" .
  from eq have "list_all2 (\<lambda>x y. \<forall>k. map_of x k = map_of y k) flds_base flds_test"
  proof
    assume "entity_eq ds e"
    from entity_eq_fields[OF this[unfolded e'] ds(2) ds_base(3)] show ?thesis
      by (auto simp: list_all2_conv_all_nth)
  next
    assume "entity_eq e ds"
    from entity_eq_fields[OF this[unfolded e'] ds_base(3) ds(2)] show ?thesis .
  qed
  then have len: "length flds_base = length flds_test"
    and nth: "\<And>i k. i < length flds_base \<Longrightarrow> map_of (flds_base ! i) k = map_of (flds_test ! i) k"
    by (auto simp: list_all2_conv_all_nth)
  from g(1) obtain i where i: "i < length flds_test" "flds_test ! i = g"
    by (auto simp: in_set_conv_nth)
  with nth[of i "''Name''"] len g(2) have "dict_get (flds_base ! i) ''Name'' = Inr fn0"
    by (simp add: dict_get_Inr)
  from named_unique[OF fnames[unfolded names_of_def] _ f(1) this f(2)] i(1) len
  have "flds_base ! i = f" by simp
  with nth[of i k] i len show ?thesis by simp
qed

text \<open>The datasets that are compared.\<close>

lemma compare_dataset_lists_Inr:
  assumes "compare_dataset_lists name c = Inr ((miss, diff, add), c')"
    and "\<not> list_all2 entity_eq (ds_list_base c) (ds_list_test c)"
  obtains names_test names_base todo ts' where
    "mapE (itemgetter ''Name'') (ds_list_test c) = Inr names_test"
    and "mapE (itemgetter ''Name'') (ds_list_base c) = Inr names_base"
    and "foldE (\<lambda>ds. list_remove (\<lambda>(j, y). entity_eq y ds))
           (not_named names_test (ds_list_test c) names_base)
           (filter (\<lambda>(j, i). \<not> entity_in i (ds_list_base c))
              (zip [0..<length (ds_list_test c)] (ds_list_test c))) = Inr todo"
    and "foldE (dataset_step name (ds_list_base c)) todo (ds_list_test c, []) = Inr (ts', diff)"
  using assms
  by (auto simp: compare_dataset_lists_def bindE_eq_Inr Let_def)

lemma todo_subset:
  assumes "foldE (\<lambda>ds. list_remove (\<lambda>(j, y). entity_eq y ds)) ds_add xs = Inr todo"
  shows "set todo \<subseteq> set xs"
  by (rule foldE_invariant[OF assms, where I = "\<lambda>s. set s \<subseteq> set xs"])
     (auto dest: list_remove_set)

lemma todo_member:
  assumes "foldE (\<lambda>ds. list_remove (\<lambda>(j, y). entity_eq y ds)) ds_add xs = Inr todo"
    and "(j, ds) \<in> set xs" and "\<forall>x \<in> set ds_add. \<not> entity_eq ds x"
  shows "(j, ds) \<in> set todo"
  by (rule foldE_invariant[OF assms(1), where I = "\<lambda>s. (j, ds) \<in> set s"])
     (use assms(2,3) in \<open>auto dest: list_remove_keeps\<close>)

text \<open>The loop over the datasets: no missing and no additional field of the name that
  the base dataset and the test dataset both have.\<close>

lemma dataset_loop_no_field:
  assumes loop: "foldE (dataset_step name base) todo (test, d0) = Inr (ts', diff)"
    and todo: "snd ` set todo \<subseteq> set test"
    and names_test: "mapE (itemgetter ''Name'') test = Inr names_test" "distinct names_test"
    and find: "find_by_name ''Name'' base dn = Inr ds_base"
    and ds: "ds \<in> set test" "itemgetter ''Name'' ds = Inr dn"
    and has: "has_field ds_base f" "has_field ds g"
    and nf: "dict_get f ''Name'' = Inr fn0" and ng: "dict_get g ''Name'' = Inr fn0"
    and t: "t = (''Missing field'', Scalar fn0, Scalar (Some []))
            \<or> t = (''Additional field'', Scalar (Some []), Scalar fn0)"
    and d0: "t \<notin> set (triples_of d0 dn)"
  shows "t \<notin> set (triples_of diff dn)"
proof -
  let ?T = "{t. t \<noteq> (''Missing field'', Scalar fn0, Scalar (Some []))
               \<and> t \<noteq> (''Additional field'', Scalar (Some []), Scalar fn0)}"
  have H1: "\<forall>desc b v. desc \<noteq> ''Missing field'' \<longrightarrow> desc \<noteq> ''Additional field''
               \<longrightarrow> (desc, b, v) \<in> ?T"
    and H2: "\<forall>n. n \<noteq> fn0 \<longrightarrow> (''Missing field'', Scalar n, Scalar (Some [])) \<in> ?T
                           \<and> (''Additional field'', Scalar (Some []), Scalar n) \<in> ?T"
    by auto
  have U1: "\<forall>desc b v. desc \<noteq> ''Missing field'' \<longrightarrow> desc \<noteq> ''Additional field''
               \<longrightarrow> (desc, b, v) \<in> (UNIV :: triple set)"
    and U2: "\<forall>n. n \<noteq> fn0 \<longrightarrow> (''Missing field'', Scalar n, Scalar (Some [])) \<in> (UNIV :: triple set)
                           \<and> (''Additional field'', Scalar (Some []), Scalar n) \<in> (UNIV :: triple set)"
    by simp_all
  have "t \<notin> set (triples_of (snd (ts', diff)) dn)"
  proof (rule foldE_invariant[OF loop, where I = "\<lambda>s. t \<notin> set (triples_of (snd s) dn)"])
    show "t \<notin> set (triples_of (snd (test, d0)) dn)" using d0 by simp
  next
    fix y s s'
    assume y: "y \<in> set todo" and inv: "t \<notin> set (triples_of (snd s) dn)"
      and step: "dataset_step name base y s = Inr s'"
    obtain j x where yx: "y = (j, x)" by (cases y)
    obtain ts d ts1 d1 where s: "s = (ts, d)" "s' = (ts1, d1)"
      by (cases s, cases s') auto
    from step obtain n where n: "itemgetter ''Name'' x = Inr n"
      by (auto simp: yx s dataset_step_def bindE_eq_Inr)
    from y todo have x: "x \<in> set test" by (auto simp: yx)
    show "t \<notin> set (triples_of (snd s') dn)"
    proof (cases "n = dn")
      case True
      from named_unique[OF names_test x ds(1) n[unfolded True] ds(2)] have "x = ds" .
      with step n True have step': "dataset_step name base (j, ds) (ts, d) = Inr (ts1, d1)"
        and n': "itemgetter ''Name'' ds = Inr dn"
        by (simp_all add: yx s)
      have "adds_only dn ?T d d1"
        by (rule dataset_step_adds[OF step' n' H1 H2 _ nf ng, where ds_base = ds_base])
           (use find has in simp)
      moreover from t have "t \<notin> ?T" by auto
      ultimately show ?thesis
        using inv by (auto simp: s dest: adds_only_new)
    next
      case False
      have "adds_only n UNIV d d1"
        by (rule dataset_step_adds[OF step[unfolded yx s] n U1 U2 _ nf ng]) simp
      from adds_only_elsewhere[OF this, of dn] False inv show ?thesis
        by (simp add: s)
    qed
  qed
  then show ?thesis by simp
qed

text \<open>The loop over the datasets: the triple of a property that differs.\<close>

lemma dataset_loop_reports:
  assumes loop: "foldE (dataset_step name base) todo (test, d0) = Inr (ts', diff)"
    and member: "(j, ds) \<in> set todo"
    and find: "find_by_name ''Name'' base dn = Inr ds_base"
    and ds: "itemgetter ''Name'' ds = Inr dn"
    and has: "has_field ds_base f" "has_field ds g"
    and nf: "dict_get f ''Name'' = Inr fn0" and ng: "dict_get g ''Name'' = Inr fn0"
    and kv: "(k, vb) \<in> set f" "(k, vt) \<in> set g" "vb \<noteq> vt"
  shows "(str_text fn0 @ '' field has different values for '' @ k,
          Scalar (Some (str_text vb)), Scalar (Some (str_text vt))) \<in> set (triples_of diff dn)"
    (is "?t \<in> _")
proof -
  have U1: "\<forall>desc b v. desc \<noteq> ''Missing field'' \<longrightarrow> desc \<noteq> ''Additional field''
               \<longrightarrow> (desc, b, v) \<in> (UNIV :: triple set)"
    and U2: "\<forall>n. n \<noteq> fn0 \<longrightarrow> (''Missing field'', Scalar n, Scalar (Some [])) \<in> (UNIV :: triple set)
                           \<and> (''Additional field'', Scalar (Some []), Scalar n) \<in> (UNIV :: triple set)"
    by simp_all
  have "True \<and> ?t \<in> set (triples_of (snd (ts', diff)) dn)"
  proof (rule foldE_establish[OF loop, where x = "(j, ds)" and J = "\<lambda>_. True"
        and R = "\<lambda>s. ?t \<in> set (triples_of (snd s) dn)"])
    show True ..
    show "(j, ds) \<in> set todo \<or> ?t \<in> set (triples_of (snd (test, d0)) dn)"
      using member by simp
  next
    fix y s s'
    assume step: "dataset_step name base y s = Inr s'"
    obtain i x where yx: "y = (i, x)" by (cases y)
    obtain ts d ts1 d1 where s: "s = (ts, d)" "s' = (ts1, d1)"
      by (cases s, cases s') auto
    from step obtain n where n: "itemgetter ''Name'' x = Inr n"
      by (auto simp: yx s dataset_step_def bindE_eq_Inr)
    have "adds_only n UNIV d d1"
      by (rule dataset_step_adds[OF step[unfolded yx s] n U1 U2 _ nf ng]) simp
    then have "?t \<in> set (triples_of d dn) \<longrightarrow> ?t \<in> set (triples_of d1 dn)"
      by (auto dest: adds_only_keeps)
    moreover have "y = (j, ds) \<longrightarrow> ?t \<in> set (triples_of d1 dn)"
      using step[unfolded s] dataset_step_reports[OF _ ds find has nf ng kv] by auto
    ultimately show "True
        \<and> (?t \<in> set (triples_of (snd s) dn) \<longrightarrow> ?t \<in> set (triples_of (snd s') dn))
        \<and> (y = (j, ds) \<longrightarrow> ?t \<in> set (triples_of (snd s') dn))"
      by (simp add: s)
  qed
  then show ?thesis by simp
qed

text \<open>The name that the record of a field holds is the lowercased text of the child
  tagged Name.\<close>

lemma fld_prop_loop_name:
  assumes "foldE (fld_prop_step ia) cs d0 = Inr d"
  shows "map_of d ''Name''
         = (if filter (\<lambda>x. tag x = ''Name'') cs = [] then map_of d0 ''Name''
            else Some (map_option lower (text_of (last (filter (\<lambda>x. tag x = ''Name'') cs)))))"
  using assms
proof (induction cs arbitrary: d0)
  case Nil
  then show ?case by simp
next
  case (Cons c cs)
  from Cons.prems obtain d1 where c: "fld_prop_step ia c d0 = Inr d1"
    and rest: "foldE (fld_prop_step ia) cs d1 = Inr d"
    by (auto simp: bindE_eq_Inr)
  have other: "map_of (foldl (\<lambda>d domain_prop.
                      if tag domain_prop = ''DomainName''
                      then dict_set d ''Domain'' (text_of domain_prop) else d) e xs) ''Name''
               = map_of e ''Name''" for e xs
    by (induction xs arbitrary: e) (simp_all add: map_of_dict_set_other)
  have d1: "map_of d1 ''Name''
            = (if tag c = ''Name'' then Some (map_option lower (text_of c)) else map_of d0 ''Name'')"
    using c
    by (auto simp: fld_prop_step_def Let_def map_of_dict_set map_of_dict_set_other other
             split: if_splits option.splits)
  from Cons.IH[OF rest] d1 show ?case by simp
qed

lemma field_record_named:
  assumes "field_record il ia e = Inr r" and "field_named e s"
  shows "dict_get r ''Name'' = Inr (Some (lower s))"
proof -
  from assms(1) obtain d where loop: "foldE (fld_prop_step ia) (getchildren e) [] = Inr d"
    and r: "r = d \<or> dict_del d ''Length'' = Inr r"
    by (auto simp: field_record_def bindE_eq_Inr split: if_splits)
  from assms(2) have "filter (\<lambda>x. tag x = ''Name'') (getchildren e) \<noteq> []"
    and "text_of (last (filter (\<lambda>x. tag x = ''Name'') (getchildren e))) = Some s"
    by (auto simp: field_named_def last_map[symmetric] simp del: last_map)
  with fld_prop_loop_name[OF loop] have "map_of d ''Name'' = Some (Some (lower s))"
    by simp
  moreover have "map_of (filter (\<lambda>kv. fst kv \<noteq> ''Length'') d) ''Name'' = map_of d ''Name''"
    by (induction d) auto
  ultimately show ?thesis
    using r by (auto simp: dict_get_Inr dict_del_def split: if_splits)
qed

text \<open>C6. In every pair of collections with unique dataset names in which a dataset
  of the base list and the dataset of the same name of the test list each hold the
  record of a field, made by \<open>field_record\<close> from fields named \<open>nb\<close> and \<open>nt\<close>
  that differ at most in the case of their letters (the names of the fields of the
  base dataset being unique): when \<open>compare_dataset_lists\<close> returns, the differences
  of the dataset hold no missing field and no additional field of that name, and for
  every key the two records share with different values they hold the triple of that
  key, under the lowercased name.\<close>

theorem field_names_ignore_case:
  assumes run: "compare_dataset_lists name c = Inr ((miss, diff, add), c')"
    and base_names: "mapE (itemgetter ''Name'') (ds_list_base c) = Inr names_base"
      "distinct names_base"
    and test_names: "mapE (itemgetter ''Name'') (ds_list_test c) = Inr names_test"
      "distinct names_test"
    and ds_base: "ds_base \<in> set (ds_list_base c)" "itemgetter ''Name'' ds_base = Inr dsn"
      "dict_get ds_base ''Fields'' = Inr (DictList flds_base)"
    and field_names: "names_of ''Name'' flds_base = Inr fnames" "distinct fnames"
    and ds: "ds \<in> set (ds_list_test c)" "itemgetter ''Name'' ds = Inr dsn"
      "dict_get ds ''Fields'' = Inr (DictList flds_test)"
    and f: "f \<in> set flds_base" "field_record il ia eb = Inr f" "field_named eb nb"
    and g: "g \<in> set flds_test" "field_record il ia et = Inr g" "field_named et nt"
    and same: "lower nb = lower nt"
  shows "(''Missing field'', Scalar (Some (lower nb)), Scalar (Some []))
           \<notin> set (triples_of diff dsn)
       \<and> (''Additional field'', Scalar (Some []), Scalar (Some (lower nt)))
           \<notin> set (triples_of diff dsn)
       \<and> (\<forall>k vb vt. map_of f k = Some vb \<and> map_of g k = Some vt \<and> vb \<noteq> vt \<longrightarrow>
            (lower nb @ '' field has different values for '' @ k,
             Scalar (Some (str_text vb)), Scalar (Some (str_text vt)))
              \<in> set (triples_of diff dsn))"
proof -
  let ?base = "ds_list_base c" and ?test = "ds_list_test c"
  let ?fn = "Some (lower nb)"
  have nf: "dict_get f ''Name'' = Inr ?fn"
    by (rule field_record_named[OF f(2,3)])
  have ng: "dict_get g ''Name'' = Inr ?fn"
    using field_record_named[OF g(2,3)] same by simp
  have hb: "has_field ds_base f"
    using ds_base(3) f(1) by (auto simp: has_field_iff as_dicts_def)
  have ht: "has_field ds g"
    using ds(3) g(1) by (auto simp: has_field_iff as_dicts_def)
  have find: "find_by_name ''Name'' ?base dsn = Inr ds_base"
    by (rule find_by_name_distinct[OF base_names ds_base(1,2)])
  have same_values: "vb = vt"
    if "entity_eq ds e \<or> entity_eq e ds" "e \<in> set ?base"
      "map_of f k = Some vb" "map_of g k = Some vt" for e k vb vt
    using same_dataset_same_values[OF that(1,2) base_names ds_base field_names ds(2,3)
        f(1) nf g(1) ng, of k] that(3,4)
    by simp
  show ?thesis
  proof (cases "list_all2 entity_eq ?base ?test")
    case True
    with run have diff: "diff = []"
      by (simp add: compare_dataset_lists_def)
    from ds(1) obtain j where "j < length ?test" "?test ! j = ds"
      by (auto simp: in_set_conv_nth)
    with True have "entity_eq (?base ! j) ds" "?base ! j \<in> set ?base"
      by (auto simp: list_all2_conv_all_nth)
    with same_values have "\<forall>k vb vt. map_of f k = Some vb \<and> map_of g k = Some vt \<longrightarrow> vb = vt"
      by blast
    with diff show ?thesis
      by (auto simp: triples_of_def)
  next
    case False
    from run False obtain names_test' names_base' todo ts' where
      nt: "mapE (itemgetter ''Name'') ?test = Inr names_test'"
      and nb: "mapE (itemgetter ''Name'') ?base = Inr names_base'"
      and rm: "foldE (\<lambda>ds. list_remove (\<lambda>(j, y). entity_eq y ds))
           (not_named names_test' ?test names_base')
           (filter (\<lambda>(j, i). \<not> entity_in i ?base) (zip [0..<length ?test] ?test)) = Inr todo"
      and loop: "foldE (dataset_step name ?base) todo (?test, []) = Inr (ts', diff)"
      by (rule compare_dataset_lists_Inr)
    from nt nb test_names(1) base_names(1)
    have [simp]: "names_test' = names_test" "names_base' = names_base"
      by simp_all
    have todo: "snd ` set todo \<subseteq> set ?test"
    proof
      fix x
      assume "x \<in> snd ` set todo"
      then obtain j where "(j, x) \<in> set todo" by auto
      with todo_subset[OF rm] have "(j, x) \<in> set (zip [0..<length ?test] ?test)" by auto
      then show "x \<in> set ?test" by (rule set_zip_rightD)
    qed
    have absent: "t \<notin> set (triples_of diff dsn)"
      if "t = (''Missing field'', Scalar ?fn, Scalar (Some []))
          \<or> t = (''Additional field'', Scalar (Some []), Scalar ?fn)" for t
      by (rule dataset_loop_no_field[OF loop todo test_names find ds(1,2) hb ht nf ng that])
         (simp add: triples_of_def)
    have reported: "(lower nb @ '' field has different values for '' @ k,
             Scalar (Some (str_text vb)), Scalar (Some (str_text vt)))
              \<in> set (triples_of diff dsn)"
      if kv: "map_of f k = Some vb" "map_of g k = Some vt" "vb \<noteq> vt" for k vb vt
    proof (cases "entity_in ds ?base")
      case True
      then obtain e where "e \<in> set ?base" "entity_eq ds e"
        by (auto simp: entity_in_def list_ex_iff)
      with same_values kv show ?thesis by blast
    next
      case False
      from ds(1) obtain j where j: "j < length ?test" "?test ! j = ds"
        by (auto simp: in_set_conv_nth)
      then have "(j, ds) \<in> set (zip [0..<length ?test] ?test)"
        by (auto simp: in_set_zip intro!: exI[of _ j])
      with False have filtered: "(j, ds) \<in> set (filter (\<lambda>(j, i). \<not> entity_in i ?base)
                                   (zip [0..<length ?test] ?test))"
        by simp
      have "\<forall>x \<in> set (not_named names_test' ?test names_base'). \<not> entity_eq ds x"
      proof
        fix x
        assume "x \<in> set (not_named names_test' ?test names_base')"
        from not_named_member[OF nt this] obtain m where
          m: "itemgetter ''Name'' x = Inr m" "m \<notin> set names_base"
          by auto
        from mapE_member[OF base_names(1) ds_base(1)] ds_base(2) have "dsn \<in> set names_base"
          by auto
        with m ds(2) show "\<not> entity_eq ds x"
          by (auto simp: entity_eq_name)
      qed
      from todo_member[OF rm filtered this] have member: "(j, ds) \<in> set todo" .
      from dataset_loop_reports[OF loop member find ds(2) hb ht nf ng
          map_of_SomeD[OF kv(1)] map_of_SomeD[OF kv(2)] kv(3)]
      show ?thesis by (simp add: str_text_def)
    qed
    from absent reported same show ?thesis by auto
  qed
qed

text \<open>The two documents with the feature class Parcels, normalised and compared.\<close>

lemma parse_parcels:
  "get_dataset_properties True parcels_base_doc ''esri:DEFeatureClass'' False False False False
   = Inr [parcels_base]"
  "get_dataset_properties True parcels_test_doc ''esri:DEFeatureClass'' False False False False
   = Inr [parcels_test]"
  by code_simp+

lemma differ_parcels:
  "compare_dataset_lists ''Feature Class''
     \<lparr>ds_list_base = [parcels_base], ds_list_test = [parcels_test]\<rparr>
   = Inr (([], parcels_differences, []),
          \<lparr>ds_list_base = [parcels_base], ds_list_test = [parcels_test_compared]\<rparr>)"
  by code_simp

lemma compare_datasets_parcels:
  "compare_datasets True parcels_base_doc parcels_test_doc ''esri:DEFeatureClass''
     ''Feature Class'' False False False False
   = Inr ([], parcels_differences, [])"
  by (simp add: compare_datasets_def parse_parcels differ_parcels bindE_simps)

theorem field_names_ignore_case_witness:
  "compare_dataset_lists ''Feature Class''
     \<lparr>ds_list_base = [parcels_base], ds_list_test = [parcels_test]\<rparr>
   = Inr (([], parcels_differences, []),
          \<lparr>ds_list_base = [parcels_base], ds_list_test = [parcels_test_compared]\<rparr>)
   \<and> field_named owner_base ''OWNER'' \<and> field_named owner_test ''owner''
   \<and> lower ''OWNER'' = lower ''owner''
   \<and> (''Missing field'', Scalar (Some ''owner''), Scalar (Some []))
        \<notin> set (triples_of parcels_differences (Some ''Parcels''))
   \<and> (''Additional field'', Scalar (Some []), Scalar (Some ''owner''))
        \<notin> set (triples_of parcels_differences (Some ''Parcels''))
   \<and> (''owner field has different values for Domain'',
        Scalar (Some ''Owners''), Scalar (Some []))
        \<in> set (triples_of parcels_differences (Some ''Parcels''))
   \<and> (''owner field has different values for Length'',
        Scalar (Some ''50''), Scalar (Some ''60''))
        \<in> set (triples_of parcels_differences (Some ''Parcels''))"
proof -
  let ?c = "\<lparr>ds_list_base = [parcels_base], ds_list_test = [parcels_test]\<rparr>"
  let ?f = "normal_field ''Owners'' ''owner'' ''esriFieldTypeString'' (Some (Some ''50''))"
  let ?g = "normal_field [] ''owner'' ''esriFieldTypeString'' (Some (Some ''60''))"
  let ?fb = "[?f, normal_field [] ''area'' ''esriFieldTypeDouble'' None,
              normal_field [] ''zone'' ''esriFieldTypeString'' (Some (Some ''10''))]"
  let ?ft = "[normal_field [] ''area'' ''esriFieldTypeDouble'' None, ?g,
              normal_field [] ''zoning'' ''esriFieldTypeString'' (Some (Some ''10''))]"
  have names_base: "mapE (itemgetter ''Name'') (ds_list_base ?c) = Inr [Some ''Parcels'']"
    and names_test: "mapE (itemgetter ''Name'') (ds_list_test ?c) = Inr [Some ''Parcels'']"
    by code_simp+
  have ds_base: "parcels_base \<in> set (ds_list_base ?c)"
    and ds_test: "parcels_test \<in> set (ds_list_test ?c)"
    by simp_all
  have name: "itemgetter ''Name'' parcels_base = Inr (Some ''Parcels'')"
    "itemgetter ''Name'' parcels_test = Inr (Some ''Parcels'')"
    by code_simp+
  have fields: "dict_get parcels_base ''Fields'' = Inr (DictList ?fb)"
    "dict_get parcels_test ''Fields'' = Inr (DictList ?ft)"
    by code_simp+
  have fnames: "names_of ''Name'' ?fb = Inr [Some ''owner'', Some ''area'', Some ''zone'']"
    by code_simp
  have f: "field_record True False owner_base = Inr ?f" "field_named owner_base ''OWNER''"
    and g: "field_record True False owner_test = Inr ?g" "field_named owner_test ''owner''"
    and same: "lower ''OWNER'' = lower ''owner''"
    and low: "lower ''OWNER'' = ''owner''" "lower ''owner'' = ''owner''"
    by code_simp+
  have "?f \<in> set ?fb" "?g \<in> set ?ft" "distinct [Some ''Parcels'' :: xtext]"
    "distinct [Some ''owner'', Some ''area'', Some ''zone'' :: xtext]"
    by simp_all
  note th = field_names_ignore_case [OF differ_parcels names_base this(3) names_test this(3)
      ds_base name(1) fields(1) fnames this(4) ds_test name(2) fields(2)
      this(1) f this(2) g same]
  from th have a: "(''Missing field'', Scalar (Some ''owner''), Scalar (Some []))
        \<notin> set (triples_of parcels_differences (Some ''Parcels''))"
    and b: "(''Additional field'', Scalar (Some []), Scalar (Some ''owner''))
        \<notin> set (triples_of parcels_differences (Some ''Parcels''))"
    by (simp_all add: low)
  from th have c: "map_of ?f k = Some vb \<Longrightarrow> map_of ?g k = Some vt \<Longrightarrow> vb \<noteq> vt \<Longrightarrow>
            (''owner'' @ '' field has different values for '' @ k,
             Scalar (Some (str_text vb)), Scalar (Some (str_text vt)))
              \<in> set (triples_of parcels_differences (Some ''Parcels''))" for k vb vt
    by (simp add: low)
  from c [of "''Domain''" "Some ''Owners''" "Some []"]
    c [of "''Length''" "Some ''50''" "Some ''60''"]
  have "(''owner field has different values for Domain'',
        Scalar (Some ''Owners''), Scalar (Some []))
        \<in> set (triples_of parcels_differences (Some ''Parcels''))"
    "(''owner field has different values for Length'',
        Scalar (Some ''50''), Scalar (Some ''60''))
        \<in> set (triples_of parcels_differences (Some ''Parcels''))"
    by (simp_all add: normal_field_def str_text_def)
  with a b f(2) g(2) same differ_parcels show ?thesis
    by simp
qed

end
